theory Spec2Isabelle
  imports Main "HOL-Library.Sublist"
begin

section \<open>The session and thread orchestration of the YouTube learning-mode service\<close>

text \<open>
  The source is one Go file holding two packages: \<open>handlers\<close> (the two HTTP handlers)
  and \<open>services\<close> (assistant creation, thread resolution, message posting, the run
  poller). Everything the code reaches outside itself is made explicit here:

  \<^item> a Go \<open>error\<close> is the text its \<open>Error()\<close> method gives, a \<open>string\<close>; a function
    returning \<open>(T, error)\<close> returns \<open>string + T\<close> with \<open>Inl\<close> the error, a function
    returning \<open>error\<close> returns \<open>string option\<close> with \<open>Some\<close> the error;
  \<^item> the Redis server, the OpenAI endpoint, the process environment and the package
    variable \<open>threadManagers\<close> are the fields of one record \<open>world\<close>, passed in and
    returned;
  \<^item> \<open>encoding/json\<close> and \<open>http.NewRequest\<close> are library code: they are the fields of
    a record \<open>lib\<close> that every function takes as its first argument;
  \<^item> the poll loop has no bound in the source, so it takes fuel: \<open>None\<close> means that the
    loop is still polling when the fuel is used up.

  Logging (\<open>log.Printf\<close>, \<open>fmt.Printf\<close>), the two-second sleep and the mutex have no
  effect on any value below and are left out; calls run one after the other.
\<close>

subsection \<open>Data of package services\<close>

record ThreadManager =
  ThreadID :: string

record InitializeRequest =
  SystemInstructions :: string
  VideoID :: string
  Title :: string
  Channel :: string
  Transcript :: string

record TextContent =
  Value :: string
  Annotations :: "string list"

record ContentFragment =
  Type :: string
  Text :: "TextContent option"

record Message =
  ID :: string
  Role :: string
  Content :: "ContentFragment list"

subsection \<open>The collaborators\<close>

text \<open>
  A Redis key holds a string or a list, and may carry an expiry in seconds. Time does
  not pass in the model: an expiry is recorded, and no key is ever removed.
\<close>

datatype redis_value = Str string | Lst "string list"

datatype redis_cmd = GET string | SET string string nat | RPUSH string string

record http_request =
  Method :: string
  URL :: string
  Header :: "(string \<times> string) list"
  Payload :: "string option"

text \<open>
  What \<open>client.Do\<close> gives: a transport error, or a response with its status code, the
  bytes of its body and the error (if any) that reading the body to its end meets.
\<close>

record http_response =
  StatusCode :: int
  Body :: string
  ReadErr :: "string option"

datatype http_result = SendFailed string | Responded http_response

record lib =
  Marshal :: "(string \<times> string) list \<Rightarrow> string + string"
  NewRequest :: "string \<Rightarrow> string \<Rightarrow> string option"
  DecodeID :: "http_response \<Rightarrow> string + string"
  DecodeRun :: "http_response \<Rightarrow> string + string \<times> string"
  DecodeStatus :: "http_response \<Rightarrow> string + string"
  UnmarshalMessages :: "string \<Rightarrow> string + Message list"

text \<open>
  \<open>provider w n\<close> is the answer to the \<open>n\<close>-th request sent, \<open>sent w\<close> the requests
  sent so far; \<open>store_fault w n\<close> is the error (if any) with which the \<open>n\<close>-th Redis
  command fails, \<open>store_log w\<close> the commands issued so far. A command that fails leaves
  the keys as they were.
\<close>

record world =
  environ :: "string \<Rightarrow> string"
  store :: "string \<rightharpoonup> redis_value \<times> nat option"
  store_fault :: "nat \<Rightarrow> string option"
  store_log :: "redis_cmd list"
  provider :: "nat \<Rightarrow> http_result"
  sent :: "http_request list"
  threadManagers :: "string \<rightharpoonup> ThreadManager"

definition WRONGTYPE :: string where
  "WRONGTYPE = ''WRONGTYPE Operation against a key holding the wrong kind of value''"

definition redis_Get :: "string \<Rightarrow> world \<Rightarrow> (string + string) \<times> world" where
  "redis_Get k w =
     (let w' = w\<lparr>store_log := store_log w @ [GET k]\<rparr> in
      case store_fault w (length (store_log w)) of
        Some e \<Rightarrow> (Inl e, w')
      | None \<Rightarrow>
          (case store w k of
             None \<Rightarrow> (Inl ''redis: nil'', w')
           | Some (Str v, t) \<Rightarrow> (Inr v, w')
           | Some (Lst xs, t) \<Rightarrow> (Inl WRONGTYPE, w')))"

definition redis_Set :: "string \<Rightarrow> string \<Rightarrow> nat \<Rightarrow> world \<Rightarrow> string option \<times> world" where
  "redis_Set k v ttl w =
     (let w' = w\<lparr>store_log := store_log w @ [SET k v ttl]\<rparr> in
      case store_fault w (length (store_log w)) of
        Some e \<Rightarrow> (Some e, w')
      | None \<Rightarrow> (None, w'\<lparr>store := (store w)(k \<mapsto> (Str v, Some ttl))\<rparr>))"

definition redis_RPush :: "string \<Rightarrow> string \<Rightarrow> world \<Rightarrow> string option \<times> world" where
  "redis_RPush k v w =
     (let w' = w\<lparr>store_log := store_log w @ [RPUSH k v]\<rparr> in
      case store_fault w (length (store_log w)) of
        Some e \<Rightarrow> (Some e, w')
      | None \<Rightarrow>
          (case store w k of
             None \<Rightarrow> (None, w'\<lparr>store := (store w)(k \<mapsto> (Lst [v], None))\<rparr>)
           | Some (Lst xs, t) \<Rightarrow> (None, w'\<lparr>store := (store w)(k \<mapsto> (Lst (xs @ [v]), t))\<rparr>)
           | Some (Str s, t) \<Rightarrow> (Some WRONGTYPE, w')))"

definition client_Do :: "http_request \<Rightarrow> world \<Rightarrow> http_result \<times> world" where
  "client_Do req w = (provider w (length (sent w)), w\<lparr>sent := sent w @ [req]\<rparr>)"

definition Hour :: nat where
  "Hour = 3600"

definition post_headers :: "world \<Rightarrow> (string \<times> string) list" where
  "post_headers w =
     [(''Content-Type'', ''application/json''),
      (''Authorization'', ''Bearer '' @ environ w ''OPENAI_API_KEY''),
      (''OpenAI-Beta'', ''assistants=v2'')]"

definition get_headers :: "world \<Rightarrow> (string \<times> string) list" where
  "get_headers w =
     [(''Authorization'', ''Bearer '' @ environ w ''OPENAI_API_KEY''),
      (''OpenAI-Beta'', ''assistants=v2'')]"

subsection \<open>Package services\<close>

definition assistants_url :: string where
  "assistants_url = ''https://api.openai.com/v1/assistants''"

definition threads_url :: string where
  "threads_url = ''https://api.openai.com/v1/threads''"

definition messages_url :: "string \<Rightarrow> string" where
  "messages_url tid = ''https://api.openai.com/v1/threads/'' @ tid @ ''/messages''"

definition runs_url :: "string \<Rightarrow> string" where
  "runs_url tid = ''https://api.openai.com/v1/threads/'' @ tid @ ''/runs''"

definition run_url :: "string \<Rightarrow> string \<Rightarrow> string" where
  "run_url tid runID = ''https://api.openai.com/v1/threads/'' @ tid @ ''/runs/'' @ runID"

definition instructions :: "InitializeRequest \<Rightarrow> string" where
  "instructions initReq =
     ''You are a helpful assistant for the video titled '' @ [CHR 39] @ Title initReq @ [CHR 39]
     @ '' by '' @ [CHR 39] @ Channel initReq @ [CHR 39]
     @ ''. Here is the transcript: '' @ Transcript initReq"

definition CreateAssistantWithMetadata ::
  "lib \<Rightarrow> InitializeRequest \<Rightarrow> world \<Rightarrow> (string + string) \<times> world" where
  "CreateAssistantWithMetadata L initReq w =
     (case Marshal L [(''model'', ''gpt-4o-mini''), (''name'', VideoID initReq),
                      (''instructions'', instructions initReq)] of
        Inl e \<Rightarrow> (Inl (''failed to marshal request body: '' @ e), w)
      | Inr body \<Rightarrow>
     (case NewRequest L ''POST'' assistants_url of
        Some e \<Rightarrow> (Inl (''failed to create HTTP request: '' @ e), w)
      | None \<Rightarrow>
     (case client_Do \<lparr>Method = ''POST'', URL = assistants_url, Header = post_headers w,
                       Payload = Some body\<rparr> w of
        (SendFailed e, w1) \<Rightarrow> (Inl (''failed to send request: '' @ e), w1)
      | (Responded resp, w1) \<Rightarrow>
          if StatusCode resp \<noteq> 200
          then (Inl (''failed to create assistant: '' @ Body resp), w1)
          else
     (case DecodeID L resp of
        Inl e \<Rightarrow> (Inl (''failed to decode response: '' @ e), w1)
      | Inr createID \<Rightarrow>
     (case redis_Set (''assistant_id:'' @ VideoID initReq) createID (24 * Hour) w1 of
        (Some e, w2) \<Rightarrow> (Inl (''failed to store assistant ID in Redis: '' @ e), w2)
      | (None, w2) \<Rightarrow> (Inr createID, w2))))))"

definition createThread :: "lib \<Rightarrow> world \<Rightarrow> (string + string) \<times> world" where
  "createThread L w =
     (case Marshal L [] of
        Inl e \<Rightarrow> (Inl (''failed to marshal request: '' @ e), w)
      | Inr body \<Rightarrow>
     (case NewRequest L ''POST'' threads_url of
        Some e \<Rightarrow> (Inl (''failed to create request: '' @ e), w)
      | None \<Rightarrow>
     (case client_Do \<lparr>Method = ''POST'', URL = threads_url, Header = post_headers w,
                       Payload = Some body\<rparr> w of
        (SendFailed e, w1) \<Rightarrow> (Inl (''failed to send request: '' @ e), w1)
      | (Responded resp, w1) \<Rightarrow>
          if StatusCode resp \<noteq> 200
          then (Inl (''failed to create thread: '' @ Body resp), w1)
          else
     (case DecodeID L resp of
        Inl e \<Rightarrow> (Inl (''failed to decode response: '' @ e), w1)
      | Inr threadID \<Rightarrow> (Inr threadID, w1)))))"

definition GetOrCreateThreadManager ::
  "lib \<Rightarrow> string \<Rightarrow> string \<Rightarrow> world \<Rightarrow> (string + ThreadManager) \<times> world" where
  "GetOrCreateThreadManager L videoID assistantID w =
     (let finish = (\<lambda>threadID w'.
            let tm = \<lparr>ThreadID = threadID\<rparr>
            in (Inr tm, w'\<lparr>threadManagers := (threadManagers w')(assistantID \<mapsto> tm)\<rparr>))
      in
      case redis_Get (''thread_id:'' @ videoID) w of
        (Inr threadID, w1) \<Rightarrow> finish threadID w1
      | (Inl err, w1) \<Rightarrow>
          if err = ''redis: nil''
          then
            (case createThread L w1 of
               (Inl e, w2) \<Rightarrow> (Inl (''failed to create thread: '' @ e), w2)
             | (Inr threadID, w2) \<Rightarrow>
                 (case redis_Set (''thread_id:'' @ videoID) threadID (24 * Hour) w2 of
                    (Some e, w3) \<Rightarrow> (Inl (''failed to store thread ID in Redis: '' @ e), w3)
                  | (None, w3) \<Rightarrow> finish threadID w3))
          else (Inl (''failed to retrieve thread ID from Redis: '' @ err), w1))"

definition AddMessageToThread ::
  "lib \<Rightarrow> ThreadManager \<Rightarrow> string \<Rightarrow> string \<Rightarrow> string \<Rightarrow> world \<Rightarrow> string option \<times> world" where
  "AddMessageToThread L tm role content videoID w =
     (case Marshal L [(''role'', role), (''content'', content)] of
        Inl e \<Rightarrow> (Some (''failed to marshal request body: '' @ e), w)
      | Inr body \<Rightarrow>
     (case NewRequest L ''POST'' (messages_url (ThreadID tm)) of
        Some e \<Rightarrow> (Some (''failed to create HTTP request: '' @ e), w)
      | None \<Rightarrow>
     (case client_Do \<lparr>Method = ''POST'', URL = messages_url (ThreadID tm),
                       Header = post_headers w, Payload = Some body\<rparr> w of
        (SendFailed e, w1) \<Rightarrow> (Some (''failed to send request: '' @ e), w1)
      | (Responded resp, w1) \<Rightarrow>
          if StatusCode resp \<noteq> 200
          then (Some (''failed to add message to thread: '' @ Body resp), w1)
          else
     (case redis_RPush (''interactions:'' @ videoID) content w1 of
        (Some e, w2) \<Rightarrow> (Some (''failed to store interaction in Redis: '' @ e), w2)
      | (None, w2) \<Rightarrow> (None, w2)))))"

definition GetRunStatus ::
  "lib \<Rightarrow> ThreadManager \<Rightarrow> string \<Rightarrow> world \<Rightarrow> (string + string) \<times> world" where
  "GetRunStatus L tm runID w =
     (case NewRequest L ''GET'' (run_url (ThreadID tm) runID) of
        Some e \<Rightarrow> (Inl (''failed to create HTTP request: '' @ e), w)
      | None \<Rightarrow>
     (case client_Do \<lparr>Method = ''GET'', URL = run_url (ThreadID tm) runID,
                       Header = get_headers w, Payload = None\<rparr> w of
        (SendFailed e, w1) \<Rightarrow> (Inl (''failed to send request: '' @ e), w1)
      | (Responded resp, w1) \<Rightarrow>
          if StatusCode resp \<noteq> 200
          then (Inl (''failed to get run status: '' @ Body resp), w1)
          else
     (case DecodeStatus L resp of
        Inl e \<Rightarrow> (Inl (''failed to decode response: '' @ e), w1)
      | Inr status \<Rightarrow> (Inr status, w1))))"

definition GetThreadMessages ::
  "lib \<Rightarrow> ThreadManager \<Rightarrow> world \<Rightarrow> (string + Message list) \<times> world" where
  "GetThreadMessages L tm w =
     (case NewRequest L ''GET'' (messages_url (ThreadID tm)) of
        Some e \<Rightarrow> (Inl (''failed to create HTTP request: '' @ e), w)
      | None \<Rightarrow>
     (case client_Do \<lparr>Method = ''GET'', URL = messages_url (ThreadID tm),
                       Header = get_headers w, Payload = None\<rparr> w of
        (SendFailed e, w1) \<Rightarrow> (Inl (''failed to send request: '' @ e), w1)
      | (Responded resp, w1) \<Rightarrow>
          if StatusCode resp \<noteq> 200
          then (Inl (''failed to get thread messages: '' @ Body resp), w1)
          else
     (case ReadErr resp of
        Some e \<Rightarrow> (Inl (''failed to read response body: '' @ e), w1)
      | None \<Rightarrow>
     (case UnmarshalMessages L (Body resp) of
        Inl e \<Rightarrow> (Inl (''failed to decode response: '' @ e), w1)
      | Inr msgs \<Rightarrow> (Inr msgs, w1)))))"

text \<open>
  The inner loop of \<open>RunAssistant\<close> over the fragments of one message, with
  \<open>assistantResponse\<close> as the accumulator.
\<close>

fun fragments_text :: "ContentFragment list \<Rightarrow> string \<Rightarrow> string" where
  "fragments_text [] assistantResponse = assistantResponse"
| "fragments_text (fragment # rest) assistantResponse =
     (case Text fragment of
        Some t \<Rightarrow>
          if Type fragment = ''text''
          then fragments_text rest (assistantResponse @ Value t)
          else fragments_text rest assistantResponse
      | None \<Rightarrow> fragments_text rest assistantResponse)"

text \<open>
  The loop of \<open>RunAssistant\<close> over the messages: it returns at the first message whose
  role is \<open>assistant\<close>, and reports that there is none when the list is used up.
\<close>

fun assistant_message ::
  "string \<Rightarrow> Message list \<Rightarrow> world \<Rightarrow> (string + string) \<times> world" where
  "assistant_message videoID [] w = (Inl ''no assistant message found'', w)"
| "assistant_message videoID (msg # msgs) w =
     (if Role msg = ''assistant''
      then
        (let assistantResponse = fragments_text (Content msg) [] in
         case redis_RPush (''interactions:'' @ videoID) (''Assistant: '' @ assistantResponse) w of
           (Some e, w1) \<Rightarrow> (Inl (''failed to store assistant response in Redis: '' @ e), w1)
         | (None, w1) \<Rightarrow> (Inr assistantResponse, w1))
      else assistant_message videoID msgs w)"

text \<open>
  The poll loop. Each round asks for the status of the run; only \<open>completed\<close> leaves
  the loop with the messages, every other status starts the next round.
\<close>

fun poll ::
  "nat \<Rightarrow> lib \<Rightarrow> ThreadManager \<Rightarrow> string \<Rightarrow> string \<Rightarrow> world
   \<Rightarrow> (string + string) option \<times> world" where
  "poll 0 L tm runID videoID w = (None, w)"
| "poll (Suc fuel) L tm runID videoID w =
     (case GetRunStatus L tm runID w of
        (Inl e, w1) \<Rightarrow> (Some (Inl (''failed to get run status: '' @ e)), w1)
      | (Inr status, w1) \<Rightarrow>
          if status = ''completed''
          then
            (case GetThreadMessages L tm w1 of
               (Inl e, w2) \<Rightarrow> (Some (Inl (''failed to get thread messages: '' @ e)), w2)
             | (Inr messages, w2) \<Rightarrow>
                 (case assistant_message videoID messages w2 of (r, w3) \<Rightarrow> (Some r, w3)))
          else poll fuel L tm runID videoID w1)"

definition RunAssistant ::
  "nat \<Rightarrow> lib \<Rightarrow> ThreadManager \<Rightarrow> string \<Rightarrow> string \<Rightarrow> world
   \<Rightarrow> (string + string) option \<times> world" where
  "RunAssistant fuel L tm assistantID videoID w =
     (case Marshal L [(''assistant_id'', assistantID)] of
        Inl e \<Rightarrow> (Some (Inl (''failed to marshal request body: '' @ e)), w)
      | Inr body \<Rightarrow>
     (case NewRequest L ''POST'' (runs_url (ThreadID tm)) of
        Some e \<Rightarrow> (Some (Inl (''failed to create HTTP request: '' @ e)), w)
      | None \<Rightarrow>
     (case client_Do \<lparr>Method = ''POST'', URL = runs_url (ThreadID tm),
                       Header = post_headers w, Payload = Some body\<rparr> w of
        (SendFailed e, w1) \<Rightarrow> (Some (Inl (''failed to send request: '' @ e)), w1)
      | (Responded resp, w1) \<Rightarrow>
          if StatusCode resp \<noteq> 200
          then (Some (Inl (''failed to run assistant: '' @ Body resp)), w1)
          else
     (case DecodeRun L resp of
        Inl e \<Rightarrow> (Some (Inl (''failed to decode response: '' @ e)), w1)
      | Inr (runID, runStatus) \<Rightarrow> poll fuel L tm runID videoID w1))))"

definition AskAssistantQuestion ::
  "nat \<Rightarrow> lib \<Rightarrow> string \<Rightarrow> string \<Rightarrow> string \<Rightarrow> world
   \<Rightarrow> (string + string) option \<times> world" where
  "AskAssistantQuestion fuel L videoID assistantID question w =
     (case GetOrCreateThreadManager L videoID assistantID w of
        (Inl e, w1) \<Rightarrow> (Some (Inl (''failed to get thread manager: '' @ e)), w1)
      | (Inr threadManager, w1) \<Rightarrow>
     (case AddMessageToThread L threadManager ''user'' question videoID w1 of
        (Some e, w2) \<Rightarrow> (Some (Inl (''failed to add message: '' @ e)), w2)
      | (None, w2) \<Rightarrow> RunAssistant fuel L threadManager assistantID videoID w2))"

subsection \<open>Package handlers\<close>

record InitRequest =
  init_VideoID :: string
  init_Title :: string
  init_Channel :: string
  init_Transcript :: "string list"

record QuestionRequest =
  question_VideoID :: string
  UserQuestion :: string

datatype reply_body = PlainText string | JsonObject "(string \<times> string) list"

record reply =
  status :: nat
  content_type :: string
  body :: reply_body

definition StatusBadRequest :: nat where
  "StatusBadRequest = 400"

definition StatusInternalServerError :: nat where
  "StatusInternalServerError = 500"

definition StatusOK :: nat where
  "StatusOK = 200"

text \<open>
  \<open>http.Error\<close> of the standard library: plain text, the message and a newline.
\<close>

definition http_Error :: "string \<Rightarrow> nat \<Rightarrow> reply" where
  "http_Error msg code =
     \<lparr>status = code, content_type = ''text/plain; charset=utf-8'',
      body = PlainText (msg @ [CHR 10])\<rparr>"

definition RespondWithError :: "nat \<Rightarrow> string \<Rightarrow> reply" where
  "RespondWithError code message =
     \<lparr>status = code, content_type = ''application/json'',
      body = JsonObject [(''error'', message)]\<rparr>"

text \<open>
  \<open>services.CreateGPTSession\<close> and \<open>services.FetchGPTResponse\<close> are called by the
  handlers and are not part of the source; a handler takes the one it calls as a
  parameter, over any state \<open>'w\<close> of the collaborators, and the decoder of the request
  body with it.
\<close>

definition InitializeGPTSession ::
  "(string \<Rightarrow> string + InitRequest)
   \<Rightarrow> (string \<Rightarrow> string \<Rightarrow> string \<Rightarrow> string list \<Rightarrow> 'w \<Rightarrow> string option \<times> 'w)
   \<Rightarrow> string \<Rightarrow> 'w \<Rightarrow> reply \<times> 'w" where
  "InitializeGPTSession Decode CreateGPTSession r_Body w =
     (case Decode r_Body of
        Inl err \<Rightarrow> (http_Error ''Invalid request payload'' StatusBadRequest, w)
      | Inr initReq \<Rightarrow>
     (case CreateGPTSession (init_VideoID initReq) (init_Title initReq) (init_Channel initReq)
             (init_Transcript initReq) w of
        (Some err, w1) \<Rightarrow>
          (http_Error ''Failed to initialize GPT session'' StatusInternalServerError, w1)
      | (None, w1) \<Rightarrow>
          (\<lparr>status = StatusOK, content_type = ''application/json'',
            body = JsonObject [(''message'', ''GPT session initialized'')]\<rparr>, w1)))"

definition AskGPTQuestion ::
  "(string \<Rightarrow> string + QuestionRequest)
   \<Rightarrow> (string \<Rightarrow> string \<Rightarrow> 'w \<Rightarrow> (string + string) \<times> 'w)
   \<Rightarrow> string \<Rightarrow> 'w \<Rightarrow> reply \<times> 'w" where
  "AskGPTQuestion Decode FetchGPTResponse r_Body w =
     (case Decode r_Body of
        Inl err \<Rightarrow> (RespondWithError StatusBadRequest ''Invalid request payload'', w)
      | Inr questionReq \<Rightarrow>
     (case FetchGPTResponse (question_VideoID questionReq) (UserQuestion questionReq) w of
        (Inl err, w1) \<Rightarrow>
          (RespondWithError StatusInternalServerError (''Failed to get AI response: '' @ err), w1)
      | (Inr aiResponse, w1) \<Rightarrow>
          (\<lparr>status = StatusOK, content_type = ''application/json'',
            body = JsonObject [(''response'', aiResponse)]\<rparr>, w1)))"

subsection \<open>Clients and observations\<close>

text \<open>
  A client that asks its questions one after the other, each call with the same fuel.
  A call that is still polling when its fuel is used up has not returned, and the
  client asks nothing after it.
\<close>

fun ask_all ::
  "nat \<Rightarrow> lib \<Rightarrow> string \<Rightarrow> string \<Rightarrow> string list \<Rightarrow> world
   \<Rightarrow> (string + string) option list \<times> world" where
  "ask_all fuel L videoID assistantID [] w = ([], w)"
| "ask_all fuel L videoID assistantID (question # questions) w =
     (case AskAssistantQuestion fuel L videoID assistantID question w of
        (None, w1) \<Rightarrow> ([None], w1)
      | (Some r, w1) \<Rightarrow>
          (case ask_all fuel L videoID assistantID questions w1 of
             (rs, w2) \<Rightarrow> (Some r # rs, w2)))"

text \<open>
  One session: the assistant is created once for the video, then the questions are
  asked. The world after it is the observation.
\<close>

definition session ::
  "nat \<Rightarrow> lib \<Rightarrow> InitializeRequest \<Rightarrow> string \<Rightarrow> string list \<Rightarrow> world \<Rightarrow> world" where
  "session fuel L initReq assistantID questions w =
     snd (ask_all fuel L (VideoID initReq) assistantID questions
            (snd (CreateAssistantWithMetadata L initReq w)))"

text \<open>
  The list stored under a key, empty when the key holds none; the Interaction Log of a
  video is the list under its interactions key.
\<close>

definition list_at :: "world \<Rightarrow> string \<Rightarrow> string list" where
  "list_at w k =
     (case store w k of
        Some (Lst xs, t) \<Rightarrow> xs
      | Some (Str s, t) \<Rightarrow> []
      | None \<Rightarrow> [])"

definition InteractionLog :: "world \<Rightarrow> string \<Rightarrow> string list" where
  "InteractionLog w videoID = list_at w (''interactions:'' @ videoID)"

definition expiry :: "world \<Rightarrow> string \<Rightarrow> nat option" where
  "expiry w k = (case store w k of Some (v, t) \<Rightarrow> t | None \<Rightarrow> None)"

text \<open>
  A request that did not succeed: no response at all, or a response whose status is
  not 200.
\<close>

fun remote_failed :: "http_result \<Rightarrow> bool" where
  "remote_failed (SendFailed e) = True"
| "remote_failed (Responded resp) = (StatusCode resp \<noteq> 200)"

text \<open>
  The status that a get-job-status call obtains when it is the \<open>i\<close>-th request sent.
\<close>

definition status_at :: "lib \<Rightarrow> world \<Rightarrow> nat \<Rightarrow> string option" where
  "status_at L w i =
     (case provider w i of
        SendFailed e \<Rightarrow> None
      | Responded resp \<Rightarrow>
          if StatusCode resp \<noteq> 200 then None
          else (case DecodeStatus L resp of Inl e \<Rightarrow> None | Inr s \<Rightarrow> Some s))"

text \<open>
  The message list that a list-messages call obtains when it is the \<open>i\<close>-th request.
\<close>

definition messages_at :: "lib \<Rightarrow> world \<Rightarrow> nat \<Rightarrow> Message list option" where
  "messages_at L w i =
     (case provider w i of
        SendFailed e \<Rightarrow> None
      | Responded resp \<Rightarrow>
          if StatusCode resp \<noteq> 200 then None
          else (case ReadErr resp of
                  Some e \<Rightarrow> None
                | None \<Rightarrow> (case UnmarshalMessages L (Body resp) of
                             Inl e \<Rightarrow> None | Inr msgs \<Rightarrow> Some msgs)))"

text \<open>The three requests of a run, as \<open>RunAssistant\<close> and the two getters build them.\<close>

definition start_request :: "ThreadManager \<Rightarrow> string \<Rightarrow> world \<Rightarrow> http_request" where
  "start_request tm payload w =
     \<lparr>Method = ''POST'', URL = runs_url (ThreadID tm), Header = post_headers w,
      Payload = Some payload\<rparr>"

definition status_request :: "ThreadManager \<Rightarrow> string \<Rightarrow> world \<Rightarrow> http_request" where
  "status_request tm runID w =
     \<lparr>Method = ''GET'', URL = run_url (ThreadID tm) runID, Header = get_headers w,
      Payload = None\<rparr>"

definition messages_request :: "ThreadManager \<Rightarrow> world \<Rightarrow> http_request" where
  "messages_request tm w =
     \<lparr>Method = ''GET'', URL = messages_url (ThreadID tm), Header = get_headers w,
      Payload = None\<rparr>"

text \<open>
  Between two worlds every Interaction Log was only appended to, and the expiry of its
  key is what it was.
\<close>

definition only_appended :: "world \<Rightarrow> world \<Rightarrow> bool" where
  "only_appended w w' =
     (\<forall>v. prefix (InteractionLog w v) (InteractionLog w' v)
          \<and> expiry w' (''interactions:'' @ v) = expiry w (''interactions:'' @ v))"

definition is_assistant_creation :: "http_request \<Rightarrow> bool" where
  "is_assistant_creation r = (Method r = ''POST'' \<and> URL r = assistants_url)"

definition is_thread_creation :: "http_request \<Rightarrow> bool" where
  "is_thread_creation r = (Method r = ''POST'' \<and> URL r = threads_url)"

definition assistant_creations :: "world \<Rightarrow> nat" where
  "assistant_creations w = length (filter is_assistant_creation (sent w))"

definition thread_creations :: "world \<Rightarrow> nat" where
  "thread_creations w = length (filter is_thread_creation (sent w))"

text \<open>
  The words of the specification for the reply. The list-messages request names no
  order, and the provider then lists the newest message first: the order in which the
  turns were made is the reverse of the list returned.
\<close>

definition chronological :: "Message list \<Rightarrow> Message list" where
  "chronological msgs = rev msgs"

definition most_recent_assistant :: "Message list \<Rightarrow> Message option" where
  "most_recent_assistant msgs =
     (case filter (\<lambda>m. Role m = ''assistant'') (chronological msgs) of
        [] \<Rightarrow> None
      | m # ms \<Rightarrow> Some (last (m # ms)))"

definition is_text :: "ContentFragment \<Rightarrow> bool" where
  "is_text fragment = (Type fragment = ''text'' \<and> Text fragment \<noteq> None)"

definition text_fragments :: "Message \<Rightarrow> string list" where
  "text_fragments m =
     map (\<lambda>fragment. case Text fragment of Some t \<Rightarrow> Value t | None \<Rightarrow> [])
       (filter is_text (Content m))"

text \<open>
  The log that a run of questions and their answers must leave: question, prefixed
  answer, question, prefixed answer, and so on.
\<close>

fun turns :: "string list \<Rightarrow> string list \<Rightarrow> string list" where
  "turns (q # qs) (a # as) = q # (''Assistant: '' @ a) # turns qs as"
| "turns qs as = []"

subsection \<open>Concrete collaborators\<close>

text \<open>
  A library whose codecs are as plain as can be: the body of a response is the
  identifier or the status itself, a new run is \<open>queued\<close>, and the message
  lists that decode are the ones named \<open>hello\<close>, \<open>bye\<close> and \<open>late\<close>. In \<open>hello\<close>
  the assistant's turn has two text fragments (and one image fragment between them) and
  is listed before the user's question; \<open>bye\<close> is the same thread two turns later. In
  \<open>late\<close> a user's turn is listed first, the assistant's turn with the two text
  fragments second, and an older assistant's turn last.
\<close>

definition hello_messages :: "Message list" where
  "hello_messages =
     [\<lparr>ID = ''msg_2'', Role = ''assistant'',
       Content = [\<lparr>Type = ''text'', Text = Some \<lparr>Value = ''Hello, '', Annotations = []\<rparr>\<rparr>,
                  \<lparr>Type = ''image_file'', Text = None\<rparr>,
                  \<lparr>Type = ''text'', Text = Some \<lparr>Value = ''world.'', Annotations = []\<rparr>\<rparr>]\<rparr>,
      \<lparr>ID = ''msg_1'', Role = ''user'',
       Content = [\<lparr>Type = ''text'', Text = Some \<lparr>Value = ''What is this?'', Annotations = []\<rparr>\<rparr>]\<rparr>]"

definition bye_messages :: "Message list" where
  "bye_messages =
     [\<lparr>ID = ''msg_4'', Role = ''assistant'',
       Content = [\<lparr>Type = ''text'', Text = Some \<lparr>Value = ''Goodbye.'', Annotations = []\<rparr>\<rparr>]\<rparr>,
      \<lparr>ID = ''msg_3'', Role = ''user'',
       Content = [\<lparr>Type = ''text'', Text = Some \<lparr>Value = ''And then?'', Annotations = []\<rparr>\<rparr>]\<rparr>,
      \<lparr>ID = ''msg_2'', Role = ''assistant'',
       Content = [\<lparr>Type = ''text'', Text = Some \<lparr>Value = ''Hello, world.'', Annotations = []\<rparr>\<rparr>]\<rparr>,
      \<lparr>ID = ''msg_1'', Role = ''user'',
       Content = [\<lparr>Type = ''text'', Text = Some \<lparr>Value = ''What is this?'', Annotations = []\<rparr>\<rparr>]\<rparr>]"

definition late_messages :: "Message list" where
  "late_messages =
     [\<lparr>ID = ''msg_3'', Role = ''user'',
       Content = [\<lparr>Type = ''text'', Text = Some \<lparr>Value = ''One more thing'', Annotations = []\<rparr>\<rparr>]\<rparr>,
      \<lparr>ID = ''msg_2'', Role = ''assistant'',
       Content = [\<lparr>Type = ''text'', Text = Some \<lparr>Value = ''Hello, '', Annotations = []\<rparr>\<rparr>,
                  \<lparr>Type = ''text'', Text = Some \<lparr>Value = ''world.'', Annotations = []\<rparr>\<rparr>]\<rparr>,
      \<lparr>ID = ''msg_1'', Role = ''user'',
       Content = [\<lparr>Type = ''text'', Text = Some \<lparr>Value = ''What is this?'', Annotations = []\<rparr>\<rparr>]\<rparr>,
      \<lparr>ID = ''msg_0'', Role = ''assistant'',
       Content = [\<lparr>Type = ''text'', Text = Some \<lparr>Value = ''Welcome.'', Annotations = []\<rparr>\<rparr>]\<rparr>]"

definition plain_lib :: lib where
  "plain_lib =
     \<lparr>Marshal = (\<lambda>fields. Inr (concat (map (\<lambda>(k, v). k @ ''='' @ v @ '';'') fields))),
      NewRequest = (\<lambda>method url. None),
      DecodeID = (\<lambda>resp. Inr (Body resp)),
      DecodeRun = (\<lambda>resp. Inr (Body resp, ''queued'')),
      DecodeStatus = (\<lambda>resp. Inr (Body resp)),
      UnmarshalMessages =
        (\<lambda>b. if b = ''hello'' then Inr hello_messages
             else if b = ''bye'' then Inr bye_messages
             else if b = ''late'' then Inr late_messages
             else Inl ''unexpected end of JSON input'')\<rparr>"

definition ok :: "string \<Rightarrow> http_result" where
  "ok b = Responded \<lparr>StatusCode = 200, Body = b, ReadErr = None\<rparr>"

definition refused :: "int \<Rightarrow> string \<Rightarrow> http_result" where
  "refused code b = Responded \<lparr>StatusCode = code, Body = b, ReadErr = None\<rparr>"

text \<open>
  A provider that answers from a script and then with one and the same answer for
  ever; a world with an empty store, no store fault and nothing sent.
\<close>

definition scripted :: "http_result list \<Rightarrow> http_result \<Rightarrow> nat \<Rightarrow> http_result" where
  "scripted rs after n = (if n < length rs then rs ! n else after)"

definition fresh_world :: "(nat \<Rightarrow> http_result) \<Rightarrow> world" where
  "fresh_world p =
     \<lparr>environ = (\<lambda>name. if name = ''OPENAI_API_KEY'' then ''sk-test'' else []),
      store = Map.empty, store_fault = (\<lambda>n. None), store_log = [],
      provider = p, sent = [], threadManagers = Map.empty\<rparr>"

text \<open>
  The answers to one question on a fresh store (create thread, post message, start
  job, three statuses, list messages), the answers to a second question after it, and
  the answers to a whole session, which starts with the creation of the assistant.
\<close>

definition one_question :: "http_result list" where
  "one_question =
     [ok ''thread_1'', ok [], ok ''run_1'', ok ''queued'', ok ''running'', ok ''completed'',
      ok ''hello'']"

definition second_question :: "http_result list" where
  "second_question = [ok [], ok ''run_2'', ok ''completed'', ok ''bye'']"

definition late_world :: world where
  "late_world =
     fresh_world
       (scripted [ok ''thread_1'', ok [], ok ''run_1'', ok ''queued'', ok ''running'',
                  ok ''completed'', ok ''late'']
          (SendFailed ''connection refused''))"

definition hello_world :: world where
  "hello_world = fresh_world (scripted one_question (SendFailed ''connection refused''))"

definition two_questions_world :: world where
  "two_questions_world =
     fresh_world (scripted (one_question @ second_question) (SendFailed ''connection refused''))"

definition session_world :: world where
  "session_world =
     fresh_world (scripted (ok ''asst_1'' # one_question @ second_question)
                    (SendFailed ''connection refused''))"

text \<open>A provider whose job never leaves \<open>failed\<close>, and one that refuses whatever
  comes after the creation of the assistant.\<close>

definition failed_world :: world where
  "failed_world = fresh_world (scripted [ok ''run_1''] (ok ''failed''))"

definition refusing_world :: world where
  "refusing_world = fresh_world (scripted [ok ''asst_1''] (refused 500 ''overloaded''))"

definition v1_request :: InitializeRequest where
  "v1_request =
     \<lparr>SystemInstructions = [], VideoID = ''v1'', Title = ''T'', Channel = ''C'',
      Transcript = ''line1 line2''\<rparr>"

section \<open>Lemmas\<close>

subsection \<open>The collaborators, field by field\<close>

lemma redis_Get_snd [simp]:
  "snd (redis_Get k w) = w\<lparr>store_log := store_log w @ [GET k]\<rparr>"
  by (simp add: redis_Get_def Let_def split: option.split redis_value.split prod.split)

lemma redis_Get_fst:
  "fst (redis_Get k w) =
     (case store_fault w (length (store_log w)) of
        Some e \<Rightarrow> Inl e
      | None \<Rightarrow> (case store w k of
                   None \<Rightarrow> Inl ''redis: nil''
                 | Some (Str v, t) \<Rightarrow> Inr v
                 | Some (Lst xs, t) \<Rightarrow> Inl WRONGTYPE))"
  by (simp add: redis_Get_def Let_def split: option.split redis_value.split prod.split)

lemma redis_Set_fields [simp]:
  "fst (redis_Set k v t w) = store_fault w (length (store_log w))"
  "store_log (snd (redis_Set k v t w)) = store_log w @ [SET k v t]"
  "store_fault (snd (redis_Set k v t w)) = store_fault w"
  "provider (snd (redis_Set k v t w)) = provider w"
  "sent (snd (redis_Set k v t w)) = sent w"
  "environ (snd (redis_Set k v t w)) = environ w"
  "threadManagers (snd (redis_Set k v t w)) = threadManagers w"
  by (simp_all add: redis_Set_def Let_def split: option.split)

lemma redis_Set_store:
  "store (snd (redis_Set k v t w)) =
     (case store_fault w (length (store_log w)) of
        Some e \<Rightarrow> store w
      | None \<Rightarrow> (store w)(k \<mapsto> (Str v, Some t)))"
  by (simp add: redis_Set_def Let_def split: option.split)

lemma redis_RPush_fields [simp]:
  "store_log (snd (redis_RPush k v w)) = store_log w @ [RPUSH k v]"
  "store_fault (snd (redis_RPush k v w)) = store_fault w"
  "provider (snd (redis_RPush k v w)) = provider w"
  "sent (snd (redis_RPush k v w)) = sent w"
  "environ (snd (redis_RPush k v w)) = environ w"
  "threadManagers (snd (redis_RPush k v w)) = threadManagers w"
  by (simp_all add: redis_RPush_def Let_def split: option.split redis_value.split prod.split)

lemma redis_RPush_other [simp]:
  "k' \<noteq> k \<Longrightarrow> store (snd (redis_RPush k v w)) k' = store w k'"
  by (simp add: redis_RPush_def Let_def split: option.split redis_value.split prod.split)

lemma client_Do_simps [simp]:
  "fst (client_Do req w) = provider w (length (sent w))"
  "snd (client_Do req w) = w\<lparr>sent := sent w @ [req]\<rparr>"
  by (simp_all add: client_Do_def)

subsection \<open>What each function leaves alone\<close>

lemma createThread_fields [simp]:
  "store (snd (createThread L w)) = store w"
  "store_log (snd (createThread L w)) = store_log w"
  "store_fault (snd (createThread L w)) = store_fault w"
  "provider (snd (createThread L w)) = provider w"
  "environ (snd (createThread L w)) = environ w"
  "threadManagers (snd (createThread L w)) = threadManagers w"
  by (simp_all add: createThread_def split_beta split: sum.split option.split http_result.split)

lemma CreateAssistant_fields [simp]:
  "store_fault (snd (CreateAssistantWithMetadata L r w)) = store_fault w"
  "provider (snd (CreateAssistantWithMetadata L r w)) = provider w"
  "environ (snd (CreateAssistantWithMetadata L r w)) = environ w"
  "threadManagers (snd (CreateAssistantWithMetadata L r w)) = threadManagers w"
  by (simp_all add: CreateAssistantWithMetadata_def split_beta
      split: sum.split option.split http_result.split)

lemma GetOrCreate_fields [simp]:
  "store_fault (snd (GetOrCreateThreadManager L v a w)) = store_fault w"
  "provider (snd (GetOrCreateThreadManager L v a w)) = provider w"
  "environ (snd (GetOrCreateThreadManager L v a w)) = environ w"
  by (simp_all add: GetOrCreateThreadManager_def Let_def split_beta split: sum.split option.split)

lemma AddMessage_fields [simp]:
  "store_fault (snd (AddMessageToThread L tm role c v w)) = store_fault w"
  "provider (snd (AddMessageToThread L tm role c v w)) = provider w"
  "environ (snd (AddMessageToThread L tm role c v w)) = environ w"
  "threadManagers (snd (AddMessageToThread L tm role c v w)) = threadManagers w"
  by (simp_all add: AddMessageToThread_def split_beta
      split: sum.split option.split http_result.split)

lemma GetRunStatus_fields [simp]:
  "store (snd (GetRunStatus L tm r w)) = store w"
  "store_log (snd (GetRunStatus L tm r w)) = store_log w"
  "store_fault (snd (GetRunStatus L tm r w)) = store_fault w"
  "provider (snd (GetRunStatus L tm r w)) = provider w"
  "environ (snd (GetRunStatus L tm r w)) = environ w"
  "threadManagers (snd (GetRunStatus L tm r w)) = threadManagers w"
  by (simp_all add: GetRunStatus_def split_beta split: sum.split option.split http_result.split)

lemma GetThreadMessages_fields [simp]:
  "store (snd (GetThreadMessages L tm w)) = store w"
  "store_log (snd (GetThreadMessages L tm w)) = store_log w"
  "store_fault (snd (GetThreadMessages L tm w)) = store_fault w"
  "provider (snd (GetThreadMessages L tm w)) = provider w"
  "environ (snd (GetThreadMessages L tm w)) = environ w"
  "threadManagers (snd (GetThreadMessages L tm w)) = threadManagers w"
  by (simp_all add: GetThreadMessages_def split_beta split: sum.split option.split http_result.split)

lemma assistant_message_fields [simp]:
  "store_fault (snd (assistant_message v msgs w)) = store_fault w"
  "provider (snd (assistant_message v msgs w)) = provider w"
  "environ (snd (assistant_message v msgs w)) = environ w"
  "threadManagers (snd (assistant_message v msgs w)) = threadManagers w"
  "sent (snd (assistant_message v msgs w)) = sent w"
  by (induction msgs) (simp_all add: Let_def split_beta split: option.split)

lemma poll_fields [simp]:
  "store_fault (snd (poll n L tm r v w)) = store_fault w"
  "provider (snd (poll n L tm r v w)) = provider w"
  "environ (snd (poll n L tm r v w)) = environ w"
  "threadManagers (snd (poll n L tm r v w)) = threadManagers w"
  by (induction n arbitrary: w) (simp_all add: split_beta split: sum.split)

lemma RunAssistant_fields [simp]:
  "store_fault (snd (RunAssistant n L tm a v w)) = store_fault w"
  "provider (snd (RunAssistant n L tm a v w)) = provider w"
  "environ (snd (RunAssistant n L tm a v w)) = environ w"
  "threadManagers (snd (RunAssistant n L tm a v w)) = threadManagers w"
  by (simp_all add: RunAssistant_def split_beta split: sum.split option.split http_result.split)

lemma Ask_fields [simp]:
  "store_fault (snd (AskAssistantQuestion n L v a q w)) = store_fault w"
  "provider (snd (AskAssistantQuestion n L v a q w)) = provider w"
  "environ (snd (AskAssistantQuestion n L v a q w)) = environ w"
  by (simp_all add: AskAssistantQuestion_def split_beta split: sum.split option.split)

lemma ask_all_fields [simp]:
  "store_fault (snd (ask_all n L v a qs w)) = store_fault w"
  "provider (snd (ask_all n L v a qs w)) = provider w"
  "environ (snd (ask_all n L v a qs w)) = environ w"
  by (induction qs arbitrary: w) (simp_all add: split_beta split: option.split)

subsection \<open>Results and fields of each function\<close>

lemma redis_RPush_fst:
  "fst (redis_RPush k v w) =
     (case store_fault w (length (store_log w)) of
        Some e \<Rightarrow> Some e
      | None \<Rightarrow> (case store w k of
                   None \<Rightarrow> None
                 | Some (Lst xs, t) \<Rightarrow> None
                 | Some (Str s, t) \<Rightarrow> Some WRONGTYPE))"
  by (simp add: redis_RPush_def Let_def split: option.split redis_value.split prod.split)

lemma redis_RPush_store:
  "store (snd (redis_RPush k v w)) =
     (case fst (redis_RPush k v w) of
        Some e \<Rightarrow> store w
      | None \<Rightarrow> (store w)(k \<mapsto> (Lst (list_at w k @ [v]), expiry w k)))"
  by (simp add: redis_RPush_def Let_def list_at_def expiry_def
      split: option.split redis_value.split prod.split)

text \<open>createThread\<close>

lemma createThread_fst:
  "fst (createThread L w) =
     (case Marshal L [] of
        Inl e \<Rightarrow> Inl (''failed to marshal request: '' @ e)
      | Inr payload \<Rightarrow>
     (case NewRequest L ''POST'' threads_url of
        Some e \<Rightarrow> Inl (''failed to create request: '' @ e)
      | None \<Rightarrow>
     (case provider w (length (sent w)) of
        SendFailed e \<Rightarrow> Inl (''failed to send request: '' @ e)
      | Responded resp \<Rightarrow>
          if StatusCode resp \<noteq> 200
          then Inl (''failed to create thread: '' @ Body resp)
          else (case DecodeID L resp of
                  Inl e \<Rightarrow> Inl (''failed to decode response: '' @ e)
                | Inr threadID \<Rightarrow> Inr threadID))))"
  by (simp add: createThread_def split_beta split: sum.split option.split http_result.split)

lemma createThread_sent:
  "sent (snd (createThread L w)) =
     (case Marshal L [] of
        Inl e \<Rightarrow> sent w
      | Inr payload \<Rightarrow>
     (case NewRequest L ''POST'' threads_url of
        Some e \<Rightarrow> sent w
      | None \<Rightarrow> sent w @ [\<lparr>Method = ''POST'', URL = threads_url, Header = post_headers w,
                             Payload = Some payload\<rparr>]))"
  by (simp add: createThread_def split_beta split: sum.split option.split http_result.split)

text \<open>GetOrCreateThreadManager\<close>

lemma GetOrCreate_fst:
  "fst (GetOrCreateThreadManager L v a w) =
     (case fst (redis_Get (''thread_id:'' @ v) w) of
        Inr threadID \<Rightarrow> Inr \<lparr>ThreadID = threadID\<rparr>
      | Inl err \<Rightarrow>
          if err = ''redis: nil''
          then (case fst (createThread L (snd (redis_Get (''thread_id:'' @ v) w))) of
                  Inl e \<Rightarrow> Inl (''failed to create thread: '' @ e)
                | Inr threadID \<Rightarrow>
                    (case store_fault w (Suc (length (store_log w))) of
                       Some e \<Rightarrow> Inl (''failed to store thread ID in Redis: '' @ e)
                     | None \<Rightarrow> Inr \<lparr>ThreadID = threadID\<rparr>))
          else Inl (''failed to retrieve thread ID from Redis: '' @ err))"
  by (simp add: GetOrCreateThreadManager_def Let_def split_beta split: sum.split option.split)

lemma GetOrCreate_sent:
  "sent (snd (GetOrCreateThreadManager L v a w)) =
     (if fst (redis_Get (''thread_id:'' @ v) w) = Inl ''redis: nil''
      then sent (snd (createThread L w)) else sent w)"
  by (simp add: GetOrCreateThreadManager_def Let_def split_beta createThread_sent post_headers_def
      split: sum.split option.split)

lemma GetOrCreate_store_log:
  "store_log (snd (GetOrCreateThreadManager L v a w)) =
     (case fst (redis_Get (''thread_id:'' @ v) w) of
        Inr threadID \<Rightarrow> store_log w @ [GET (''thread_id:'' @ v)]
      | Inl err \<Rightarrow>
          if err = ''redis: nil''
          then (case fst (createThread L (snd (redis_Get (''thread_id:'' @ v) w))) of
                  Inl e \<Rightarrow> store_log w @ [GET (''thread_id:'' @ v)]
                | Inr threadID \<Rightarrow>
                    store_log w @ [GET (''thread_id:'' @ v),
                                   SET (''thread_id:'' @ v) threadID (24 * Hour)])
          else store_log w @ [GET (''thread_id:'' @ v)])"
  by (simp add: GetOrCreateThreadManager_def Let_def split_beta split: sum.split option.split)

lemma GetOrCreate_store:
  "store (snd (GetOrCreateThreadManager L v a w)) =
     (case fst (redis_Get (''thread_id:'' @ v) w) of
        Inr threadID \<Rightarrow> store w
      | Inl err \<Rightarrow>
          if err = ''redis: nil''
          then (case fst (createThread L (snd (redis_Get (''thread_id:'' @ v) w))) of
                  Inl e \<Rightarrow> store w
                | Inr threadID \<Rightarrow>
                    (case store_fault w (Suc (length (store_log w))) of
                       Some e \<Rightarrow> store w
                     | None \<Rightarrow> (store w)(''thread_id:'' @ v \<mapsto> (Str threadID, Some (24 * Hour)))))
          else store w)"
  by (simp add: GetOrCreateThreadManager_def Let_def split_beta redis_Set_store
      split: sum.split option.split)


text \<open>CreateAssistantWithMetadata\<close>

lemma CreateAssistant_fst:
  "fst (CreateAssistantWithMetadata L r w) =
     (case Marshal L [(''model'', ''gpt-4o-mini''), (''name'', VideoID r),
                      (''instructions'', instructions r)] of
        Inl e \<Rightarrow> Inl (''failed to marshal request body: '' @ e)
      | Inr payload \<Rightarrow>
     (case NewRequest L ''POST'' assistants_url of
        Some e \<Rightarrow> Inl (''failed to create HTTP request: '' @ e)
      | None \<Rightarrow>
     (case provider w (length (sent w)) of
        SendFailed e \<Rightarrow> Inl (''failed to send request: '' @ e)
      | Responded resp \<Rightarrow>
          if StatusCode resp \<noteq> 200
          then Inl (''failed to create assistant: '' @ Body resp)
          else (case DecodeID L resp of
                  Inl e \<Rightarrow> Inl (''failed to decode response: '' @ e)
                | Inr createID \<Rightarrow>
                    (case store_fault w (length (store_log w)) of
                       Some e \<Rightarrow> Inl (''failed to store assistant ID in Redis: '' @ e)
                     | None \<Rightarrow> Inr createID)))))"
  by (simp add: CreateAssistantWithMetadata_def split_beta
      split: sum.split option.split http_result.split)

lemma CreateAssistant_sent:
  "sent (snd (CreateAssistantWithMetadata L r w)) =
     (case Marshal L [(''model'', ''gpt-4o-mini''), (''name'', VideoID r),
                      (''instructions'', instructions r)] of
        Inl e \<Rightarrow> sent w
      | Inr payload \<Rightarrow>
     (case NewRequest L ''POST'' assistants_url of
        Some e \<Rightarrow> sent w
      | None \<Rightarrow> sent w @ [\<lparr>Method = ''POST'', URL = assistants_url, Header = post_headers w,
                             Payload = Some payload\<rparr>]))"
  by (simp add: CreateAssistantWithMetadata_def split_beta
      split: sum.split option.split http_result.split)

lemma CreateAssistant_store:
  "store (snd (CreateAssistantWithMetadata L r w)) =
     (case fst (CreateAssistantWithMetadata L r w) of
        Inl e \<Rightarrow> store w
      | Inr createID \<Rightarrow>
          (store w)(''assistant_id:'' @ VideoID r \<mapsto> (Str createID, Some (24 * Hour))))"
  by (simp add: CreateAssistantWithMetadata_def split_beta redis_Set_store
      split: sum.split option.split http_result.split)

lemma CreateAssistant_store_log:
  "store_log (snd (CreateAssistantWithMetadata L r w)) =
     (case Marshal L [(''model'', ''gpt-4o-mini''), (''name'', VideoID r),
                      (''instructions'', instructions r)] of
        Inl e \<Rightarrow> store_log w
      | Inr payload \<Rightarrow>
     (case NewRequest L ''POST'' assistants_url of
        Some e \<Rightarrow> store_log w
      | None \<Rightarrow>
     (case provider w (length (sent w)) of
        SendFailed e \<Rightarrow> store_log w
      | Responded resp \<Rightarrow>
          if StatusCode resp \<noteq> 200 then store_log w
          else (case DecodeID L resp of
                  Inl e \<Rightarrow> store_log w
                | Inr createID \<Rightarrow>
                    store_log w @ [SET (''assistant_id:'' @ VideoID r) createID (24 * Hour)]))))"
  by (simp add: CreateAssistantWithMetadata_def split_beta
      split: sum.split option.split http_result.split)

text \<open>AddMessageToThread\<close>

lemma AddMessage_fst:
  "fst (AddMessageToThread L tm role c v w) =
     (case Marshal L [(''role'', role), (''content'', c)] of
        Inl e \<Rightarrow> Some (''failed to marshal request body: '' @ e)
      | Inr payload \<Rightarrow>
     (case NewRequest L ''POST'' (messages_url (ThreadID tm)) of
        Some e \<Rightarrow> Some (''failed to create HTTP request: '' @ e)
      | None \<Rightarrow>
     (case provider w (length (sent w)) of
        SendFailed e \<Rightarrow> Some (''failed to send request: '' @ e)
      | Responded resp \<Rightarrow>
          if StatusCode resp \<noteq> 200
          then Some (''failed to add message to thread: '' @ Body resp)
          else (case fst (redis_RPush (''interactions:'' @ v) c w) of
                  Some e \<Rightarrow> Some (''failed to store interaction in Redis: '' @ e)
                | None \<Rightarrow> None))))"
  by (simp add: AddMessageToThread_def split_beta redis_RPush_fst
      split: sum.split option.split http_result.split)

lemma AddMessage_sent:
  "sent (snd (AddMessageToThread L tm role c v w)) =
     (case Marshal L [(''role'', role), (''content'', c)] of
        Inl e \<Rightarrow> sent w
      | Inr payload \<Rightarrow>
     (case NewRequest L ''POST'' (messages_url (ThreadID tm)) of
        Some e \<Rightarrow> sent w
      | None \<Rightarrow> sent w @ [\<lparr>Method = ''POST'', URL = messages_url (ThreadID tm),
                             Header = post_headers w, Payload = Some payload\<rparr>]))"
  by (simp add: AddMessageToThread_def split_beta
      split: sum.split option.split http_result.split)

lemma AddMessage_store:
  "store (snd (AddMessageToThread L tm role c v w)) =
     (case fst (AddMessageToThread L tm role c v w) of
        Some e \<Rightarrow> store w
      | None \<Rightarrow> (store w)(''interactions:'' @ v \<mapsto>
                    (Lst (list_at w (''interactions:'' @ v) @ [c]), expiry w (''interactions:'' @ v))))"
  by (simp add: AddMessageToThread_def split_beta redis_RPush_store list_at_def expiry_def
      split: sum.split option.split http_result.split)

lemma AddMessage_store_log:
  "store_log (snd (AddMessageToThread L tm role c v w)) =
     (case Marshal L [(''role'', role), (''content'', c)] of
        Inl e \<Rightarrow> store_log w
      | Inr payload \<Rightarrow>
     (case NewRequest L ''POST'' (messages_url (ThreadID tm)) of
        Some e \<Rightarrow> store_log w
      | None \<Rightarrow>
     (case provider w (length (sent w)) of
        SendFailed e \<Rightarrow> store_log w
      | Responded resp \<Rightarrow>
          if StatusCode resp \<noteq> 200 then store_log w
          else store_log w @ [RPUSH (''interactions:'' @ v) c])))"
  by (simp add: AddMessageToThread_def split_beta
      split: sum.split option.split http_result.split)

text \<open>GetRunStatus, GetThreadMessages\<close>

lemma GetRunStatus_fst:
  "fst (GetRunStatus L tm rid w) =
     (case NewRequest L ''GET'' (run_url (ThreadID tm) rid) of
        Some e \<Rightarrow> Inl (''failed to create HTTP request: '' @ e)
      | None \<Rightarrow>
     (case provider w (length (sent w)) of
        SendFailed e \<Rightarrow> Inl (''failed to send request: '' @ e)
      | Responded resp \<Rightarrow>
          if StatusCode resp \<noteq> 200
          then Inl (''failed to get run status: '' @ Body resp)
          else (case DecodeStatus L resp of
                  Inl e \<Rightarrow> Inl (''failed to decode response: '' @ e)
                | Inr s \<Rightarrow> Inr s)))"
  by (simp add: GetRunStatus_def split_beta split: sum.split option.split http_result.split)

lemma GetRunStatus_sent:
  "sent (snd (GetRunStatus L tm rid w)) =
     (case NewRequest L ''GET'' (run_url (ThreadID tm) rid) of
        Some e \<Rightarrow> sent w
      | None \<Rightarrow> sent w @ [\<lparr>Method = ''GET'', URL = run_url (ThreadID tm) rid,
                             Header = get_headers w, Payload = None\<rparr>])"
  by (simp add: GetRunStatus_def split_beta split: sum.split option.split http_result.split)

lemma GetThreadMessages_fst:
  "fst (GetThreadMessages L tm w) =
     (case NewRequest L ''GET'' (messages_url (ThreadID tm)) of
        Some e \<Rightarrow> Inl (''failed to create HTTP request: '' @ e)
      | None \<Rightarrow>
     (case provider w (length (sent w)) of
        SendFailed e \<Rightarrow> Inl (''failed to send request: '' @ e)
      | Responded resp \<Rightarrow>
          if StatusCode resp \<noteq> 200
          then Inl (''failed to get thread messages: '' @ Body resp)
          else (case ReadErr resp of
                  Some e \<Rightarrow> Inl (''failed to read response body: '' @ e)
                | None \<Rightarrow>
                    (case UnmarshalMessages L (Body resp) of
                       Inl e \<Rightarrow> Inl (''failed to decode response: '' @ e)
                     | Inr msgs \<Rightarrow> Inr msgs))))"
  by (simp add: GetThreadMessages_def split_beta split: sum.split option.split http_result.split)

lemma GetThreadMessages_sent:
  "sent (snd (GetThreadMessages L tm w)) =
     (case NewRequest L ''GET'' (messages_url (ThreadID tm)) of
        Some e \<Rightarrow> sent w
      | None \<Rightarrow> sent w @ [\<lparr>Method = ''GET'', URL = messages_url (ThreadID tm),
                             Header = get_headers w, Payload = None\<rparr>])"
  by (simp add: GetThreadMessages_def split_beta split: sum.split option.split http_result.split)

text \<open>The loops\<close>

lemma assistant_message_fst:
  "fst (assistant_message v (msg # msgs) w) =
     (if Role msg = ''assistant''
      then (case fst (redis_RPush (''interactions:'' @ v)
                        (''Assistant: '' @ fragments_text (Content msg) []) w) of
              Some e \<Rightarrow> Inl (''failed to store assistant response in Redis: '' @ e)
            | None \<Rightarrow> Inr (fragments_text (Content msg) []))
      else fst (assistant_message v msgs w))"
  "fst (assistant_message v [] w) = Inl ''no assistant message found''"
  by (simp_all add: Let_def split_beta split: option.split)

lemma assistant_message_store:
  "store (snd (assistant_message v msgs w)) =
     (case fst (assistant_message v msgs w) of
        Inl e \<Rightarrow> store w
      | Inr r \<Rightarrow> (store w)(''interactions:'' @ v \<mapsto>
                    (Lst (list_at w (''interactions:'' @ v) @ [''Assistant: '' @ r]),
                     expiry w (''interactions:'' @ v))))"
  by (induction msgs) (simp_all add: Let_def split_beta redis_RPush_store split: option.split)

lemma poll_fst:
  "fst (poll 0 L tm rid v w) = None"
  "fst (poll (Suc n) L tm rid v w) =
     (case fst (GetRunStatus L tm rid w) of
        Inl e \<Rightarrow> Some (Inl (''failed to get run status: '' @ e))
      | Inr s \<Rightarrow>
          if s = ''completed''
          then (case fst (GetThreadMessages L tm (snd (GetRunStatus L tm rid w))) of
                  Inl e \<Rightarrow> Some (Inl (''failed to get thread messages: '' @ e))
                | Inr msgs \<Rightarrow>
                    Some (fst (assistant_message v msgs
                                 (snd (GetThreadMessages L tm (snd (GetRunStatus L tm rid w)))))))
          else fst (poll n L tm rid v (snd (GetRunStatus L tm rid w))))"
  by (simp_all add: split_beta split: sum.split)

lemma poll_snd:
  "snd (poll 0 L tm rid v w) = w"
  "snd (poll (Suc n) L tm rid v w) =
     (case fst (GetRunStatus L tm rid w) of
        Inl e \<Rightarrow> snd (GetRunStatus L tm rid w)
      | Inr s \<Rightarrow>
          if s = ''completed''
          then (case fst (GetThreadMessages L tm (snd (GetRunStatus L tm rid w))) of
                  Inl e \<Rightarrow> snd (GetThreadMessages L tm (snd (GetRunStatus L tm rid w)))
                | Inr msgs \<Rightarrow>
                    snd (assistant_message v msgs
                           (snd (GetThreadMessages L tm (snd (GetRunStatus L tm rid w))))))
          else snd (poll n L tm rid v (snd (GetRunStatus L tm rid w))))"
  by (simp_all add: split_beta split: sum.split)

lemma RunAssistant_eq:
  "RunAssistant n L tm a v w =
     (case Marshal L [(''assistant_id'', a)] of
        Inl e \<Rightarrow> (Some (Inl (''failed to marshal request body: '' @ e)), w)
      | Inr payload \<Rightarrow>
     (case NewRequest L ''POST'' (runs_url (ThreadID tm)) of
        Some e \<Rightarrow> (Some (Inl (''failed to create HTTP request: '' @ e)), w)
      | None \<Rightarrow>
     (case provider w (length (sent w)) of
        SendFailed e \<Rightarrow> (Some (Inl (''failed to send request: '' @ e)),
                         w\<lparr>sent := sent w @ [start_request tm payload w]\<rparr>)
      | Responded resp \<Rightarrow>
          if StatusCode resp \<noteq> 200
          then (Some (Inl (''failed to run assistant: '' @ Body resp)),
                w\<lparr>sent := sent w @ [start_request tm payload w]\<rparr>)
          else (case DecodeRun L resp of
                  Inl e \<Rightarrow> (Some (Inl (''failed to decode response: '' @ e)),
                            w\<lparr>sent := sent w @ [start_request tm payload w]\<rparr>)
                | Inr run \<Rightarrow> poll n L tm (fst run) v
                              (w\<lparr>sent := sent w @ [start_request tm payload w]\<rparr>)))))"
  by (simp add: RunAssistant_def split_beta start_request_def
      split: sum.split option.split http_result.split)

lemma Ask_fst:
  "fst (AskAssistantQuestion n L v a q w) =
     (case fst (GetOrCreateThreadManager L v a w) of
        Inl e \<Rightarrow> Some (Inl (''failed to get thread manager: '' @ e))
      | Inr tm \<Rightarrow>
          (case fst (AddMessageToThread L tm ''user'' q v (snd (GetOrCreateThreadManager L v a w))) of
             Some e \<Rightarrow> Some (Inl (''failed to add message: '' @ e))
           | None \<Rightarrow>
               fst (RunAssistant n L tm a v
                     (snd (AddMessageToThread L tm ''user'' q v
                            (snd (GetOrCreateThreadManager L v a w)))))))"
  by (simp add: AskAssistantQuestion_def split_beta split: sum.split option.split)

lemma Ask_snd:
  "snd (AskAssistantQuestion n L v a q w) =
     (case fst (GetOrCreateThreadManager L v a w) of
        Inl e \<Rightarrow> snd (GetOrCreateThreadManager L v a w)
      | Inr tm \<Rightarrow>
          (case fst (AddMessageToThread L tm ''user'' q v (snd (GetOrCreateThreadManager L v a w))) of
             Some e \<Rightarrow> snd (AddMessageToThread L tm ''user'' q v (snd (GetOrCreateThreadManager L v a w)))
           | None \<Rightarrow>
               snd (RunAssistant n L tm a v
                     (snd (AddMessageToThread L tm ''user'' q v
                            (snd (GetOrCreateThreadManager L v a w)))))))"
  by (simp add: AskAssistantQuestion_def split_beta split: sum.split option.split)


lemma assistant_message_store_log:
  "store_log (snd (assistant_message v msgs w)) =
     (case find (\<lambda>m. Role m = ''assistant'') msgs of
        None \<Rightarrow> store_log w
      | Some m \<Rightarrow> store_log w @ [RPUSH (''interactions:'' @ v)
                                     (''Assistant: '' @ fragments_text (Content m) [])])"
  by (induction msgs) (simp_all add: Let_def split_beta split: option.split)

lemma AddMessage_failed:
  "remote_failed (provider w (length (sent w))) \<Longrightarrow>
     (\<exists>e. fst (AddMessageToThread L tm role content videoID w) = Some e)
     \<and> store (snd (AddMessageToThread L tm role content videoID w)) = store w
     \<and> store_log (snd (AddMessageToThread L tm role content videoID w)) = store_log w"
  by (cases "provider w (length (sent w))")
     (simp_all add: AddMessageToThread_def split_beta split: sum.split option.split)

lemma CreateAssistant_write_fails:
  assumes "Marshal L [(''model'', ''gpt-4o-mini''), (''name'', VideoID initReq),
               (''instructions'', instructions initReq)] = Inr payload"
    and "NewRequest L ''POST'' assistants_url = None"
    and "provider w (length (sent w)) = Responded resp" and "StatusCode resp = 200"
    and "DecodeID L resp = Inr createID"
    and "store_fault w (length (store_log w)) = Some e"
  shows "fst (CreateAssistantWithMetadata L initReq w)
          = Inl (''failed to store assistant ID in Redis: '' @ e)"
    and "store (snd (CreateAssistantWithMetadata L initReq w)) = store w"
  using assms by (simp_all add: CreateAssistantWithMetadata_def split_beta redis_Set_store)

lemma GetOrCreate_write_fails:
  assumes "fst (redis_Get (''thread_id:'' @ videoID) w) = Inl ''redis: nil''"
    and "createThread L (snd (redis_Get (''thread_id:'' @ videoID) w)) = (Inr threadID, w2)"
    and "fst (redis_Set (''thread_id:'' @ videoID) threadID (24 * Hour) w2) = Some e"
  shows "fst (GetOrCreateThreadManager L videoID assistantID w)
          = Inl (''failed to store thread ID in Redis: '' @ e)"
    and "store (snd (GetOrCreateThreadManager L videoID assistantID w)) = store w"
proof -
  let ?w1 = "snd (redis_Get (''thread_id:'' @ videoID) w)"
  have c: "fst (createThread L ?w1) = Inr threadID" and w2: "w2 = snd (createThread L ?w1)"
    using assms(2) by simp_all
  have f: "store_fault w2 (length (store_log w2)) = Some e"
    using assms(3) by simp
  show "fst (GetOrCreateThreadManager L videoID assistantID w)
          = Inl (''failed to store thread ID in Redis: '' @ e)"
    using assms(1) c f unfolding w2
    by (simp add: GetOrCreateThreadManager_def split_beta Let_def)
  show "store (snd (GetOrCreateThreadManager L videoID assistantID w)) = store w"
    using assms(1) c f unfolding w2
    by (simp add: GetOrCreateThreadManager_def split_beta Let_def redis_Set_store)
qed

lemma redis_Get_map:
  "redis_Get k (w\<lparr>threadManagers := m\<rparr>) =
     (fst (redis_Get k w), (snd (redis_Get k w))\<lparr>threadManagers := m\<rparr>)"
  by (simp add: redis_Get_def Let_def split: option.split redis_value.split prod.split)

lemma redis_Set_map:
  "redis_Set k v t (w\<lparr>threadManagers := m\<rparr>) =
     (fst (redis_Set k v t w), (snd (redis_Set k v t w))\<lparr>threadManagers := m\<rparr>)"
  by (simp add: redis_Set_def Let_def split: option.split)

lemma createThread_map:
  "createThread L (w\<lparr>threadManagers := m\<rparr>) =
     (fst (createThread L w), (snd (createThread L w))\<lparr>threadManagers := m\<rparr>)"
  by (simp add: createThread_def client_Do_def post_headers_def
      split: sum.split option.split http_result.split)

lemma GetOrCreate_map:
  "fst (GetOrCreateThreadManager L v a (w\<lparr>threadManagers := m\<rparr>))
     = fst (GetOrCreateThreadManager L v a w)"
  "(snd (GetOrCreateThreadManager L v a (w\<lparr>threadManagers := m\<rparr>)))\<lparr>threadManagers := m'\<rparr>
     = (snd (GetOrCreateThreadManager L v a w))\<lparr>threadManagers := m'\<rparr>"
  by (simp_all add: GetOrCreateThreadManager_def Let_def redis_Get_map redis_Set_map
      createThread_map split_beta split: sum.split option.split)

lemma GetOrCreate_hit:
  "fst (redis_Get (''thread_id:'' @ v) w) = Inr t \<Longrightarrow>
     GetOrCreateThreadManager L v a w =
       (Inr \<lparr>ThreadID = t\<rparr>,
        w\<lparr>store_log := store_log w @ [GET (''thread_id:'' @ v)],
          threadManagers := (threadManagers w)(a \<mapsto> \<lparr>ThreadID = t\<rparr>)\<rparr>)"
  by (simp add: GetOrCreateThreadManager_def Let_def split_beta)

subsection \<open>The store\<close>

lemma list_at_cong: "store w' = store w \<Longrightarrow> list_at w' k = list_at w k"
  by (simp add: list_at_def)

lemma expiry_cong: "store w' = store w \<Longrightarrow> expiry w' k = expiry w k"
  by (simp add: expiry_def)

lemma redis_RPush_log:
  "fst (redis_RPush k c w) = None \<Longrightarrow>
     store (snd (redis_RPush k c w)) = (store w)(k \<mapsto> (Lst (list_at w k @ [c]), expiry w k))"
  by (simp add: redis_RPush_def Let_def list_at_def expiry_def
      split: option.splits redis_value.splits prod.splits)

lemma redis_RPush_failed:
  "fst (redis_RPush k c w) = Some e \<Longrightarrow> store (snd (redis_RPush k c w)) = store w"
  by (simp add: redis_RPush_def Let_def split: option.splits redis_value.splits prod.splits)

lemma GetOrCreate_store_other:
  "k \<noteq> ''thread_id:'' @ v \<Longrightarrow> store (snd (GetOrCreateThreadManager L v a w)) k = store w k"
  by (simp add: GetOrCreateThreadManager_def Let_def split_beta redis_Set_store
      split: sum.split option.split)

lemma AddMessage_ok:
  "fst (AddMessageToThread L tm role c v w) = None \<Longrightarrow>
     store (snd (AddMessageToThread L tm role c v w)) =
       (store w)(''interactions:'' @ v \<mapsto> (Lst (InteractionLog w v @ [c]), expiry w (''interactions:'' @ v)))"
  by (simp add: AddMessageToThread_def split_beta redis_RPush_log InteractionLog_def list_at_def expiry_def
      split: sum.splits option.splits http_result.splits if_splits)

lemma AddMessage_store_other:
  "k \<noteq> ''interactions:'' @ v \<Longrightarrow> store (snd (AddMessageToThread L tm role c v w)) k = store w k"
  by (simp add: AddMessageToThread_def split_beta
      split: sum.split option.split http_result.split)

lemma assistant_message_ok:
  "fst (assistant_message v msgs w) = Inr r \<Longrightarrow>
     store (snd (assistant_message v msgs w)) =
       (store w)(''interactions:'' @ v \<mapsto>
          (Lst (InteractionLog w v @ [''Assistant: '' @ r]), expiry w (''interactions:'' @ v)))"
  by (induction msgs)
     (simp_all add: Let_def split_beta redis_RPush_log InteractionLog_def split: option.splits if_splits)

lemma assistant_message_store_other:
  "k \<noteq> ''interactions:'' @ v \<Longrightarrow> store (snd (assistant_message v msgs w)) k = store w k"
  by (induction msgs) (simp_all add: Let_def split_beta split: option.split)

lemma poll_ok:
  "fst (poll n L tm rid v w) = Some (Inr r) \<Longrightarrow>
     store (snd (poll n L tm rid v w)) =
       (store w)(''interactions:'' @ v \<mapsto>
          (Lst (InteractionLog w v @ [''Assistant: '' @ r]), expiry w (''interactions:'' @ v)))"
proof (induction n arbitrary: w)
  case 0
  then show ?case by simp
next
  case (Suc n)
  let ?w1 = "snd (GetRunStatus L tm rid w)"
  show ?case
  proof (cases "fst (GetRunStatus L tm rid w)")
    case (Inl e)
    with Suc.prems show ?thesis by (simp add: split_beta)
  next
    case (Inr s)
    show ?thesis
    proof (cases "s = ''completed''")
      case True
      let ?w2 = "snd (GetThreadMessages L tm ?w1)"
      from Suc.prems Inr True obtain msgs where
        m: "fst (GetThreadMessages L tm ?w1) = Inr msgs"
        and a: "fst (assistant_message v msgs ?w2) = Inr r"
        by (auto simp: split_beta split: sum.splits)
      have "store (snd (assistant_message v msgs ?w2)) =
          (store ?w2)(''interactions:'' @ v \<mapsto>
            (Lst (InteractionLog ?w2 v @ [''Assistant: '' @ r]), expiry ?w2 (''interactions:'' @ v)))"
        using a by (rule assistant_message_ok)
      then show ?thesis
        using Inr True m by (simp add: split_beta InteractionLog_def list_at_def expiry_def)
    next
      case False
      with Suc.prems Inr have "fst (poll n L tm rid v ?w1) = Some (Inr r)"
        by (simp add: split_beta)
      from Suc.IH[OF this] show ?thesis
        using Inr False by (simp add: split_beta InteractionLog_def list_at_def expiry_def)
    qed
  qed
qed

lemma poll_store_other:
  "k \<noteq> ''interactions:'' @ v \<Longrightarrow> store (snd (poll n L tm rid v w)) k = store w k"
  by (induction n arbitrary: w)
     (simp_all add: split_beta assistant_message_store_other split: sum.split)

lemma RunAssistant_ok_cases:
  assumes "fst (RunAssistant n L tm a v w) = Some (Inr r)"
  obtains payload resp rid st where
    "Marshal L [(''assistant_id'', a)] = Inr payload"
    "NewRequest L ''POST'' (runs_url (ThreadID tm)) = None"
    "provider w (length (sent w)) = Responded resp" "StatusCode resp = 200"
    "DecodeRun L resp = Inr (rid, st)"
    "RunAssistant n L tm a v w =
       poll n L tm rid v
         (w\<lparr>sent := sent w @ [\<lparr>Method = ''POST'', URL = runs_url (ThreadID tm),
                                 Header = post_headers w, Payload = Some payload\<rparr>]\<rparr>)"
  using assms
  by (auto simp: RunAssistant_def split_beta
      split: sum.splits option.splits http_result.splits if_splits)

lemma RunAssistant_ok:
  assumes "fst (RunAssistant n L tm a v w) = Some (Inr r)"
  shows "store (snd (RunAssistant n L tm a v w)) =
       (store w)(''interactions:'' @ v \<mapsto>
          (Lst (InteractionLog w v @ [''Assistant: '' @ r]), expiry w (''interactions:'' @ v)))"
proof -
  from assms obtain rid w1 where
    eq: "RunAssistant n L tm a v w = poll n L tm rid v w1" and st: "store w1 = store w"
    by (rule RunAssistant_ok_cases) simp
  from assms eq have "fst (poll n L tm rid v w1) = Some (Inr r)" by simp
  from poll_ok[OF this] show ?thesis
    unfolding eq by (simp add: InteractionLog_def list_at_cong[OF st] expiry_cong[OF st] st)
qed

lemma RunAssistant_store_other:
  "k \<noteq> ''interactions:'' @ v \<Longrightarrow> store (snd (RunAssistant n L tm a v w)) k = store w k"
  by (simp add: RunAssistant_def split_beta poll_store_other
      split: sum.split option.split http_result.split)

lemma Ask_ok:
  assumes "fst (AskAssistantQuestion n L v a q w) = Some (Inr r)"
  shows "InteractionLog (snd (AskAssistantQuestion n L v a q w)) v
           = InteractionLog w v @ [q, ''Assistant: '' @ r]"
    and "expiry (snd (AskAssistantQuestion n L v a q w)) (''interactions:'' @ v)
           = expiry w (''interactions:'' @ v)"
proof -
  let ?g = "GetOrCreateThreadManager L v a w"
  from assms obtain tm where g: "fst ?g = Inr tm"
    by (auto simp: AskAssistantQuestion_def split_beta split: sum.splits)
  let ?m = "AddMessageToThread L tm ''user'' q v (snd ?g)"
  from assms g have m: "fst ?m = None"
    by (auto simp: AskAssistantQuestion_def split_beta split: option.splits)
  let ?r = "RunAssistant n L tm a v (snd ?m)"
  from assms g m have r: "fst ?r = Some (Inr r)"
    and w: "snd (AskAssistantQuestion n L v a q w) = snd ?r"
    by (simp_all add: AskAssistantQuestion_def split_beta)
  note sm = AddMessage_ok[OF m] and sr = RunAssistant_ok[OF r]
  have lm: "InteractionLog (snd ?m) v = InteractionLog w v @ [q]"
    using sm by (simp add: InteractionLog_def list_at_def GetOrCreate_store_other)
  have em: "expiry (snd ?m) (''interactions:'' @ v) = expiry w (''interactions:'' @ v)"
    using sm by (simp add: expiry_def GetOrCreate_store_other)
  show "InteractionLog (snd (AskAssistantQuestion n L v a q w)) v
           = InteractionLog w v @ [q, ''Assistant: '' @ r]"
    unfolding w using sr lm by (simp add: InteractionLog_def list_at_def)
  show "expiry (snd (AskAssistantQuestion n L v a q w)) (''interactions:'' @ v)
           = expiry w (''interactions:'' @ v)"
    unfolding w using sr em by (simp add: expiry_def)
qed

declare poll.simps(2) [simp del]

subsection \<open>The poll loop\<close>

lemma GetRunStatus_Inr:
  "fst (GetRunStatus L tm rid w) = Inr s \<longleftrightarrow>
     NewRequest L ''GET'' (run_url (ThreadID tm) rid) = None \<and> status_at L w (length (sent w)) = Some s"
  by (simp add: GetRunStatus_fst status_at_def split: option.split http_result.split sum.split)

lemma GetRunStatus_Inr_sent:
  "fst (GetRunStatus L tm rid w) = Inr s \<Longrightarrow>
     sent (snd (GetRunStatus L tm rid w)) = sent w @ [status_request tm rid w]"
  by (simp add: GetRunStatus_Inr GetRunStatus_sent status_request_def)

lemma GetThreadMessages_Inr:
  "fst (GetThreadMessages L tm w) = Inr msgs \<longleftrightarrow>
     NewRequest L ''GET'' (messages_url (ThreadID tm)) = None \<and> messages_at L w (length (sent w)) = Some msgs"
  by (simp add: GetThreadMessages_fst messages_at_def split: option.split http_result.split sum.split)

lemma GetThreadMessages_Inr_sent:
  "fst (GetThreadMessages L tm w) = Inr msgs \<Longrightarrow>
     sent (snd (GetThreadMessages L tm w)) = sent w @ [messages_request tm w]"
  by (simp add: GetThreadMessages_Inr GetThreadMessages_sent messages_request_def)

lemma status_at_GetRunStatus [simp]:
  "status_at L (snd (GetRunStatus L' tm rid w)) i = status_at L w i"
  by (simp add: status_at_def)

lemma messages_at_GetRunStatus [simp]:
  "messages_at L (snd (GetRunStatus L' tm rid w)) i = messages_at L w i"
  by (simp add: messages_at_def)

lemma poll_sent_prefix:
  "\<exists>rs. sent (snd (poll n L tm rid v w)) = sent w @ rs"
proof (induction n arbitrary: w)
  case 0
  then show ?case by simp
next
  case (Suc n)
  obtain rs where rs: "sent (snd (poll n L tm rid v (snd (GetRunStatus L tm rid w))))
      = sent (snd (GetRunStatus L tm rid w)) @ rs"
    using Suc.IH by blast
  show ?case
    by (simp add: poll_snd GetRunStatus_sent GetThreadMessages_sent rs del: poll.simps
        split: sum.split option.split)
qed

lemma poll_Suc_sent_prefix:
  assumes "fst (GetRunStatus L tm rid w) = Inr s"
  shows "\<exists>rs. sent (snd (poll (Suc n) L tm rid v w)) = sent (snd (GetRunStatus L tm rid w)) @ rs"
proof (cases "s = ''completed''")
  case True
  with assms show ?thesis
    by (simp add: poll_snd GetThreadMessages_sent del: poll.simps split: sum.split option.split)
next
  case False
  with assms show ?thesis
    using poll_sent_prefix[of n L tm rid v "snd (GetRunStatus L tm rid w)"]
    by (simp add: poll_snd del: poll.simps)
qed

text \<open>A reply comes out of the loop only in the round that sees \<open>completed\<close>.\<close>

lemma poll_reply_completed:
  "fst (poll n L tm rid v w) = Some (Inr r) \<Longrightarrow>
     \<exists>k<n. status_at L w (length (sent w) + k) = Some ''completed''
        \<and> (\<forall>j<k. \<exists>s. status_at L w (length (sent w) + j) = Some s \<and> s \<noteq> ''completed'')
        \<and> length (sent w) + k < length (sent (snd (poll n L tm rid v w)))
        \<and> sent (snd (poll n L tm rid v w)) ! (length (sent w) + k) = status_request tm rid w"
proof (induction n arbitrary: w)
  case 0
  then show ?case by simp
next
  case (Suc n)
  let ?w1 = "snd (GetRunStatus L tm rid w)"
  from Suc.prems obtain s where s: "fst (GetRunStatus L tm rid w) = Inr s"
    by (auto simp: poll_fst simp del: poll.simps split: sum.splits)
  then have st: "status_at L w (length (sent w)) = Some s"
    and sent1: "sent ?w1 = sent w @ [status_request tm rid w]"
    by (simp_all add: GetRunStatus_Inr GetRunStatus_Inr_sent)
  show ?case
  proof (cases "s = ''completed''")
    case True
    obtain rs where rs: "sent (snd (poll (Suc n) L tm rid v w)) = sent ?w1 @ rs"
      using poll_Suc_sent_prefix[OF s] by blast
    have "status_at L w (length (sent w) + 0) = Some ''completed''"
      using st True by simp
    moreover have "length (sent w) + 0 < length (sent (snd (poll (Suc n) L tm rid v w)))"
      by (simp add: rs sent1)
    moreover have "sent (snd (poll (Suc n) L tm rid v w)) ! (length (sent w) + 0)
        = status_request tm rid w"
      by (simp add: rs sent1 nth_append)
    ultimately show ?thesis by (intro exI[of _ 0]) simp
  next
    case False
    with Suc.prems s have "fst (poll n L tm rid v ?w1) = Some (Inr r)"
      and eq: "snd (poll (Suc n) L tm rid v w) = snd (poll n L tm rid v ?w1)"
      by (simp_all add: poll_fst poll_snd del: poll.simps)
    from Suc.IH[OF this(1)] obtain k where k: "k < n"
      "status_at L ?w1 (length (sent ?w1) + k) = Some ''completed''"
      "\<forall>j<k. \<exists>s. status_at L ?w1 (length (sent ?w1) + j) = Some s \<and> s \<noteq> ''completed''"
      "length (sent ?w1) + k < length (sent (snd (poll n L tm rid v ?w1)))"
      "sent (snd (poll n L tm rid v ?w1)) ! (length (sent ?w1) + k) = status_request tm rid ?w1"
      by blast
    have earlier: "\<exists>s. status_at L w (length (sent w) + j) = Some s \<and> s \<noteq> ''completed''"
      if "j < Suc k" for j
    proof (cases j)
      case 0
      with st False show ?thesis by simp
    next
      case (Suc j')
      with that k(3) show ?thesis by (simp add: sent1)
    qed
    have "Suc k < Suc n" using k(1) by simp
    moreover have "status_at L w (length (sent w) + Suc k) = Some ''completed''"
      using k(2) by (simp add: sent1)
    moreover have "length (sent w) + Suc k < length (sent (snd (poll (Suc n) L tm rid v w)))"
      using k(4) by (simp add: eq sent1)
    moreover have "sent (snd (poll (Suc n) L tm rid v w)) ! (length (sent w) + Suc k)
        = status_request tm rid w"
      using k(5) by (simp add: eq sent1 status_request_def get_headers_def)
    ultimately show ?thesis using earlier by blast
  qed
qed

text \<open>While every status is another one, the loop goes on.\<close>

lemma poll_pending:
  assumes "NewRequest L ''GET'' (run_url (ThreadID tm) rid) = None"
    and "\<forall>i\<ge>length (sent w). \<exists>s. status_at L w i = Some s \<and> s \<noteq> ''completed''"
  shows "fst (poll n L tm rid v w) = None"
  using assms(2)
proof (induction n arbitrary: w)
  case 0
  then show ?case by simp
next
  case (Suc n)
  from Suc.prems obtain s where s: "status_at L w (length (sent w)) = Some s" "s \<noteq> ''completed''"
    by blast
  then have g: "fst (GetRunStatus L tm rid w) = Inr s"
    using assms(1) by (simp add: GetRunStatus_Inr)
  let ?w1 = "snd (GetRunStatus L tm rid w)"
  have "\<forall>i\<ge>length (sent ?w1). \<exists>s. status_at L ?w1 i = Some s \<and> s \<noteq> ''completed''"
    using Suc.prems by (simp add: GetRunStatus_Inr_sent[OF g])
  from Suc.IH[OF this] show ?case
    using g s(2) by (simp add: poll_fst del: poll.simps)
qed

subsection \<open>The reply\<close>

lemma fragments_text_concat:
  "fragments_text fs acc =
     acc @ concat (map (\<lambda>fragment. case Text fragment of Some t \<Rightarrow> Value t | None \<Rightarrow> [])
                    (filter is_text fs))"
  by (induction fs arbitrary: acc) (auto simp: is_text_def split: option.splits)

lemma fragments_text_spec: "fragments_text (Content m) [] = concat (text_fragments m)"
  by (simp add: fragments_text_concat text_fragments_def)

lemma last_of_list_case:
  "(case ys of [] \<Rightarrow> None | y # ys' \<Rightarrow> Some (last (y # ys')))
     = (if ys = [] then None else Some (last ys))"
  by (cases ys) simp_all

lemma find_last_filter_rev:
  "find P xs = (case filter P (rev xs) of [] \<Rightarrow> None | y # ys \<Rightarrow> Some (last (y # ys)))"
  unfolding last_of_list_case
  by (induction xs) simp_all

lemma find_most_recent:
  "find (\<lambda>m. Role m = ''assistant'') msgs = most_recent_assistant msgs"
  unfolding most_recent_assistant_def chronological_def by (rule find_last_filter_rev)

lemma assistant_message_Inr:
  "fst (assistant_message v msgs w) = Inr r \<Longrightarrow>
     \<exists>m. find (\<lambda>m. Role m = ''assistant'') msgs = Some m \<and> r = fragments_text (Content m) []"
  by (induction msgs) (auto simp: Let_def split_beta split: option.splits if_splits)

lemma poll_reply_messages:
  "fst (poll n L tm rid v w) = Some (Inr r) \<Longrightarrow>
     \<exists>msgs m. messages_at L w (length (sent (snd (poll n L tm rid v w))) - 1) = Some msgs
        \<and> sent (snd (poll n L tm rid v w)) \<noteq> []
        \<and> last (sent (snd (poll n L tm rid v w))) = messages_request tm w
        \<and> find (\<lambda>m. Role m = ''assistant'') msgs = Some m
        \<and> r = fragments_text (Content m) []"
proof (induction n arbitrary: w)
  case 0
  then show ?case by simp
next
  case (Suc n)
  let ?w1 = "snd (GetRunStatus L tm rid w)"
  from Suc.prems obtain s where s: "fst (GetRunStatus L tm rid w) = Inr s"
    by (auto simp: poll_fst split: sum.splits)
  show ?case
  proof (cases "s = ''completed''")
    case True
    let ?w2 = "snd (GetThreadMessages L tm ?w1)"
    from Suc.prems s True obtain msgs where
      m: "fst (GetThreadMessages L tm ?w1) = Inr msgs"
      and a: "fst (assistant_message v msgs ?w2) = Inr r"
      by (auto simp: poll_fst split: sum.splits)
    have eq: "snd (poll (Suc n) L tm rid v w) = snd (assistant_message v msgs ?w2)"
      using s True m by (simp add: poll_snd)
    have sent2: "sent ?w2 = sent ?w1 @ [messages_request tm ?w1]"
      using m by (rule GetThreadMessages_Inr_sent)
    have at: "messages_at L w (length (sent ?w1)) = Some msgs"
      using m by (simp add: GetThreadMessages_Inr)
    from assistant_message_Inr[OF a] obtain m' where
      "find (\<lambda>m. Role m = ''assistant'') msgs = Some m'" "r = fragments_text (Content m') []"
      by blast
    then show ?thesis
      using at by (simp add: eq sent2 messages_request_def get_headers_def)
  next
    case False
    with Suc.prems s have p: "fst (poll n L tm rid v ?w1) = Some (Inr r)"
      and eq: "snd (poll (Suc n) L tm rid v w) = snd (poll n L tm rid v ?w1)"
      by (simp_all add: poll_fst poll_snd)
    from Suc.IH[OF p] show ?thesis
      by (simp add: eq messages_request_def get_headers_def)
  qed
qed

lemma Ask_ok_cases:
  assumes "fst (AskAssistantQuestion n L v a q w) = Some (Inr r)"
  obtains tm where
    "fst (GetOrCreateThreadManager L v a w) = Inr tm"
    "fst (AddMessageToThread L tm ''user'' q v (snd (GetOrCreateThreadManager L v a w))) = None"
    "fst (RunAssistant n L tm a v
            (snd (AddMessageToThread L tm ''user'' q v (snd (GetOrCreateThreadManager L v a w)))))
       = Some (Inr r)"
    "snd (AskAssistantQuestion n L v a q w) =
       snd (RunAssistant n L tm a v
            (snd (AddMessageToThread L tm ''user'' q v (snd (GetOrCreateThreadManager L v a w)))))"
  using assms by (auto simp: Ask_fst Ask_snd split: sum.splits option.splits)

lemma RunAssistant_reply_completed:
  assumes "fst (RunAssistant n L tm a v w) = Some (Inr r)"
  shows "\<exists>i rid. length (sent w) < i \<and> i < length (sent (snd (RunAssistant n L tm a v w)))
          \<and> sent (snd (RunAssistant n L tm a v w)) ! i = status_request tm rid w
          \<and> status_at L w i = Some ''completed''
          \<and> (\<forall>j. length (sent w) < j \<and> j < i \<longrightarrow>
                 (\<exists>s. status_at L w j = Some s \<and> s \<noteq> ''completed''))"
proof -
  from assms obtain payload rid where
    eq: "RunAssistant n L tm a v w =
           poll n L tm rid v (w\<lparr>sent := sent w @ [start_request tm payload w]\<rparr>)"
    by (rule RunAssistant_ok_cases) (simp add: start_request_def)
  let ?w1 = "w\<lparr>sent := sent w @ [start_request tm payload w]\<rparr>"
  from assms eq have "fst (poll n L tm rid v ?w1) = Some (Inr r)" by simp
  from poll_reply_completed[OF this] obtain k where k:
    "status_at L ?w1 (length (sent ?w1) + k) = Some ''completed''"
    "\<forall>j<k. \<exists>s. status_at L ?w1 (length (sent ?w1) + j) = Some s \<and> s \<noteq> ''completed''"
    "length (sent ?w1) + k < length (sent (snd (poll n L tm rid v ?w1)))"
    "sent (snd (poll n L tm rid v ?w1)) ! (length (sent ?w1) + k) = status_request tm rid ?w1"
    by blast
  have st: "status_at L ?w1 i = status_at L w i" for i
    by (simp add: status_at_def)
  have earlier: "\<exists>s. status_at L w j = Some s \<and> s \<noteq> ''completed''"
    if "length (sent w) < j \<and> j < Suc (length (sent w)) + k" for j
  proof -
    from that obtain j' where "j = Suc (length (sent w)) + j'" "j' < k"
      by (metis add_Suc less_iff_Suc_add nat_add_left_cancel_less)
    with k(2) show ?thesis by (auto simp: st)
  qed
  let ?i = "Suc (length (sent w)) + k"
  have "length (sent w) < ?i" by simp
  moreover have "?i < length (sent (snd (RunAssistant n L tm a v w)))"
    using k(3) by (simp add: eq)
  moreover have "sent (snd (RunAssistant n L tm a v w)) ! ?i = status_request tm rid w"
    using k(4) by (simp add: eq status_request_def get_headers_def)
  moreover have "status_at L w ?i = Some ''completed''"
    using k(1) by (simp add: st)
  ultimately show ?thesis using earlier by blast
qed

lemma RunAssistant_pending:
  assumes "Marshal L [(''assistant_id'', a)] = Inr payload"
    and "NewRequest L ''POST'' (runs_url (ThreadID tm)) = None"
    and "provider w (length (sent w)) = Responded resp" and "StatusCode resp = 200"
    and "DecodeRun L resp = Inr (rid, st)"
    and "NewRequest L ''GET'' (run_url (ThreadID tm) rid) = None"
    and "\<forall>i>length (sent w). \<exists>s. status_at L w i = Some s \<and> s \<noteq> ''completed''"
  shows "fst (RunAssistant n L tm a v w) = None"
proof -
  let ?w1 = "w\<lparr>sent := sent w @ [start_request tm payload w]\<rparr>"
  have "\<forall>i\<ge>length (sent ?w1). \<exists>s. status_at L ?w1 i = Some s \<and> s \<noteq> ''completed''"
    using assms(7) by (simp add: status_at_def)
  from poll_pending[OF assms(6) this] show ?thesis
    using assms(1-5) by (simp add: RunAssistant_eq)
qed

lemma RunAssistant_reply_messages:
  assumes "fst (RunAssistant n L tm a v w) = Some (Inr r)"
  shows "\<exists>msgs m. messages_at L w (length (sent (snd (RunAssistant n L tm a v w))) - 1) = Some msgs
          \<and> sent (snd (RunAssistant n L tm a v w)) \<noteq> []
          \<and> last (sent (snd (RunAssistant n L tm a v w))) = messages_request tm w
          \<and> most_recent_assistant msgs = Some m
          \<and> r = concat (text_fragments m)"
proof -
  from assms obtain payload rid where
    eq: "RunAssistant n L tm a v w =
           poll n L tm rid v (w\<lparr>sent := sent w @ [start_request tm payload w]\<rparr>)"
    by (rule RunAssistant_ok_cases) (simp add: start_request_def)
  let ?w1 = "w\<lparr>sent := sent w @ [start_request tm payload w]\<rparr>"
  from assms eq have "fst (poll n L tm rid v ?w1) = Some (Inr r)" by simp
  from poll_reply_messages[OF this] show ?thesis
    by (simp add: eq messages_at_def messages_request_def get_headers_def
        find_most_recent fragments_text_spec)
qed

lemma Ask_reply_messages:
  assumes "fst (AskAssistantQuestion n L v a q w) = Some (Inr r)"
  shows "\<exists>msgs m tm.
           messages_at L w (length (sent (snd (AskAssistantQuestion n L v a q w))) - 1) = Some msgs
          \<and> sent (snd (AskAssistantQuestion n L v a q w)) \<noteq> []
          \<and> last (sent (snd (AskAssistantQuestion n L v a q w))) = messages_request tm w
          \<and> most_recent_assistant msgs = Some m
          \<and> r = concat (text_fragments m)"
proof -
  from assms obtain tm where
    r: "fst (RunAssistant n L tm a v
            (snd (AddMessageToThread L tm ''user'' q v (snd (GetOrCreateThreadManager L v a w)))))
       = Some (Inr r)"
    and eq: "snd (AskAssistantQuestion n L v a q w) =
       snd (RunAssistant n L tm a v
            (snd (AddMessageToThread L tm ''user'' q v (snd (GetOrCreateThreadManager L v a w)))))"
    by (rule Ask_ok_cases)
  from RunAssistant_reply_messages[OF r] show ?thesis
    unfolding eq by (simp add: messages_at_def messages_request_def get_headers_def) blast
qed

lemma Ask_start_job_refused:
  assumes g: "GetOrCreateThreadManager L v a w = (Inr tm, w1)"
    and m: "AddMessageToThread L tm ''user'' q v w1 = (None, w2)"
    and "Marshal L [(''assistant_id'', a)] = Inr payload"
    and "NewRequest L ''POST'' (runs_url (ThreadID tm)) = None"
    and "provider w2 (length (sent w2)) = Responded resp" and "StatusCode resp \<noteq> 200"
  shows "fst (AskAssistantQuestion n L v a q w) = Some (Inl (''failed to run assistant: '' @ Body resp))"
    and "InteractionLog (snd (AskAssistantQuestion n L v a q w)) v = InteractionLog w v @ [q]"
proof -
  have g': "fst (GetOrCreateThreadManager L v a w) = Inr tm"
    and w1: "w1 = snd (GetOrCreateThreadManager L v a w)"
    using g by simp_all
  have m': "fst (AddMessageToThread L tm ''user'' q v w1) = None"
    and w2: "w2 = snd (AddMessageToThread L tm ''user'' q v w1)"
    using m by simp_all
  have run: "RunAssistant n L tm a v w2 =
      (Some (Inl (''failed to run assistant: '' @ Body resp)),
       w2\<lparr>sent := sent w2 @ [start_request tm payload w2]\<rparr>)"
    using assms(3-6) by (simp add: RunAssistant_eq)
  show "fst (AskAssistantQuestion n L v a q w) = Some (Inl (''failed to run assistant: '' @ Body resp))"
    using g' m' run unfolding w1 w2 by (simp add: Ask_fst)
  have "store w2 = (store w1)(''interactions:'' @ v \<mapsto>
          (Lst (InteractionLog w1 v @ [q]), expiry w1 (''interactions:'' @ v)))"
    unfolding w2 using m' by (rule AddMessage_ok)
  then have "InteractionLog w2 v = InteractionLog w v @ [q]"
    unfolding w1 by (simp add: InteractionLog_def list_at_def GetOrCreate_store_other)
  moreover have "snd (AskAssistantQuestion n L v a q w) = snd (RunAssistant n L tm a v w2)"
    using g' m' unfolding w1 w2 by (simp add: Ask_snd)
  ultimately show "InteractionLog (snd (AskAssistantQuestion n L v a q w)) v = InteractionLog w v @ [q]"
    by (simp add: run InteractionLog_def list_at_def)
qed

subsection \<open>Runs of questions\<close>

lemma ask_all_fst:
  "fst (ask_all n L v a (q # qs) w) =
     (case fst (AskAssistantQuestion n L v a q w) of
        None \<Rightarrow> [None]
      | Some r \<Rightarrow> Some r # fst (ask_all n L v a qs (snd (AskAssistantQuestion n L v a q w))))"
  by (simp add: split_beta split: option.split)

lemma ask_all_snd:
  "snd (ask_all n L v a (q # qs) w) =
     (case fst (AskAssistantQuestion n L v a q w) of
        None \<Rightarrow> snd (AskAssistantQuestion n L v a q w)
      | Some r \<Rightarrow> snd (ask_all n L v a qs (snd (AskAssistantQuestion n L v a q w))))"
  by (simp add: split_beta split: option.split)

declare ask_all.simps(2) [simp del]

lemma length_turns: "length as = length qs \<Longrightarrow> length (turns qs as) = 2 * length qs"
  by (induction qs as rule: turns.induct) simp_all

lemma ask_all_log:
  "fst (ask_all n L v a qs w) = map (\<lambda>ans. Some (Inr ans)) answers \<Longrightarrow>
     InteractionLog (snd (ask_all n L v a qs w)) v = InteractionLog w v @ turns qs answers
     \<and> length answers = length qs"
proof (induction qs arbitrary: w answers)
  case Nil
  then show ?case by simp
next
  case (Cons q qs)
  let ?w1 = "snd (AskAssistantQuestion n L v a q w)"
  from Cons.prems obtain ans rest where
    answers: "answers = ans # rest"
    and first: "fst (AskAssistantQuestion n L v a q w) = Some (Inr ans)"
    and others: "fst (ask_all n L v a qs ?w1) = map (\<lambda>ans. Some (Inr ans)) rest"
    by (cases answers) (auto simp: ask_all_fst split: option.splits)
  from Cons.IH[OF others] Ask_ok(1)[OF first] show ?case
    by (simp add: ask_all_snd first answers)
qed

subsection \<open>Counting the creation calls\<close>

lemma under_thread_not_creation:
  "prefix ''https://api.openai.com/v1/threads/'' (URL r) \<Longrightarrow>
     \<not> is_thread_creation r \<and> \<not> is_assistant_creation r"
  by (auto simp: prefix_def is_thread_creation_def is_assistant_creation_def
      threads_url_def assistants_url_def)

lemma quiet_requests:
  assumes "sent w' = sent w @ rs"
    and "\<forall>r\<in>set rs. prefix ''https://api.openai.com/v1/threads/'' (URL r)"
  shows "thread_creations w' = thread_creations w"
    and "assistant_creations w' = assistant_creations w"
proof -
  have "filter is_thread_creation rs = []" "filter is_assistant_creation rs = []"
    using assms(2) under_thread_not_creation by (auto simp: filter_empty_conv)
  then show "thread_creations w' = thread_creations w"
    and "assistant_creations w' = assistant_creations w"
    by (simp_all add: thread_creations_def assistant_creations_def assms(1))
qed

lemma AddMessage_quiet:
  "\<exists>rs. sent (snd (AddMessageToThread L tm role c v w)) = sent w @ rs
      \<and> (\<forall>r\<in>set rs. prefix ''https://api.openai.com/v1/threads/'' (URL r))"
  by (simp add: AddMessage_sent messages_url_def prefix_def split: sum.split option.split)

lemma GetRunStatus_quiet:
  "\<exists>rs. sent (snd (GetRunStatus L tm rid w)) = sent w @ rs
      \<and> (\<forall>r\<in>set rs. prefix ''https://api.openai.com/v1/threads/'' (URL r))"
  by (simp add: GetRunStatus_sent run_url_def prefix_def split: sum.split option.split)

lemma GetThreadMessages_quiet:
  "\<exists>rs. sent (snd (GetThreadMessages L tm w)) = sent w @ rs
      \<and> (\<forall>r\<in>set rs. prefix ''https://api.openai.com/v1/threads/'' (URL r))"
  by (simp add: GetThreadMessages_sent messages_url_def prefix_def split: sum.split option.split)

lemma quiet_trans:
  assumes "\<exists>rs. sent w1 = sent w @ rs
      \<and> (\<forall>r\<in>set rs. prefix ''https://api.openai.com/v1/threads/'' (URL r))"
    and "\<exists>rs. sent w2 = sent w1 @ rs
      \<and> (\<forall>r\<in>set rs. prefix ''https://api.openai.com/v1/threads/'' (URL r))"
  shows "\<exists>rs. sent w2 = sent w @ rs
      \<and> (\<forall>r\<in>set rs. prefix ''https://api.openai.com/v1/threads/'' (URL r))"
proof -
  from assms obtain rs1 rs2 where
    "sent w1 = sent w @ rs1" "\<forall>r\<in>set rs1. prefix ''https://api.openai.com/v1/threads/'' (URL r)"
    "sent w2 = sent w1 @ rs2" "\<forall>r\<in>set rs2. prefix ''https://api.openai.com/v1/threads/'' (URL r)"
    by blast
  then have "sent w2 = sent w @ (rs1 @ rs2)
      \<and> (\<forall>r\<in>set (rs1 @ rs2). prefix ''https://api.openai.com/v1/threads/'' (URL r))"
    by auto
  then show ?thesis by blast
qed

lemma poll_quiet:
  "\<exists>rs. sent (snd (poll n L tm rid v w)) = sent w @ rs
      \<and> (\<forall>r\<in>set rs. prefix ''https://api.openai.com/v1/threads/'' (URL r))"
proof (induction n arbitrary: w)
  case 0
  then show ?case by simp
next
  case (Suc n)
  let ?w1 = "snd (GetRunStatus L tm rid w)"
  let ?w2 = "snd (GetThreadMessages L tm ?w1)"
  note q1 = GetRunStatus_quiet[of L tm rid w]
  note q2 = quiet_trans[OF q1 GetThreadMessages_quiet[of L tm ?w1]]
  note q3 = quiet_trans[OF q1 Suc.IH[of ?w1]]
  show ?case
    using q1 q2 q3 by (simp add: poll_snd split: sum.split)
qed

lemma RunAssistant_quiet:
  "\<exists>rs. sent (snd (RunAssistant n L tm a v w)) = sent w @ rs
      \<and> (\<forall>r\<in>set rs. prefix ''https://api.openai.com/v1/threads/'' (URL r))"
proof -
  have start: "\<exists>rs. sent (w\<lparr>sent := sent w @ [start_request tm payload w]\<rparr>) = sent w @ rs
      \<and> (\<forall>r\<in>set rs. prefix ''https://api.openai.com/v1/threads/'' (URL r))" for payload
    by (simp add: start_request_def runs_url_def prefix_def)
  have run: "\<exists>rs. sent (snd (poll n L tm rid v (w\<lparr>sent := sent w @ [start_request tm payload w]\<rparr>)))
        = sent w @ rs
      \<and> (\<forall>r\<in>set rs. prefix ''https://api.openai.com/v1/threads/'' (URL r))" for payload rid
    by (rule quiet_trans[OF start poll_quiet])
  show ?thesis
    using start run by (simp add: RunAssistant_eq split: sum.split option.split http_result.split)
qed


lemma createThread_creations:
  "thread_creations (snd (createThread L w)) \<le> Suc (thread_creations w)"
  "assistant_creations (snd (createThread L w)) = assistant_creations w"
  by (simp_all add: createThread_sent thread_creations_def assistant_creations_def
      is_assistant_creation_def threads_url_def assistants_url_def split: sum.split option.split)

lemma CreateAssistant_creations:
  "assistant_creations (snd (CreateAssistantWithMetadata L r w)) \<le> Suc (assistant_creations w)"
  "thread_creations (snd (CreateAssistantWithMetadata L r w)) = thread_creations w"
  by (simp_all add: CreateAssistant_sent thread_creations_def assistant_creations_def
      is_thread_creation_def threads_url_def assistants_url_def split: sum.split option.split)

lemma thread_creations_cong: "sent w' = sent w \<Longrightarrow> thread_creations w' = thread_creations w"
  by (simp add: thread_creations_def)

lemma GetOrCreate_creations:
  "thread_creations (snd (GetOrCreateThreadManager L v a w)) \<le> Suc (thread_creations w)"
  "assistant_creations (snd (GetOrCreateThreadManager L v a w)) = assistant_creations w"
  using createThread_creations[of L w]
  by (simp_all add: thread_creations_def assistant_creations_def GetOrCreate_sent)

lemma GetOrCreate_no_miss:
  "fst (redis_Get (''thread_id:'' @ v) w) \<noteq> Inl ''redis: nil'' \<Longrightarrow>
     sent (snd (GetOrCreateThreadManager L v a w)) = sent w"
  by (simp add: GetOrCreate_sent)

text \<open>Once the thread key holds an identifier, a lookup can only miss by a store fault
  that reads as the miss.\<close>

lemma redis_Get_present:
  assumes "store w k = Some (Str t, x)" and "\<forall>n. store_fault w n \<noteq> Some ''redis: nil''"
  shows "fst (redis_Get k w) \<noteq> Inl ''redis: nil''"
  using assms by (auto simp: redis_Get_fst split: option.split)

lemma GetOrCreate_present:
  assumes "store w (''thread_id:'' @ v) = Some (Str t, x)"
    and "\<forall>n. store_fault w n \<noteq> Some ''redis: nil''"
  shows "sent (snd (GetOrCreateThreadManager L v a w)) = sent w"
    and "store (snd (GetOrCreateThreadManager L v a w)) = store w"
proof -
  have n: "fst (redis_Get (''thread_id:'' @ v) w) \<noteq> Inl ''redis: nil''"
    using assms by (rule redis_Get_present)
  then show "sent (snd (GetOrCreateThreadManager L v a w)) = sent w"
    by (rule GetOrCreate_no_miss)
  show "store (snd (GetOrCreateThreadManager L v a w)) = store w"
    using n by (simp add: GetOrCreate_store split: sum.split)
qed

lemma GetOrCreate_resolved:
  assumes "fst (GetOrCreateThreadManager L v a w) = Inr tm"
  shows "\<exists>x. store (snd (GetOrCreateThreadManager L v a w)) (''thread_id:'' @ v)
           = Some (Str (ThreadID tm), x)"
  using assms
  by (auto simp: GetOrCreate_fst GetOrCreate_store redis_Get_fst
      split: sum.splits option.splits if_splits redis_value.splits prod.splits)

text \<open>After the thread is resolved, the rest of a question sends nothing but requests
  under the thread and leaves the thread key alone.\<close>

lemma Ask_after_resolve:
  "\<exists>rs. sent (snd (AskAssistantQuestion n L v a q w))
          = sent (snd (GetOrCreateThreadManager L v a w)) @ rs
      \<and> (\<forall>r\<in>set rs. prefix ''https://api.openai.com/v1/threads/'' (URL r))"
proof -
  let ?w1 = "snd (GetOrCreateThreadManager L v a w)"
  have refl: "\<exists>rs. sent ?w1 = sent ?w1 @ rs
      \<and> (\<forall>r\<in>set rs. prefix ''https://api.openai.com/v1/threads/'' (URL r))"
    by simp
  have add: "\<exists>rs. sent (snd (AddMessageToThread L tm ''user'' q v ?w1)) = sent ?w1 @ rs
      \<and> (\<forall>r\<in>set rs. prefix ''https://api.openai.com/v1/threads/'' (URL r))" for tm
    by (rule AddMessage_quiet)
  have run: "\<exists>rs. sent (snd (RunAssistant n L tm a v (snd (AddMessageToThread L tm ''user'' q v ?w1))))
        = sent ?w1 @ rs
      \<and> (\<forall>r\<in>set rs. prefix ''https://api.openai.com/v1/threads/'' (URL r))" for tm
    by (rule quiet_trans[OF add RunAssistant_quiet])
  show ?thesis
    using refl add run by (simp add: Ask_snd split: sum.split option.split)
qed

lemma Ask_store_other:
  "k \<noteq> ''interactions:'' @ v \<Longrightarrow>
     store (snd (AskAssistantQuestion n L v a q w)) k
       = store (snd (GetOrCreateThreadManager L v a w)) k"
  by (simp add: Ask_snd AddMessage_store_other RunAssistant_store_other split: sum.split option.split)

lemma Ask_store_thread_key:
  "store (snd (AskAssistantQuestion n L v a q w)) (''thread_id:'' @ v')
     = store (snd (GetOrCreateThreadManager L v a w)) (''thread_id:'' @ v')"
  by (rule Ask_store_other) simp

lemma Ask_creations:
  "thread_creations (snd (AskAssistantQuestion n L v a q w))
     = thread_creations (snd (GetOrCreateThreadManager L v a w))"
  "assistant_creations (snd (AskAssistantQuestion n L v a q w)) = assistant_creations w"
proof -
  obtain rs where rs: "sent (snd (AskAssistantQuestion n L v a q w))
          = sent (snd (GetOrCreateThreadManager L v a w)) @ rs"
      "\<forall>r\<in>set rs. prefix ''https://api.openai.com/v1/threads/'' (URL r)"
    using Ask_after_resolve by blast
  show "thread_creations (snd (AskAssistantQuestion n L v a q w))
     = thread_creations (snd (GetOrCreateThreadManager L v a w))"
    using rs by (rule quiet_requests)
  show "assistant_creations (snd (AskAssistantQuestion n L v a q w)) = assistant_creations w"
    using quiet_requests(2)[OF rs] by (simp add: GetOrCreate_creations)
qed

lemma Ask_present:
  assumes "store w (''thread_id:'' @ v) = Some (Str t, x)"
    and "\<forall>n. store_fault w n \<noteq> Some ''redis: nil''"
  shows "thread_creations (snd (AskAssistantQuestion n L v a q w)) = thread_creations w"
    and "store (snd (AskAssistantQuestion n L v a q w)) (''thread_id:'' @ v) = Some (Str t, x)"
proof -
  note g = GetOrCreate_present[OF assms, of L a]
  show "thread_creations (snd (AskAssistantQuestion n L v a q w)) = thread_creations w"
    unfolding Ask_creations(1) using g(1) by (rule thread_creations_cong)
  show "store (snd (AskAssistantQuestion n L v a q w)) (''thread_id:'' @ v) = Some (Str t, x)"
    unfolding Ask_store_thread_key using g(2) assms(1) by simp
qed

lemma ask_all_present:
  assumes "store w (''thread_id:'' @ v) = Some (Str t, x)"
    and "\<forall>n. store_fault w n \<noteq> Some ''redis: nil''"
  shows "thread_creations (snd (ask_all n L v a qs w)) = thread_creations w"
  using assms
proof (induction qs arbitrary: w)
  case Nil
  then show ?case by simp
next
  case (Cons q qs)
  let ?w1 = "snd (AskAssistantQuestion n L v a q w)"
  note one = Ask_present[OF Cons.prems, of n L a q]
  have "\<forall>n. store_fault ?w1 n \<noteq> Some ''redis: nil''"
    using Cons.prems(2) by simp
  from Cons.IH[OF one(2) this] one(1) show ?case
    by (simp add: ask_all_snd split: option.split)
qed

lemma ask_all_assistant_creations:
  "assistant_creations (snd (ask_all n L v a qs w)) = assistant_creations w"
  by (induction qs arbitrary: w) (simp_all add: ask_all_snd Ask_creations split: option.split)

text \<open>A run whose first question resolves its thread creates at most one thread.\<close>

lemma ask_all_resolved:
  assumes "fst (GetOrCreateThreadManager L v a w) = Inr tm"
    and "\<forall>n. store_fault w n \<noteq> Some ''redis: nil''"
  shows "thread_creations (snd (ask_all n L v a qs w)) \<le> Suc (thread_creations w)"
proof (cases qs)
  case Nil
  then show ?thesis by simp
next
  case (Cons q qs')
  let ?w1 = "snd (AskAssistantQuestion n L v a q w)"
  from GetOrCreate_resolved[OF assms(1)] obtain x where
    "store (snd (GetOrCreateThreadManager L v a w)) (''thread_id:'' @ v) = Some (Str (ThreadID tm), x)"
    by blast
  then have key: "store ?w1 (''thread_id:'' @ v) = Some (Str (ThreadID tm), x)"
    using Ask_store_thread_key[of n L v a q w v] by simp
  have nf: "\<forall>n. store_fault ?w1 n \<noteq> Some ''redis: nil''"
    using assms(2) by simp
  have one: "thread_creations ?w1 \<le> Suc (thread_creations w)"
    by (simp add: Ask_creations GetOrCreate_creations)
  have "thread_creations (snd (ask_all n L v a qs' ?w1)) = thread_creations ?w1"
    using key nf by (rule ask_all_present)
  with one show ?thesis
    by (simp add: Cons ask_all_snd split: option.split)
qed

subsection \<open>Only appended\<close>

lemma only_appended_refl: "only_appended w w"
  by (simp add: only_appended_def)

lemma only_appended_trans:
  "only_appended w w1 \<Longrightarrow> only_appended w1 w2 \<Longrightarrow> only_appended w w2"
  unfolding only_appended_def by (metis prefix_order.order_trans)

lemma only_appended_same:
  "(\<And>v. store w' (''interactions:'' @ v) = store w (''interactions:'' @ v)) \<Longrightarrow> only_appended w w'"
  by (simp add: only_appended_def InteractionLog_def list_at_def expiry_def)

lemma only_appended_push:
  "store w' = (store w)(''interactions:'' @ v \<mapsto>
      (Lst (list_at w (''interactions:'' @ v) @ xs), expiry w (''interactions:'' @ v)))
   \<Longrightarrow> only_appended w w'"
  by (simp add: only_appended_def InteractionLog_def list_at_def expiry_def)

lemma getters_keep_lists [simp]:
  "list_at (snd (GetRunStatus L tm rid w)) k = list_at w k"
  "expiry (snd (GetRunStatus L tm rid w)) k = expiry w k"
  "list_at (snd (GetThreadMessages L tm w)) k = list_at w k"
  "expiry (snd (GetThreadMessages L tm w)) k = expiry w k"
  by (simp_all add: list_at_def expiry_def)

lemma poll_store:
  "store (snd (poll n L tm rid v w)) =
     (case fst (poll n L tm rid v w) of
        Some (Inr r) \<Rightarrow>
          (store w)(''interactions:'' @ v \<mapsto>
             (Lst (list_at w (''interactions:'' @ v) @ [''Assistant: '' @ r]),
              expiry w (''interactions:'' @ v)))
      | Some (Inl e) \<Rightarrow> store w
      | None \<Rightarrow> store w)"
proof (induction n arbitrary: w)
  case 0
  then show ?case by simp
next
  case (Suc n)
  let ?w1 = "snd (GetRunStatus L tm rid w)"
  have ih: "store (snd (poll n L tm rid v ?w1)) =
     (case fst (poll n L tm rid v ?w1) of
        Some (Inr r) \<Rightarrow>
          (store w)(''interactions:'' @ v \<mapsto>
             (Lst (list_at w (''interactions:'' @ v) @ [''Assistant: '' @ r]),
              expiry w (''interactions:'' @ v)))
      | Some (Inl e) \<Rightarrow> store w
      | None \<Rightarrow> store w)"
    using Suc.IH[of ?w1] by (simp split: option.split sum.split)
  show ?case
  proof (cases "fst (GetRunStatus L tm rid w)")
    case (Inl e)
    then show ?thesis by (simp add: poll_fst poll_snd)
  next
    case (Inr s)
    show ?thesis
    proof (cases "s = ''completed''")
      case True
      with Inr show ?thesis
        by (simp add: poll_fst poll_snd assistant_message_store split: sum.split)
    next
      case False
      with Inr ih show ?thesis by (simp add: poll_fst poll_snd)
    qed
  qed
qed

lemma RunAssistant_store:
  "store (snd (RunAssistant n L tm a v w)) =
     (case fst (RunAssistant n L tm a v w) of
        Some (Inr r) \<Rightarrow>
          (store w)(''interactions:'' @ v \<mapsto>
             (Lst (list_at w (''interactions:'' @ v) @ [''Assistant: '' @ r]),
              expiry w (''interactions:'' @ v)))
      | Some (Inl e) \<Rightarrow> store w
      | None \<Rightarrow> store w)"
  by (simp add: RunAssistant_eq poll_store list_at_def expiry_def
      split: sum.split option.split http_result.split prod.split)

lemma AddMessage_only_appended:
  "only_appended w (snd (AddMessageToThread L tm role c v w))"
proof (cases "fst (AddMessageToThread L tm role c v w)")
  case None
  then show ?thesis
    by (intro only_appended_push[where xs = "[c]"]) (simp add: AddMessage_store)
next
  case (Some e)
  then show ?thesis
    by (intro only_appended_same) (simp add: AddMessage_store)
qed

lemma RunAssistant_only_appended:
  "only_appended w (snd (RunAssistant n L tm a v w))"
proof (cases "fst (RunAssistant n L tm a v w)")
  case None
  then show ?thesis
    by (intro only_appended_same) (simp add: RunAssistant_store)
next
  case (Some res)
  then show ?thesis
  proof (cases res)
    case (Inl e)
    with Some show ?thesis
      by (intro only_appended_same) (simp add: RunAssistant_store)
  next
    case (Inr r)
    with Some show ?thesis
      by (intro only_appended_push[where xs = "[''Assistant: '' @ r]"]) (simp add: RunAssistant_store)
  qed
qed

lemma GetOrCreate_only_appended:
  "only_appended w (snd (GetOrCreateThreadManager L v a w))"
  by (intro only_appended_same) (simp add: GetOrCreate_store_other)

lemma CreateAssistant_only_appended:
  "only_appended w (snd (CreateAssistantWithMetadata L r w))"
  by (intro only_appended_same) (simp add: CreateAssistant_store split: sum.split)

lemma Ask_only_appended:
  "only_appended w (snd (AskAssistantQuestion n L v a q w))"
proof -
  let ?w1 = "snd (GetOrCreateThreadManager L v a w)"
  have g: "only_appended w ?w1" by (rule GetOrCreate_only_appended)
  have m: "only_appended w (snd (AddMessageToThread L tm ''user'' q v ?w1))" for tm
    by (rule only_appended_trans[OF g AddMessage_only_appended])
  have r: "only_appended w (snd (RunAssistant n L tm a v (snd (AddMessageToThread L tm ''user'' q v ?w1))))" for tm
    by (rule only_appended_trans[OF m RunAssistant_only_appended])
  show ?thesis
    using g m r by (simp add: Ask_snd split: sum.split option.split)
qed

lemma ask_all_only_appended:
  "only_appended w (snd (ask_all n L v a qs w))"
proof (induction qs arbitrary: w)
  case Nil
  then show ?case by (simp add: only_appended_refl)
next
  case (Cons q qs)
  note one = Ask_only_appended[of w n L v a q]
  show ?case
    using one only_appended_trans[OF one Cons.IH]
    by (simp add: ask_all_snd split: option.split)
qed

lemma session_only_appended:
  "only_appended w (session n L r a qs w)"
  unfolding session_def
  by (rule only_appended_trans[OF CreateAssistant_only_appended ask_all_only_appended])

subsection \<open>Keys that are never written\<close>

lemma CreateAssistant_store_other:
  "k \<noteq> ''assistant_id:'' @ VideoID r \<Longrightarrow>
     store (snd (CreateAssistantWithMetadata L r w)) k = store w k"
  by (simp add: CreateAssistant_store split: sum.split)

lemma Ask_store_rest:
  "k \<noteq> ''interactions:'' @ v \<Longrightarrow> k \<noteq> ''thread_id:'' @ v \<Longrightarrow>
     store (snd (AskAssistantQuestion n L v a q w)) k = store w k"
  by (simp add: Ask_store_other GetOrCreate_store_other)

lemma ask_all_store_rest:
  "k \<noteq> ''interactions:'' @ v \<Longrightarrow> k \<noteq> ''thread_id:'' @ v \<Longrightarrow>
     store (snd (ask_all n L v a qs w)) k = store w k"
  by (induction qs arbitrary: w) (simp_all add: ask_all_snd Ask_store_rest split: option.split)

lemma session_store_rest:
  "k \<noteq> ''assistant_id:'' @ VideoID r \<Longrightarrow> k \<noteq> ''interactions:'' @ VideoID r \<Longrightarrow>
   k \<noteq> ''thread_id:'' @ VideoID r \<Longrightarrow>
     store (session n L r a qs w) k = store w k"
  by (simp add: session_def ask_all_store_rest CreateAssistant_store_other)

lemma GetOrCreate_Inr_store:
  assumes "fst (GetOrCreateThreadManager L v a w) = Inr tm"
  shows "store (snd (GetOrCreateThreadManager L v a w)) =
     (case fst (redis_Get (''thread_id:'' @ v) w) of
        Inr t \<Rightarrow> store w
      | Inl e \<Rightarrow> (store w)(''thread_id:'' @ v \<mapsto> (Str (ThreadID tm), Some (24 * Hour))))"
  using assms
  by (auto simp: GetOrCreate_fst GetOrCreate_store split: sum.splits option.splits if_splits)

lemma GetOrCreate_miss_created:
  assumes "fst (GetOrCreateThreadManager L v a w) = Inr tm"
    and "fst (redis_Get (''thread_id:'' @ v) w) = Inl ''redis: nil''"
  shows "store (snd (GetOrCreateThreadManager L v a w)) (''thread_id:'' @ v)
           = Some (Str (ThreadID tm), Some 86400)"
    and "thread_creations (snd (GetOrCreateThreadManager L v a w)) = Suc (thread_creations w)"
proof -
  from assms have c: "fst (createThread L (snd (redis_Get (''thread_id:'' @ v) w))) = Inr (ThreadID tm)"
    and f: "store_fault w (Suc (length (store_log w))) = None"
    by (auto simp: GetOrCreate_fst split: sum.splits option.splits)
  show "store (snd (GetOrCreateThreadManager L v a w)) (''thread_id:'' @ v)
           = Some (Str (ThreadID tm), Some 86400)"
    using assms(2) c f by (simp add: GetOrCreate_store Hour_def)
  from c obtain payload where "Marshal L [] = Inr payload" "NewRequest L ''POST'' threads_url = None"
    by (auto simp: createThread_fst split: sum.splits option.splits)
  then show "thread_creations (snd (GetOrCreateThreadManager L v a w)) = Suc (thread_creations w)"
    using assms(2)
    by (simp add: thread_creations_def GetOrCreate_sent createThread_sent is_thread_creation_def)
qed

subsection \<open>The reply that a completed run gives\<close>

lemma redis_RPush_fst_cong:
  "store_fault w' = store_fault w \<Longrightarrow> store_log w' = store_log w \<Longrightarrow> store w' = store w \<Longrightarrow>
     fst (redis_RPush k c w') = fst (redis_RPush k c w)"
  by (simp add: redis_RPush_fst split: option.split)

lemma assistant_message_found:
  "find (\<lambda>m. Role m = ''assistant'') msgs = Some m \<Longrightarrow>
     fst (assistant_message v msgs w) =
       (case fst (redis_RPush (''interactions:'' @ v)
                    (''Assistant: '' @ fragments_text (Content m) []) w) of
          Some e \<Rightarrow> Inl (''failed to store assistant response in Redis: '' @ e)
        | None \<Rightarrow> Inr (fragments_text (Content m) []))"
  by (induction msgs) (auto simp: Let_def split_beta split: option.splits if_splits)

lemma assistant_message_none:
  "find (\<lambda>m. Role m = ''assistant'') msgs = None \<Longrightarrow>
     fst (assistant_message v msgs w) = Inl ''no assistant message found''"
  by (induction msgs) (auto simp: Let_def split_beta split: option.splits if_splits)

text \<open>What the round that sees \<open>completed\<close> returns, whatever the message list is.\<close>

lemma poll_completed_round:
  assumes "NewRequest L ''GET'' (run_url (ThreadID tm) rid) = None"
    and "NewRequest L ''GET'' (messages_url (ThreadID tm)) = None"
    and "status_at L w (length (sent w)) = Some ''completed''"
    and "messages_at L w (Suc (length (sent w))) = Some msgs"
  shows "fst (poll (Suc n) L tm rid v w) =
           Some (fst (assistant_message v msgs
                   (snd (GetThreadMessages L tm (snd (GetRunStatus L tm rid w))))))"
proof -
  let ?w1 = "snd (GetRunStatus L tm rid w)"
  have s: "fst (GetRunStatus L tm rid w) = Inr ''completed''"
    using assms(1,3) by (simp add: GetRunStatus_Inr)
  have "sent ?w1 = sent w @ [status_request tm rid w]"
    using s by (rule GetRunStatus_Inr_sent)
  then have "messages_at L ?w1 (length (sent ?w1)) = Some msgs"
    using assms(4) by simp
  then have "fst (GetThreadMessages L tm ?w1) = Inr msgs"
    using assms(2) by (simp add: GetThreadMessages_Inr)
  with s show ?thesis by (simp add: poll_fst)
qed

lemma poll_reaches_completed:
  assumes "NewRequest L ''GET'' (run_url (ThreadID tm) rid) = None"
    and "NewRequest L ''GET'' (messages_url (ThreadID tm)) = None"
  shows "\<forall>j<k. \<exists>s. status_at L w (length (sent w) + j) = Some s \<and> s \<noteq> ''completed'' \<Longrightarrow>
     status_at L w (length (sent w) + k) = Some ''completed'' \<Longrightarrow>
     messages_at L w (Suc (length (sent w) + k)) = Some msgs \<Longrightarrow>
     k < n \<Longrightarrow>
     fst (poll n L tm rid v w) =
       Some (case find (\<lambda>m. Role m = ''assistant'') msgs of
               None \<Rightarrow> Inl ''no assistant message found''
             | Some m \<Rightarrow>
                 (case fst (redis_RPush (''interactions:'' @ v)
                              (''Assistant: '' @ fragments_text (Content m) []) w) of
                    Some e \<Rightarrow> Inl (''failed to store assistant response in Redis: '' @ e)
                  | None \<Rightarrow> Inr (fragments_text (Content m) [])))"
proof (induction k arbitrary: n w)
  case 0
  then obtain n' where n: "n = Suc n'" by (cases n) auto
  let ?w2 = "snd (GetThreadMessages L tm (snd (GetRunStatus L tm rid w)))"
  have round: "fst (poll (Suc n') L tm rid v w) = Some (fst (assistant_message v msgs ?w2))"
    using assms "0.prems"(2,3) by (intro poll_completed_round) simp_all
  have push: "fst (redis_RPush k' c ?w2) = fst (redis_RPush k' c w)" for k' c
    by (rule redis_RPush_fst_cong) simp_all
  show ?case
  proof (cases "find (\<lambda>m. Role m = ''assistant'') msgs")
    case None
    then show ?thesis
      using round by (simp add: n assistant_message_none)
  next
    case (Some m)
    then show ?thesis
      using round by (simp add: n assistant_message_found push)
  qed
next
  case (Suc k)
  then obtain n' where n: "n = Suc n'" and k: "k < n'" by (cases n) auto
  let ?w1 = "snd (GetRunStatus L tm rid w)"
  from Suc.prems(1) obtain s where s: "status_at L w (length (sent w)) = Some s" "s \<noteq> ''completed''"
    by force
  then have g: "fst (GetRunStatus L tm rid w) = Inr s"
    using assms(1) by (simp add: GetRunStatus_Inr)
  have sent1: "sent ?w1 = sent w @ [status_request tm rid w]"
    using g by (rule GetRunStatus_Inr_sent)
  have a: "\<forall>j<k. \<exists>s. status_at L ?w1 (length (sent ?w1) + j) = Some s \<and> s \<noteq> ''completed''"
    using Suc.prems(1) by (auto simp: sent1)
  have b: "status_at L ?w1 (length (sent ?w1) + k) = Some ''completed''"
    using Suc.prems(2) by (simp add: sent1)
  have c: "messages_at L ?w1 (Suc (length (sent ?w1) + k)) = Some msgs"
    using Suc.prems(3) by (simp add: sent1)
  have push: "fst (redis_RPush k' c ?w1) = fst (redis_RPush k' c w)" for k' c
    by (rule redis_RPush_fst_cong) simp_all
  from Suc.IH[OF a b c k, unfolded push] show ?case
    using g s(2) by (simp add: n poll_fst)
qed


lemma RunAssistant_reaches_completed:
  assumes "Marshal L [(''assistant_id'', a)] = Inr payload"
    and "NewRequest L ''POST'' (runs_url (ThreadID tm)) = None"
    and "provider w (length (sent w)) = Responded resp" and "StatusCode resp = 200"
    and "DecodeRun L resp = Inr (rid, st)"
    and "NewRequest L ''GET'' (run_url (ThreadID tm) rid) = None"
    and "NewRequest L ''GET'' (messages_url (ThreadID tm)) = None"
    and "\<forall>j<k. \<exists>s. status_at L w (Suc (length (sent w)) + j) = Some s \<and> s \<noteq> ''completed''"
    and "status_at L w (Suc (length (sent w)) + k) = Some ''completed''"
    and "messages_at L w (Suc (Suc (length (sent w)) + k)) = Some msgs"
    and "k < n"
  shows "fst (RunAssistant n L tm a v w) =
       Some (case most_recent_assistant msgs of
               None \<Rightarrow> Inl ''no assistant message found''
             | Some m \<Rightarrow>
                 (case fst (redis_RPush (''interactions:'' @ v)
                              (''Assistant: '' @ concat (text_fragments m)) w) of
                    Some e \<Rightarrow> Inl (''failed to store assistant response in Redis: '' @ e)
                  | None \<Rightarrow> Inr (concat (text_fragments m))))"
proof -
  let ?w1 = "w\<lparr>sent := sent w @ [start_request tm payload w]\<rparr>"
  have st: "status_at L ?w1 i = status_at L w i" and ms: "messages_at L ?w1 i = messages_at L w i"
    for i
    by (simp_all add: status_at_def messages_at_def)
  have push: "fst (redis_RPush k' c ?w1) = fst (redis_RPush k' c w)" for k' c
    by (rule redis_RPush_fst_cong) simp_all
  have "fst (poll n L tm rid v ?w1) =
       Some (case find (\<lambda>m. Role m = ''assistant'') msgs of
               None \<Rightarrow> Inl ''no assistant message found''
             | Some m \<Rightarrow>
                 (case fst (redis_RPush (''interactions:'' @ v)
                              (''Assistant: '' @ fragments_text (Content m) []) ?w1) of
                    Some e \<Rightarrow> Inl (''failed to store assistant response in Redis: '' @ e)
                  | None \<Rightarrow> Inr (fragments_text (Content m) [])))"
    using assms(8-11)
    by (intro poll_reaches_completed[OF assms(6,7)]) (simp_all add: st ms)
  then show ?thesis
    unfolding push find_most_recent fragments_text_spec
    using assms(1-5) by (simp add: RunAssistant_eq)
qed

lemma Ask_reaches_completed:
  assumes "GetOrCreateThreadManager L v a w = (Inr tm, w1)"
    and "AddMessageToThread L tm ''user'' q v w1 = (None, w2)"
    and "Marshal L [(''assistant_id'', a)] = Inr payload"
    and "NewRequest L ''POST'' (runs_url (ThreadID tm)) = None"
    and "provider w2 (length (sent w2)) = Responded resp" and "StatusCode resp = 200"
    and "DecodeRun L resp = Inr (rid, st)"
    and "NewRequest L ''GET'' (run_url (ThreadID tm) rid) = None"
    and "NewRequest L ''GET'' (messages_url (ThreadID tm)) = None"
    and "\<forall>j<k. \<exists>s. status_at L w2 (Suc (length (sent w2)) + j) = Some s \<and> s \<noteq> ''completed''"
    and "status_at L w2 (Suc (length (sent w2)) + k) = Some ''completed''"
    and "messages_at L w2 (Suc (Suc (length (sent w2)) + k)) = Some msgs"
    and "k < n"
  shows "fst (AskAssistantQuestion n L v a q w) =
       Some (case most_recent_assistant msgs of
               None \<Rightarrow> Inl ''no assistant message found''
             | Some m \<Rightarrow>
                 (case fst (redis_RPush (''interactions:'' @ v)
                              (''Assistant: '' @ concat (text_fragments m)) w2) of
                    Some e \<Rightarrow> Inl (''failed to store assistant response in Redis: '' @ e)
                  | None \<Rightarrow> Inr (concat (text_fragments m))))"
proof -
  have g: "fst (GetOrCreateThreadManager L v a w) = Inr tm"
    and w1: "w1 = snd (GetOrCreateThreadManager L v a w)"
    using assms(1) by simp_all
  have m: "fst (AddMessageToThread L tm ''user'' q v w1) = None"
    and w2: "w2 = snd (AddMessageToThread L tm ''user'' q v w1)"
    using assms(2) by simp_all
  have "fst (AskAssistantQuestion n L v a q w) = fst (RunAssistant n L tm a v w2)"
    using g m unfolding w1 w2 by (simp add: Ask_fst)
  then show ?thesis
    using RunAssistant_reaches_completed[OF assms(3-13), of v] by simp
qed

subsection \<open>Evaluating a concrete run\<close>

lemmas run_eqs = redis_Get_fst redis_RPush_fst redis_RPush_store redis_Set_store
  createThread_fst createThread_sent GetOrCreate_fst GetOrCreate_sent GetOrCreate_store_log
  GetOrCreate_store AddMessage_fst AddMessage_sent AddMessage_store AddMessage_store_log
  GetRunStatus_fst GetRunStatus_sent GetThreadMessages_fst GetThreadMessages_sent
  assistant_message_fst assistant_message_store assistant_message_store_log poll_fst poll_snd
  RunAssistant_eq Ask_fst Ask_snd ask_all_fst ask_all_snd CreateAssistant_fst
  CreateAssistant_sent CreateAssistant_store CreateAssistant_store_log list_at_def expiry_def
  InteractionLog_def Hour_def start_request_def

lemmas fixture_defs = fresh_world_def scripted_def ok_def refused_def plain_lib_def
  hello_messages_def bye_messages_def late_messages_def late_world_def v1_request_def
  one_question_def second_question_def
  hello_world_def two_questions_world_def session_world_def failed_world_def
  refusing_world_def

section \<open>The claims\<close>

subsection \<open>C6: a body that does not decode\<close>

text \<open>
  C6. When the request body fails JSON decoding, \<open>POST /init\<close> and \<open>POST /ask\<close> both
  answer with HTTP 400 and call no collaborator: the reply is the same whatever the
  service function is, and the state of the collaborators is returned as it was given.
\<close>

theorem C6_malformed_body_is_400_without_calls:
  "(DecodeInit r_Body = Inl err \<longrightarrow>
      InitializeGPTSession DecodeInit CreateGPTSession r_Body w =
        (http_Error ''Invalid request payload'' 400, w)
      \<and> status (fst (InitializeGPTSession DecodeInit CreateGPTSession r_Body w)) = 400)
   \<and> (DecodeQuestion q_Body = Inl err' \<longrightarrow>
      AskGPTQuestion DecodeQuestion FetchGPTResponse q_Body w =
        (RespondWithError 400 ''Invalid request payload'', w)
      \<and> status (fst (AskGPTQuestion DecodeQuestion FetchGPTResponse q_Body w)) = 400)"
  by (simp add: InitializeGPTSession_def AskGPTQuestion_def StatusBadRequest_def
      http_Error_def RespondWithError_def)

text \<open>
  The witness: a decoder that rejects every body, and service functions that would
  count their calls in the state; the count stays at 0.
\<close>

theorem C6_witness:
  "InitializeGPTSession (\<lambda>b. Inl ''unexpected EOF'') (\<lambda>v t c l n. (None, Suc n)) ''{'' (0::nat) =
     (http_Error ''Invalid request payload'' 400, 0)
   \<and> AskGPTQuestion (\<lambda>b. Inl ''unexpected EOF'') (\<lambda>v q n. (Inr ''hi'', Suc n)) ''{'' (0::nat) =
     (RespondWithError 400 ''Invalid request payload'', 0)"
  using C6_malformed_body_is_400_without_calls
    [of "\<lambda>b. Inl ''unexpected EOF''" "''{''" "''unexpected EOF''" "\<lambda>v t c l n. (None, Suc n)" "0::nat"
        "\<lambda>b. Inl ''unexpected EOF''" "''{''" "''unexpected EOF''" "\<lambda>v q n. (Inr ''hi'', Suc n)"]
  by simp

subsection \<open>C10: a post that fails\<close>

text \<open>
  C10. \<open>AddMessageToThread\<close> appends to the Interaction Log only after the remote
  post has succeeded: when the answer to the post is a transport error or a status
  other than 200, the function returns an error, and the store (the Interaction Log of
  the video with it) is what it was; no store command is issued at all.
\<close>

theorem C10_failed_post_leaves_log:
  assumes "remote_failed (provider w (length (sent w)))"
  shows "(\<exists>e. fst (AddMessageToThread L tm role content videoID w) = Some e)
    \<and> InteractionLog (snd (AddMessageToThread L tm role content videoID w)) videoID
        = InteractionLog w videoID
    \<and> store (snd (AddMessageToThread L tm role content videoID w)) = store w
    \<and> store_log (snd (AddMessageToThread L tm role content videoID w)) = store_log w"
proof -
  note failed = AddMessage_failed[OF assms, of L tm role content videoID]
  then have "InteractionLog (snd (AddMessageToThread L tm role content videoID w)) videoID
        = InteractionLog w videoID"
    by (simp add: InteractionLog_def list_at_def)
  with failed show ?thesis by simp
qed

text \<open>
  The witness: the provider answers 429 to everything, and the log already holds one
  question. The post of the second question fails, and the log still holds the first.
\<close>

theorem C10_witness:
  "remote_failed (refused 429 ''rate limited'')
   \<and> fst (AddMessageToThread plain_lib \<lparr>ThreadID = ''thread_1''\<rparr> ''user'' ''And then?'' ''v1''
       ((fresh_world (\<lambda>n. refused 429 ''rate limited''))
          \<lparr>store := [''interactions:v1'' \<mapsto> (Lst [''What is this?''], None)]\<rparr>))
      = Some ''failed to add message to thread: rate limited''
   \<and> InteractionLog
       (snd (AddMessageToThread plain_lib \<lparr>ThreadID = ''thread_1''\<rparr> ''user'' ''And then?'' ''v1''
          ((fresh_world (\<lambda>n. refused 429 ''rate limited''))
             \<lparr>store := [''interactions:v1'' \<mapsto> (Lst [''What is this?''], None)]\<rparr>))) ''v1''
      = [''What is this?'']"
proof -
  let ?w = "(fresh_world (\<lambda>n. refused 429 ''rate limited''))
          \<lparr>store := [''interactions:v1'' \<mapsto> (Lst [''What is this?''], None)]\<rparr>"
  have h: "remote_failed (provider ?w (length (sent ?w)))"
    by (simp add: fixture_defs)
  from C10_failed_post_leaves_log[OF h, of plain_lib "\<lparr>ThreadID = ''thread_1''\<rparr>" "''user''"
      "''And then?''" "''v1''"]
  show ?thesis
    by (simp add: run_eqs fixture_defs)
qed

subsection \<open>C8: a store write that fails after a remote creation\<close>

text \<open>
  C8. When the remote creation succeeds and the write of its identifier to the store
  fails, the operation returns an error and not the identifier. For the assistant: the
  request is built, the answer is 200 with an identifier that decodes, and the next
  store command (the write) fails. For the thread: the lookup misses, \<open>createThread\<close>
  returns an identifier, and the write fails. Read the other way round: whenever either
  function returns an identifier, the store holds it under the key of the video.
\<close>

theorem C8_failed_write_is_an_error:
  "(Marshal L [(''model'', ''gpt-4o-mini''), (''name'', VideoID initReq),
               (''instructions'', instructions initReq)] = Inr payload
    \<and> NewRequest L ''POST'' assistants_url = None
    \<and> provider w (length (sent w)) = Responded resp \<and> StatusCode resp = 200
    \<and> DecodeID L resp = Inr createID
    \<and> store_fault w (length (store_log w)) = Some e
    \<longrightarrow> fst (CreateAssistantWithMetadata L initReq w)
          = Inl (''failed to store assistant ID in Redis: '' @ e))
   \<and> (fst (redis_Get (''thread_id:'' @ videoID) w') = Inl ''redis: nil''
    \<and> createThread L (snd (redis_Get (''thread_id:'' @ videoID) w')) = (Inr threadID, w2)
    \<and> fst (redis_Set (''thread_id:'' @ videoID) threadID (24 * Hour) w2) = Some e'
    \<longrightarrow> fst (GetOrCreateThreadManager L videoID assistantID w')
          = Inl (''failed to store thread ID in Redis: '' @ e'))
   \<and> (fst (CreateAssistantWithMetadata L initReq w) = Inr createID
    \<longrightarrow> store (snd (CreateAssistantWithMetadata L initReq w)) (''assistant_id:'' @ VideoID initReq)
          = Some (Str createID, Some (24 * Hour)))
   \<and> (fst (GetOrCreateThreadManager L videoID assistantID w') = Inr tm
    \<longrightarrow> (\<exists>x. store (snd (GetOrCreateThreadManager L videoID assistantID w')) (''thread_id:'' @ videoID)
          = Some (Str (ThreadID tm), x)))"
proof (intro conjI impI)
  assume "Marshal L [(''model'', ''gpt-4o-mini''), (''name'', VideoID initReq),
               (''instructions'', instructions initReq)] = Inr payload
    \<and> NewRequest L ''POST'' assistants_url = None
    \<and> provider w (length (sent w)) = Responded resp \<and> StatusCode resp = 200
    \<and> DecodeID L resp = Inr createID
    \<and> store_fault w (length (store_log w)) = Some e"
  then show "fst (CreateAssistantWithMetadata L initReq w)
          = Inl (''failed to store assistant ID in Redis: '' @ e)"
    using CreateAssistant_write_fails(1)[of L initReq payload w resp createID e] by simp
next
  assume "fst (redis_Get (''thread_id:'' @ videoID) w') = Inl ''redis: nil''
    \<and> createThread L (snd (redis_Get (''thread_id:'' @ videoID) w')) = (Inr threadID, w2)
    \<and> fst (redis_Set (''thread_id:'' @ videoID) threadID (24 * Hour) w2) = Some e'"
  then show "fst (GetOrCreateThreadManager L videoID assistantID w')
          = Inl (''failed to store thread ID in Redis: '' @ e')"
    using GetOrCreate_write_fails(1) by blast
next
  assume "fst (CreateAssistantWithMetadata L initReq w) = Inr createID"
  then show "store (snd (CreateAssistantWithMetadata L initReq w)) (''assistant_id:'' @ VideoID initReq)
          = Some (Str createID, Some (24 * Hour))"
    by (simp add: CreateAssistant_store)
next
  assume "fst (GetOrCreateThreadManager L videoID assistantID w') = Inr tm"
  then show "\<exists>x. store (snd (GetOrCreateThreadManager L videoID assistantID w')) (''thread_id:'' @ videoID)
          = Some (Str (ThreadID tm), x)"
    by (rule GetOrCreate_resolved)
qed


text \<open>
  The witness: a store that fails every command (for the assistant), a store that
  fails its second command, the write after the lookup (for the thread), and the two
  runs without a fault, where the identifier returned is the one stored.
\<close>

theorem C8_witness:
  "fst (CreateAssistantWithMetadata plain_lib v1_request
          ((fresh_world (scripted [ok ''asst_1''] (SendFailed ''connection refused'')))
             \<lparr>store_fault := (\<lambda>n. Some ''connection reset'')\<rparr>))
     = Inl ''failed to store assistant ID in Redis: connection reset''
   \<and> fst (GetOrCreateThreadManager plain_lib ''v1'' ''asst_1''
          ((fresh_world (scripted [ok ''thread_1''] (SendFailed ''connection refused'')))
             \<lparr>store_fault := (\<lambda>n. if n = 1 then Some ''connection reset'' else None)\<rparr>))
     = Inl ''failed to store thread ID in Redis: connection reset''
   \<and> store (snd (CreateAssistantWithMetadata plain_lib v1_request session_world)) ''assistant_id:v1''
     = Some (Str ''asst_1'', Some 86400)
   \<and> store (snd (GetOrCreateThreadManager plain_lib ''v1'' ''asst_1'' hello_world)) ''thread_id:v1''
     = Some (Str ''thread_1'', Some 86400)"
proof -
  let ?wa = "(fresh_world (scripted [ok ''asst_1''] (SendFailed ''connection refused'')))
             \<lparr>store_fault := (\<lambda>n. Some ''connection reset'')\<rparr>"
  let ?wb = "(fresh_world (scripted [ok ''thread_1''] (SendFailed ''connection refused'')))
             \<lparr>store_fault := (\<lambda>n. if n = 1 then Some ''connection reset'' else None)\<rparr>"
  let ?w1 = "snd (redis_Get (''thread_id:'' @ ''v1'') ?wb)"
  have a: "Marshal plain_lib [(''model'', ''gpt-4o-mini''), (''name'', VideoID v1_request),
               (''instructions'', instructions v1_request)]
             = Inr (''model=gpt-4o-mini;name=v1;instructions='' @ instructions v1_request @ '';'')
    \<and> NewRequest plain_lib ''POST'' assistants_url = None
    \<and> provider ?wa (length (sent ?wa)) = Responded \<lparr>StatusCode = 200, Body = ''asst_1'', ReadErr = None\<rparr>
    \<and> StatusCode \<lparr>StatusCode = 200, Body = ''asst_1'', ReadErr = None\<rparr> = 200
    \<and> DecodeID plain_lib \<lparr>StatusCode = 200, Body = ''asst_1'', ReadErr = None\<rparr> = Inr ''asst_1''
    \<and> store_fault ?wa (length (store_log ?wa)) = Some ''connection reset''"
    by (simp add: fixture_defs)
  have b: "fst (redis_Get (''thread_id:'' @ ''v1'') ?wb) = Inl ''redis: nil''
    \<and> createThread plain_lib ?w1 = (Inr ''thread_1'', snd (createThread plain_lib ?w1))
    \<and> fst (redis_Set (''thread_id:'' @ ''v1'') ''thread_1'' (24 * Hour) (snd (createThread plain_lib ?w1)))
        = Some ''connection reset''"
    by (simp add: prod_eq_iff run_eqs fixture_defs)
  have c: "fst (CreateAssistantWithMetadata plain_lib v1_request session_world) = Inr ''asst_1''"
    by (simp add: run_eqs fixture_defs)
  have d: "fst (GetOrCreateThreadManager plain_lib ''v1'' ''asst_1'' hello_world)
             = Inr \<lparr>ThreadID = ''thread_1''\<rparr>"
    by (simp add: run_eqs fixture_defs)
  from a b c d
    C8_failed_write_is_an_error[where L = plain_lib and initReq = v1_request
      and payload = "''model=gpt-4o-mini;name=v1;instructions='' @ instructions v1_request @ '';''"
      and w = ?wa and resp = "\<lparr>StatusCode = 200, Body = ''asst_1'', ReadErr = None\<rparr>"
      and createID = "''asst_1''" and e = "''connection reset''" and videoID = "''v1''"
      and w' = ?wb and threadID = "''thread_1''" and ?w2.0 = "snd (createThread plain_lib ?w1)"
      and e' = "''connection reset''" and assistantID = "''asst_1''"]
    C8_failed_write_is_an_error[where L = plain_lib and initReq = v1_request
      and w = session_world and createID = "''asst_1''" and videoID = "''v1''"
      and w' = hello_world and assistantID = "''asst_1''"
      and tm = "\<lparr>ThreadID = ''thread_1''\<rparr>"]
  show ?thesis
    by (simp add: run_eqs fixture_defs)
qed

subsection \<open>C9: the in-process map is never read\<close>

text \<open>
  C9. The result of \<open>GetOrCreateThreadManager\<close> does not depend on what the map
  \<open>threadManagers\<close> holds: in two worlds that differ in the map only, the call returns
  the same result (the same ThreadID or the same error), leaves the same store and
  sends the same requests. When the lookup of the thread key returns an identifier,
  that identifier is the ThreadID returned. The map is only written: on success the
  new manager is put under the assistant's identifier.
\<close>

theorem C9_thread_independent_of_map:
  "fst (GetOrCreateThreadManager L videoID assistantID (w\<lparr>threadManagers := m\<rparr>))
     = fst (GetOrCreateThreadManager L videoID assistantID w)
   \<and> store (snd (GetOrCreateThreadManager L videoID assistantID (w\<lparr>threadManagers := m\<rparr>)))
     = store (snd (GetOrCreateThreadManager L videoID assistantID w))
   \<and> sent (snd (GetOrCreateThreadManager L videoID assistantID (w\<lparr>threadManagers := m\<rparr>)))
     = sent (snd (GetOrCreateThreadManager L videoID assistantID w))
   \<and> (fst (redis_Get (''thread_id:'' @ videoID) w) = Inr t
      \<longrightarrow> fst (GetOrCreateThreadManager L videoID assistantID w) = Inr \<lparr>ThreadID = t\<rparr>)
   \<and> (fst (GetOrCreateThreadManager L videoID assistantID w) = Inr tm
      \<longrightarrow> threadManagers (snd (GetOrCreateThreadManager L videoID assistantID w))
          = (threadManagers w)(assistantID \<mapsto> tm))"
proof -
  let ?g = "GetOrCreateThreadManager L videoID assistantID"
  have same: "(snd (?g (w\<lparr>threadManagers := m\<rparr>)))\<lparr>threadManagers := Map.empty\<rparr>
      = (snd (?g w))\<lparr>threadManagers := Map.empty\<rparr>"
    by (rule GetOrCreate_map(2))
  have "store ((snd (?g (w\<lparr>threadManagers := m\<rparr>)))\<lparr>threadManagers := Map.empty\<rparr>)
      = store ((snd (?g w))\<lparr>threadManagers := Map.empty\<rparr>)"
    and "sent ((snd (?g (w\<lparr>threadManagers := m\<rparr>)))\<lparr>threadManagers := Map.empty\<rparr>)
      = sent ((snd (?g w))\<lparr>threadManagers := Map.empty\<rparr>)"
    by (simp_all only: same)
  then have frame: "store (snd (?g (w\<lparr>threadManagers := m\<rparr>))) = store (snd (?g w))"
    "sent (snd (?g (w\<lparr>threadManagers := m\<rparr>))) = sent (snd (?g w))"
    by simp_all
  have hit: "fst (?g w) = Inr \<lparr>ThreadID = t\<rparr>"
    if "fst (redis_Get (''thread_id:'' @ videoID) w) = Inr t"
    using GetOrCreate_hit[OF that, of L assistantID] by simp
  have written: "threadManagers (snd (?g w)) = (threadManagers w)(assistantID \<mapsto> tm)"
    if "fst (?g w) = Inr tm"
    using that
    by (auto simp: GetOrCreateThreadManager_def Let_def split_beta
        split: sum.splits option.splits if_splits)
  show ?thesis
    using GetOrCreate_map(1)[where L = L and v = videoID and a = assistantID and w = w and m = m]
      frame hit written by blast
qed

text \<open>
  The witness: the store holds \<open>thread_9\<close> for the video while the map holds a stale
  manager for the assistant; the call returns \<open>thread_9\<close> and overwrites the entry.
\<close>

theorem C9_witness:
  "fst (GetOrCreateThreadManager plain_lib ''v1'' ''asst_1''
          (hello_world\<lparr>store := [''thread_id:v1'' \<mapsto> (Str ''thread_9'', Some 86400)],
                        threadManagers := [''asst_1'' \<mapsto> \<lparr>ThreadID = ''stale''\<rparr>]\<rparr>))
     = Inr \<lparr>ThreadID = ''thread_9''\<rparr>
   \<and> threadManagers (snd (GetOrCreateThreadManager plain_lib ''v1'' ''asst_1''
          (hello_world\<lparr>store := [''thread_id:v1'' \<mapsto> (Str ''thread_9'', Some 86400)],
                        threadManagers := [''asst_1'' \<mapsto> \<lparr>ThreadID = ''stale''\<rparr>]\<rparr>)))
     = [''asst_1'' \<mapsto> \<lparr>ThreadID = ''thread_9''\<rparr>]"
proof -
  let ?w = "hello_world\<lparr>store := [''thread_id:v1'' \<mapsto> (Str ''thread_9'', Some 86400)],
                        threadManagers := [''asst_1'' \<mapsto> \<lparr>ThreadID = ''stale''\<rparr>]\<rparr>"
  have h: "fst (redis_Get (''thread_id:'' @ ''v1'') ?w) = Inr ''thread_9''"
    by (simp add: run_eqs fixture_defs)
  from h C9_thread_independent_of_map[where L = plain_lib and videoID = "''v1''"
      and assistantID = "''asst_1''" and w = ?w and m = "threadManagers ?w"
      and t = "''thread_9''" and tm = "\<lparr>ThreadID = ''thread_9''\<rparr>"]
  show ?thesis by simp
qed

subsection \<open>C7: a start-job request that is refused\<close>

text \<open>
  C7. The thread is resolved, the question is posted and recorded, and the provider
  answers the start-job request with a status other than 200. Then ask-question
  (\<open>AskAssistantQuestion\<close>, whatever the fuel) returns the error
  \<open>failed to run assistant:\<close> followed by the raw body of that response, so the message
  ends with the body; and the Interaction Log of the video is the log as it was with
  the question appended, and nothing else: no assistant entry.
\<close>

theorem C7_refused_start_job:
  assumes "GetOrCreateThreadManager L videoID assistantID w = (Inr tm, w1)"
    and "AddMessageToThread L tm ''user'' question videoID w1 = (None, w2)"
    and "Marshal L [(''assistant_id'', assistantID)] = Inr payload"
    and "NewRequest L ''POST'' (runs_url (ThreadID tm)) = None"
    and "provider w2 (length (sent w2)) = Responded resp"
    and "StatusCode resp \<noteq> 200"
  shows "fst (AskAssistantQuestion fuel L videoID assistantID question w)
           = Some (Inl (''failed to run assistant: '' @ Body resp))
    \<and> (\<exists>msg. fst (AskAssistantQuestion fuel L videoID assistantID question w) = Some (Inl msg)
             \<and> suffix (Body resp) msg)
    \<and> InteractionLog (snd (AskAssistantQuestion fuel L videoID assistantID question w)) videoID
        = InteractionLog w videoID @ [question]"
  using Ask_start_job_refused[OF assms, of fuel] by (simp add: suffix_def)

text \<open>
  The witness: the provider creates the thread, accepts the message and answers 429 to
  the start of the job.
\<close>

theorem C7_witness:
  "fst (AskAssistantQuestion 3 plain_lib ''v1'' ''asst_1'' ''What is this?''
          (fresh_world (scripted [ok ''thread_1'', ok []] (refused 429 ''{rate_limit_exceeded}''))))
     = Some (Inl ''failed to run assistant: {rate_limit_exceeded}'')
   \<and> InteractionLog
        (snd (AskAssistantQuestion 3 plain_lib ''v1'' ''asst_1'' ''What is this?''
          (fresh_world (scripted [ok ''thread_1'', ok []] (refused 429 ''{rate_limit_exceeded}''))))) ''v1''
     = [''What is this?'']"
proof -
  let ?w = "fresh_world (scripted [ok ''thread_1'', ok []] (refused 429 ''{rate_limit_exceeded}''))"
  let ?tm = "\<lparr>ThreadID = ''thread_1''\<rparr>"
  let ?w1 = "snd (GetOrCreateThreadManager plain_lib ''v1'' ''asst_1'' ?w)"
  let ?w2 = "snd (AddMessageToThread plain_lib ?tm ''user'' ''What is this?'' ''v1'' ?w1)"
  let ?resp = "\<lparr>StatusCode = 429, Body = ''{rate_limit_exceeded}'', ReadErr = None\<rparr>"
  have g: "GetOrCreateThreadManager plain_lib ''v1'' ''asst_1'' ?w = (Inr ?tm, ?w1)"
    by (simp add: prod_eq_iff run_eqs fixture_defs)
  have m: "AddMessageToThread plain_lib ?tm ''user'' ''What is this?'' ''v1'' ?w1 = (None, ?w2)"
    by (simp add: prod_eq_iff run_eqs fixture_defs)
  have p: "Marshal plain_lib [(''assistant_id'', ''asst_1'')] = Inr ''assistant_id=asst_1;''"
    and n: "NewRequest plain_lib ''POST'' (runs_url (ThreadID ?tm)) = None"
    by (simp_all add: fixture_defs)
  have r: "provider ?w2 (length (sent ?w2)) = Responded ?resp"
    by (simp add: run_eqs fixture_defs)
  have s: "StatusCode ?resp \<noteq> 200" by simp
  from C7_refused_start_job[OF g m p n r s, of 3] show ?thesis
    by (simp add: run_eqs fixture_defs)
qed

subsection \<open>C5: the reply\<close>

text \<open>
  C5. In both directions. First: when ask-question returns a reply, the last request it
  sent is the list-messages request, and the reply is built from the message list that
  this request obtained: it is the concatenation, in order, of the text fragments of the
  most recent turn whose role is \<open>assistant\<close>. Second, the run that completes: the
  thread is resolved, the question is posted and recorded, the job is started, the
  first \<open>k\<close> get-job-status calls obtain a status that is not \<open>completed\<close>, the next one
  obtains \<open>completed\<close>, the list-messages call after it obtains the list \<open>msgs\<close>, and the
  fuel allows more than \<open>k\<close> rounds. Then ask-question returns, and what it returns is
  decided by \<open>msgs\<close>: with no assistant turn in the list, the error
  \<open>no assistant message found\<close>; otherwise, with \<open>m\<close> the most recent assistant turn, the
  concatenation in order of the text fragments of \<open>m\<close> when the append to the
  Interaction Log succeeds, and the error of the store when it fails. (The list is read
  newest first, as the provider returns it: the code takes the first assistant message
  of the list, wherever it stands in the list.)
\<close>

theorem C5_reply_is_most_recent_assistant_text:
  "(fst (AskAssistantQuestion fuel L videoID assistantID question w) = Some (Inr reply) \<longrightarrow>
      (\<exists>msgs m tm.
          sent (snd (AskAssistantQuestion fuel L videoID assistantID question w)) \<noteq> []
        \<and> last (sent (snd (AskAssistantQuestion fuel L videoID assistantID question w)))
            = messages_request tm w
        \<and> messages_at L w
            (length (sent (snd (AskAssistantQuestion fuel L videoID assistantID question w))) - 1)
            = Some msgs
        \<and> most_recent_assistant msgs = Some m
        \<and> reply = concat (text_fragments m)))
   \<and> (GetOrCreateThreadManager L videoID assistantID w = (Inr tm', w1)
        \<and> AddMessageToThread L tm' ''user'' question videoID w1 = (None, w2)
        \<and> Marshal L [(''assistant_id'', assistantID)] = Inr payload
        \<and> NewRequest L ''POST'' (runs_url (ThreadID tm')) = None
        \<and> provider w2 (length (sent w2)) = Responded resp
        \<and> StatusCode resp = 200
        \<and> DecodeRun L resp = Inr (runID, runStatus)
        \<and> NewRequest L ''GET'' (run_url (ThreadID tm') runID) = None
        \<and> NewRequest L ''GET'' (messages_url (ThreadID tm')) = None
        \<and> (\<forall>j<k. \<exists>s. status_at L w2 (Suc (length (sent w2)) + j) = Some s \<and> s \<noteq> ''completed'')
        \<and> status_at L w2 (Suc (length (sent w2)) + k) = Some ''completed''
        \<and> messages_at L w2 (Suc (Suc (length (sent w2)) + k)) = Some msgs'
        \<and> k < fuel
      \<longrightarrow>
        fst (AskAssistantQuestion fuel L videoID assistantID question w) =
          Some (case most_recent_assistant msgs' of
                  None \<Rightarrow> Inl ''no assistant message found''
                | Some m \<Rightarrow>
                    (case fst (redis_RPush (''interactions:'' @ videoID)
                                 (''Assistant: '' @ concat (text_fragments m)) w2) of
                       Some e \<Rightarrow> Inl (''failed to store assistant response in Redis: '' @ e)
                     | None \<Rightarrow> Inr (concat (text_fragments m)))))"
proof (intro conjI impI)
  assume "fst (AskAssistantQuestion fuel L videoID assistantID question w) = Some (Inr reply)"
  from Ask_reply_messages[OF this]
  show "\<exists>msgs m tm.
          sent (snd (AskAssistantQuestion fuel L videoID assistantID question w)) \<noteq> []
        \<and> last (sent (snd (AskAssistantQuestion fuel L videoID assistantID question w)))
            = messages_request tm w
        \<and> messages_at L w
            (length (sent (snd (AskAssistantQuestion fuel L videoID assistantID question w))) - 1)
            = Some msgs
        \<and> most_recent_assistant msgs = Some m
        \<and> reply = concat (text_fragments m)"
    by blast
next
  assume h: "GetOrCreateThreadManager L videoID assistantID w = (Inr tm', w1)
        \<and> AddMessageToThread L tm' ''user'' question videoID w1 = (None, w2)
        \<and> Marshal L [(''assistant_id'', assistantID)] = Inr payload
        \<and> NewRequest L ''POST'' (runs_url (ThreadID tm')) = None
        \<and> provider w2 (length (sent w2)) = Responded resp
        \<and> StatusCode resp = 200
        \<and> DecodeRun L resp = Inr (runID, runStatus)
        \<and> NewRequest L ''GET'' (run_url (ThreadID tm') runID) = None
        \<and> NewRequest L ''GET'' (messages_url (ThreadID tm')) = None
        \<and> (\<forall>j<k. \<exists>s. status_at L w2 (Suc (length (sent w2)) + j) = Some s \<and> s \<noteq> ''completed'')
        \<and> status_at L w2 (Suc (length (sent w2)) + k) = Some ''completed''
        \<and> messages_at L w2 (Suc (Suc (length (sent w2)) + k)) = Some msgs'
        \<and> k < fuel"
  show "fst (AskAssistantQuestion fuel L videoID assistantID question w) =
          Some (case most_recent_assistant msgs' of
                  None \<Rightarrow> Inl ''no assistant message found''
                | Some m \<Rightarrow>
                    (case fst (redis_RPush (''interactions:'' @ videoID)
                                 (''Assistant: '' @ concat (text_fragments m)) w2) of
                       Some e \<Rightarrow> Inl (''failed to store assistant response in Redis: '' @ e)
                     | None \<Rightarrow> Inr (concat (text_fragments m))))"
    by (rule Ask_reaches_completed[where ?w1.0 = w1 and k = k and payload = payload
          and resp = resp and rid = runID and st = runStatus])
       (use h in blast)+
qed

text \<open>
  The witness. For the first direction, the example of the specification: the statuses
  are \<open>queued\<close>, \<open>running\<close>, \<open>completed\<close>, the message list holds one assistant turn with
  the text fragments \<open>Hello, \<close> and \<open>world.\<close>, and ask-question returns \<open>Hello, world.\<close>
  with any fuel of three rounds or more. For the second direction, the same run with
  the list \<open>late\<close>, whose first turn is a user's and whose most recent assistant turn is
  the second of the list: the theorem gives \<open>Hello, world.\<close>, not the error for a list
  without assistant turn and not the older assistant turn \<open>Welcome.\<close>.
\<close>

theorem C5_witness:
  "(\<forall>n. fst (AskAssistantQuestion (Suc (Suc (Suc n))) plain_lib ''v1'' ''asst_1'' ''What is this?''
             hello_world) = Some (Inr ''Hello, world.''))
   \<and> messages_at plain_lib hello_world 6 = Some hello_messages
   \<and> most_recent_assistant hello_messages = Some (hd hello_messages)
   \<and> text_fragments (hd hello_messages) = [''Hello, '', ''world.'']
   \<and> (\<exists>m. most_recent_assistant hello_messages = Some m
          \<and> ''Hello, world.'' = concat (text_fragments m))
   \<and> messages_at plain_lib late_world 6 = Some late_messages
   \<and> Role (late_messages ! 0) = ''user''
   \<and> most_recent_assistant late_messages = Some (late_messages ! 1)
   \<and> text_fragments (late_messages ! 1) = [''Hello, '', ''world.'']
   \<and> (\<forall>n. fst (AskAssistantQuestion (Suc (Suc (Suc n))) plain_lib ''v1'' ''asst_1'' ''What is this?''
             late_world) = Some (Inr ''Hello, world.''))"
proof -
  note claim = C5_reply_is_most_recent_assistant_text[where L = plain_lib and videoID = "''v1''"
      and assistantID = "''asst_1''" and question = "''What is this?''"]
  have run: "fst (AskAssistantQuestion (Suc (Suc (Suc n))) plain_lib ''v1'' ''asst_1''
      ''What is this?'' hello_world) = Some (Inr ''Hello, world.'')" for n
    by (simp add: run_eqs fixture_defs del: assistant_message.simps)
  have len: "length (sent (snd (AskAssistantQuestion (Suc (Suc (Suc 0))) plain_lib ''v1'' ''asst_1''
      ''What is this?'' hello_world))) = 7"
    by (simp add: run_eqs fixture_defs del: assistant_message.simps)
  have at: "messages_at plain_lib hello_world 6 = Some hello_messages"
    by (simp add: messages_at_def fixture_defs)
  have recent: "most_recent_assistant hello_messages = Some (hd hello_messages)"
    by (simp add: most_recent_assistant_def chronological_def hello_messages_def)
  have frags: "text_fragments (hd hello_messages) = [''Hello, '', ''world.'']"
    by (simp add: text_fragments_def is_text_def hello_messages_def)
  from claim[where w = hello_world and fuel = "Suc (Suc (Suc 0))" and reply = "''Hello, world.''",
      THEN conjunct1, THEN mp, OF run[of 0]] len at
  have first: "\<exists>m. most_recent_assistant hello_messages = Some m
          \<and> ''Hello, world.'' = concat (text_fragments m)"
    by auto
  let ?tm = "\<lparr>ThreadID = ''thread_1''\<rparr>"
  let ?w1 = "snd (GetOrCreateThreadManager plain_lib ''v1'' ''asst_1'' late_world)"
  let ?w2 = "snd (AddMessageToThread plain_lib ?tm ''user'' ''What is this?'' ''v1'' ?w1)"
  let ?resp = "\<lparr>StatusCode = 200, Body = ''run_1'', ReadErr = None\<rparr>"
  have g: "GetOrCreateThreadManager plain_lib ''v1'' ''asst_1'' late_world = (Inr ?tm, ?w1)"
    by (simp add: prod_eq_iff run_eqs fixture_defs)
  have m: "AddMessageToThread plain_lib ?tm ''user'' ''What is this?'' ''v1'' ?w1 = (None, ?w2)"
    by (simp add: prod_eq_iff run_eqs fixture_defs)
  have p: "Marshal plain_lib [(''assistant_id'', ''asst_1'')] = Inr ''assistant_id=asst_1;''"
    and np: "NewRequest plain_lib ''POST'' (runs_url (ThreadID ?tm)) = None"
    and ns: "NewRequest plain_lib ''GET'' (run_url (ThreadID ?tm) ''run_1'') = None"
    and nm: "NewRequest plain_lib ''GET'' (messages_url (ThreadID ?tm)) = None"
    and d: "DecodeRun plain_lib ?resp = Inr (''run_1'', ''queued'')"
    by (simp_all add: fixture_defs)
  have sent2: "length (sent ?w2) = 2"
    by (simp add: run_eqs fixture_defs)
  have r: "provider ?w2 (length (sent ?w2)) = Responded ?resp"
    unfolding sent2 by (simp add: run_eqs fixture_defs)
  have s: "StatusCode ?resp = 200" by simp
  have queued: "status_at plain_lib ?w2 (Suc (length (sent ?w2)) + 0) = Some ''queued''"
    and running: "status_at plain_lib ?w2 (Suc (length (sent ?w2)) + 1) = Some ''running''"
    and then_completed:
      "status_at plain_lib ?w2 (Suc (length (sent ?w2)) + 2) = Some ''completed''"
    and then_listed:
      "messages_at plain_lib ?w2 (Suc (Suc (length (sent ?w2)) + 2)) = Some late_messages"
    unfolding sent2 by (simp_all add: status_at_def messages_at_def fixture_defs)
  have before: "\<forall>j<2. \<exists>s. status_at plain_lib ?w2 (Suc (length (sent ?w2)) + j) = Some s
      \<and> s \<noteq> ''completed''"
  proof (intro allI impI)
    fix j :: nat
    assume "j < 2"
    then consider "j = 0" | "j = 1" by linarith
    then show "\<exists>s. status_at plain_lib ?w2 (Suc (length (sent ?w2)) + j) = Some s
      \<and> s \<noteq> ''completed''"
    proof cases
      case 1
      show ?thesis unfolding 1 queued by simp
    next
      case 2
      show ?thesis unfolding 2 running by simp
    qed
  qed
  have at_late: "messages_at plain_lib late_world 6 = Some late_messages"
    by (simp add: messages_at_def fixture_defs)
  have head_late: "Role (late_messages ! 0) = ''user''"
    by (simp add: late_messages_def)
  have recent_late: "most_recent_assistant late_messages = Some (late_messages ! 1)"
    by (simp add: most_recent_assistant_def chronological_def late_messages_def)
  have frags_late: "text_fragments (late_messages ! 1) = [''Hello, '', ''world.'']"
    by (simp add: text_fragments_def is_text_def late_messages_def)
  have push: "fst (redis_RPush (''interactions:'' @ ''v1'') (''Assistant: '' @ c) ?w2) = None" for c
    by (simp add: run_eqs fixture_defs)
  have second: "fst (AskAssistantQuestion (Suc (Suc (Suc n))) plain_lib ''v1'' ''asst_1''
      ''What is this?'' late_world) = Some (Inr ''Hello, world.'')" for n
  proof -
    have fuel: "2 < Suc (Suc (Suc n))" by simp
    note total = claim[where w = late_world and fuel = "Suc (Suc (Suc n))"
        and tm' = ?tm and ?w1.0 = ?w1 and ?w2.0 = ?w2 and payload = "''assistant_id=asst_1;''"
        and resp = ?resp and runID = "''run_1''" and runStatus = "''queued''" and k = 2
        and msgs' = late_messages,
        THEN conjunct2, THEN mp,
        OF conjI[OF g conjI[OF m conjI[OF p conjI[OF np conjI[OF r conjI[OF s conjI[OF d
           conjI[OF ns conjI[OF nm conjI[OF before conjI[OF then_completed
           conjI[OF then_listed fuel]]]]]]]]]]]]]
    show ?thesis
      using total frags_late unfolding recent_late push by simp
  qed
  from run at recent frags first at_late head_late recent_late frags_late second
  show ?thesis by blast
qed

subsection \<open>C2: the Interaction Log after K successful questions\<close>

text \<open>
  C2. A client asks K questions about one video, one after the other, and every call
  succeeds, with the answers \<open>answers\<close>. Then there are K answers, and the Interaction
  Log of the video is the log as it was followed by question 1, answer 1, question 2,
  answer 2 and so on, each answer prefixed with \<open>Assistant: \<close>: these are 2K entries,
  and they are the whole log when it was empty before.
\<close>

theorem C2_log_after_successful_questions:
  assumes "fst (ask_all fuel L videoID assistantID questions w)
             = map (\<lambda>answer. Some (Inr answer)) answers"
  shows "length answers = length questions
    \<and> InteractionLog (snd (ask_all fuel L videoID assistantID questions w)) videoID
        = InteractionLog w videoID @ turns questions answers
    \<and> length (turns questions answers) = 2 * length questions
    \<and> (InteractionLog w videoID = [] \<longrightarrow>
         InteractionLog (snd (ask_all fuel L videoID assistantID questions w)) videoID
           = turns questions answers
         \<and> length (InteractionLog (snd (ask_all fuel L videoID assistantID questions w)) videoID)
           = 2 * length questions)"
proof -
  note log = ask_all_log[OF assms]
  then have "length (turns questions answers) = 2 * length questions"
    by (simp add: length_turns)
  with log show ?thesis by simp
qed

text \<open>
  The witness: two questions on a fresh store. The first creates the thread and waits
  three rounds, the second finds the thread and waits one round.
\<close>

theorem C2_witness:
  "fst (ask_all 3 plain_lib ''v1'' ''asst_1'' [''What is this?'', ''And then?''] two_questions_world)
     = [Some (Inr ''Hello, world.''), Some (Inr ''Goodbye.'')]
   \<and> InteractionLog
        (snd (ask_all 3 plain_lib ''v1'' ''asst_1'' [''What is this?'', ''And then?'']
                two_questions_world)) ''v1''
     = [''What is this?'', ''Assistant: Hello, world.'', ''And then?'', ''Assistant: Goodbye.'']
   \<and> InteractionLog two_questions_world ''v1'' = []"
proof -
  let ?w = two_questions_world
  let ?first = "AskAssistantQuestion 3 plain_lib ''v1'' ''asst_1'' ''What is this?'' ?w"
  have first: "fst ?first = Some (Inr ''Hello, world.'')"
    and sent1: "length (sent (snd ?first)) = 7"
    and store1: "store (snd ?first) =
        [''thread_id:v1'' \<mapsto> (Str ''thread_1'', Some 86400),
         ''interactions:v1'' \<mapsto> (Lst [''What is this?'', ''Assistant: Hello, world.''], None)]"
    and log1: "length (store_log (snd ?first)) = 4"
    by (simp_all add: run_eqs fixture_defs numeral_3_eq_3 del: assistant_message.simps)
  have second: "fst (AskAssistantQuestion 3 plain_lib ''v1'' ''asst_1'' ''And then?'' w1)
        = Some (Inr ''Goodbye.'')"
    if "provider w1 = provider ?w" and "store_fault w1 = store_fault ?w"
      and "length (sent w1) = 7" and "length (store_log w1) = 4"
      and "store w1 =
        [''thread_id:v1'' \<mapsto> (Str ''thread_1'', Some 86400),
         ''interactions:v1'' \<mapsto> (Lst [''What is this?'', ''Assistant: Hello, world.''], None)]"
    for w1
    using that
    by (simp add: run_eqs fixture_defs numeral_3_eq_3 del: assistant_message.simps)
  have both: "fst (AskAssistantQuestion 3 plain_lib ''v1'' ''asst_1'' ''And then?'' (snd ?first))
        = Some (Inr ''Goodbye.'')"
    by (rule second) (simp_all add: sent1 log1 store1)
  have run: "fst (ask_all 3 plain_lib ''v1'' ''asst_1'' [''What is this?'', ''And then?''] ?w)
     = map (\<lambda>answer. Some (Inr answer)) [''Hello, world.'', ''Goodbye.'']"
    by (simp add: ask_all_fst first both)
  have empty: "InteractionLog ?w ''v1'' = []"
    by (simp add: run_eqs fixture_defs)
  from C2_log_after_successful_questions[OF run] run empty show ?thesis
    by simp
qed

subsection \<open>C1: what ends the poll loop\<close>

text \<open>
  C1 says two things: a reply is returned only when a status call returns
  \<open>completed\<close>, and for any other terminal status such as \<open>failed\<close> a job-failed error
  is reported. The second does not hold. The loop compares the status with
  \<open>completed\<close> and with nothing else: for a run whose status is \<open>failed\<close> from the first
  round on, no number of rounds makes \<open>RunAssistant\<close> return, be it a reply or an error.
\<close>

theorem C1_counterexample:
  "status_at plain_lib failed_world 1 = Some ''failed''
   \<and> (\<forall>fuel. fst (RunAssistant fuel plain_lib \<lparr>ThreadID = ''thread_1''\<rparr> ''asst_1'' ''v1''
                   failed_world) = None)"
proof -
  let ?tm = "\<lparr>ThreadID = ''thread_1''\<rparr>"
  let ?resp = "\<lparr>StatusCode = 200, Body = ''run_1'', ReadErr = None\<rparr>"
  have failed: "status_at plain_lib failed_world i = Some ''failed''" if "0 < i" for i
    using that by (simp add: status_at_def fixture_defs)
  then have later: "\<forall>i>length (sent failed_world).
      \<exists>s. status_at plain_lib failed_world i = Some s \<and> s \<noteq> ''completed''"
    by (simp add: failed_world_def fresh_world_def)
  have "fst (RunAssistant fuel plain_lib ?tm ''asst_1'' ''v1'' failed_world) = None" for fuel
  proof (rule RunAssistant_pending[where payload = "''assistant_id=asst_1;''" and resp = ?resp
        and rid = "''run_1''" and st = "''queued''"])
    show "Marshal plain_lib [(''assistant_id'', ''asst_1'')] = Inr ''assistant_id=asst_1;''"
      by (simp add: fixture_defs)
    show "NewRequest plain_lib ''POST'' (runs_url (ThreadID ?tm)) = None"
      by (simp add: fixture_defs)
    show "provider failed_world (length (sent failed_world)) = Responded ?resp"
      by (simp add: fixture_defs)
    show "StatusCode ?resp = 200" by simp
    show "DecodeRun plain_lib ?resp = Inr (''run_1'', ''queued'')"
      by (simp add: fixture_defs)
    show "NewRequest plain_lib ''GET'' (run_url (ThreadID ?tm) ''run_1'') = None"
      by (simp add: fixture_defs)
    show "\<forall>i>length (sent failed_world).
      \<exists>s. status_at plain_lib failed_world i = Some s \<and> s \<noteq> ''completed''"
      by (rule later)
  qed
  with failed[of 1] show ?thesis by simp
qed

text \<open>
  C1 as amended. \<open>RunAssistant\<close> returns a reply only when a get-job-status call has
  returned \<open>completed\<close>: among the requests it sent there is a status request whose
  answer was \<open>completed\<close>, and every status request before it was answered with
  another status. A round that obtains any other status, \<open>failed\<close> included, reports
  nothing and is followed by the next round; so while the provider answers every status
  request with such a status, \<open>RunAssistant\<close> returns neither a reply nor an error,
  whatever the fuel.
\<close>

theorem C1_reply_only_after_completed:
  "(fst (RunAssistant fuel L tm assistantID videoID w) = Some (Inr reply) \<longrightarrow>
      (\<exists>i runID. length (sent w) < i
         \<and> i < length (sent (snd (RunAssistant fuel L tm assistantID videoID w)))
         \<and> sent (snd (RunAssistant fuel L tm assistantID videoID w)) ! i = status_request tm runID w
         \<and> status_at L w i = Some ''completed''
         \<and> (\<forall>j. length (sent w) < j \<and> j < i \<longrightarrow>
               (\<exists>s. status_at L w j = Some s \<and> s \<noteq> ''completed''))))
   \<and> (fst (GetRunStatus L tm runID' w') = Inr observed \<and> observed \<noteq> ''completed'' \<longrightarrow>
        poll (Suc fuel) L tm runID' videoID w'
          = poll fuel L tm runID' videoID (snd (GetRunStatus L tm runID' w')))
   \<and> (Marshal L [(''assistant_id'', assistantID)] = Inr payload
      \<and> NewRequest L ''POST'' (runs_url (ThreadID tm)) = None
      \<and> provider w (length (sent w)) = Responded resp \<and> StatusCode resp = 200
      \<and> DecodeRun L resp = Inr (runID', runStatus)
      \<and> NewRequest L ''GET'' (run_url (ThreadID tm) runID') = None
      \<and> (\<forall>i>length (sent w). \<exists>s. status_at L w i = Some s \<and> s \<noteq> ''completed'')
      \<longrightarrow> fst (RunAssistant fuel L tm assistantID videoID w) = None)"
proof (intro conjI impI)
  assume "fst (RunAssistant fuel L tm assistantID videoID w) = Some (Inr reply)"
  then show "\<exists>i runID. length (sent w) < i
         \<and> i < length (sent (snd (RunAssistant fuel L tm assistantID videoID w)))
         \<and> sent (snd (RunAssistant fuel L tm assistantID videoID w)) ! i = status_request tm runID w
         \<and> status_at L w i = Some ''completed''
         \<and> (\<forall>j. length (sent w) < j \<and> j < i \<longrightarrow>
               (\<exists>s. status_at L w j = Some s \<and> s \<noteq> ''completed''))"
    by (rule RunAssistant_reply_completed)
next
  assume "fst (GetRunStatus L tm runID' w') = Inr observed \<and> observed \<noteq> ''completed''"
  then show "poll (Suc fuel) L tm runID' videoID w'
          = poll fuel L tm runID' videoID (snd (GetRunStatus L tm runID' w'))"
    by (simp add: prod_eq_iff poll_fst poll_snd)
next
  assume "Marshal L [(''assistant_id'', assistantID)] = Inr payload
      \<and> NewRequest L ''POST'' (runs_url (ThreadID tm)) = None
      \<and> provider w (length (sent w)) = Responded resp \<and> StatusCode resp = 200
      \<and> DecodeRun L resp = Inr (runID', runStatus)
      \<and> NewRequest L ''GET'' (run_url (ThreadID tm) runID') = None
      \<and> (\<forall>i>length (sent w). \<exists>s. status_at L w i = Some s \<and> s \<noteq> ''completed'')"
  then show "fst (RunAssistant fuel L tm assistantID videoID w) = None"
    using RunAssistant_pending[of L assistantID payload tm w resp runID' runStatus fuel videoID]
    by blast
qed

text \<open>
  The witness: a run that sees \<open>queued\<close>, \<open>running\<close>, \<open>completed\<close> and returns its
  reply; one round of the loop on the status \<open>failed\<close>, which goes on to the next
  round; and the run whose status stays \<open>failed\<close>, still polling after a thousand
  rounds.
\<close>

theorem C1_witness:
  "fst (RunAssistant 3 plain_lib \<lparr>ThreadID = ''thread_1''\<rparr> ''asst_1'' ''v1''
          (fresh_world (scripted (drop 2 one_question) (SendFailed ''connection refused''))))
     = Some (Inr ''Hello, world.'')
   \<and> (\<exists>i. 0 < i
        \<and> status_at plain_lib
             (fresh_world (scripted (drop 2 one_question) (SendFailed ''connection refused''))) i
            = Some ''completed'')
   \<and> fst (GetRunStatus plain_lib \<lparr>ThreadID = ''thread_1''\<rparr> ''run_1''
            (fresh_world (\<lambda>n. ok ''failed''))) = Inr ''failed''
   \<and> poll 2 plain_lib \<lparr>ThreadID = ''thread_1''\<rparr> ''run_1'' ''v1'' (fresh_world (\<lambda>n. ok ''failed''))
       = poll 1 plain_lib \<lparr>ThreadID = ''thread_1''\<rparr> ''run_1'' ''v1''
           (snd (GetRunStatus plain_lib \<lparr>ThreadID = ''thread_1''\<rparr> ''run_1''
                  (fresh_world (\<lambda>n. ok ''failed''))))
   \<and> fst (RunAssistant 1000 plain_lib \<lparr>ThreadID = ''thread_1''\<rparr> ''asst_1'' ''v1'' failed_world)
     = None"
proof -
  let ?tm = "\<lparr>ThreadID = ''thread_1''\<rparr>"
  let ?w = "fresh_world (scripted (drop 2 one_question) (SendFailed ''connection refused''))"
  let ?resp = "\<lparr>StatusCode = 200, Body = ''run_1'', ReadErr = None\<rparr>"
  have run: "fst (RunAssistant 3 plain_lib ?tm ''asst_1'' ''v1'' ?w) = Some (Inr ''Hello, world.'')"
    by (simp add: run_eqs fixture_defs numeral_3_eq_3 del: assistant_message.simps)
  let ?wf = "fresh_world (\<lambda>n. ok ''failed'')"
  have again: "fst (GetRunStatus plain_lib ?tm ''run_1'' ?wf) = Inr ''failed''
      \<and> ''failed'' \<noteq> ''completed''"
    by (simp add: run_eqs fixture_defs)
  have failed: "status_at plain_lib failed_world i = Some ''failed''" if "0 < i" for i
    using that by (simp add: status_at_def fixture_defs)
  have pending: "Marshal plain_lib [(''assistant_id'', ''asst_1'')] = Inr ''assistant_id=asst_1;''
      \<and> NewRequest plain_lib ''POST'' (runs_url (ThreadID ?tm)) = None
      \<and> provider failed_world (length (sent failed_world)) = Responded ?resp
      \<and> StatusCode ?resp = 200
      \<and> DecodeRun plain_lib ?resp = Inr (''run_1'', ''queued'')
      \<and> NewRequest plain_lib ''GET'' (run_url (ThreadID ?tm) ''run_1'') = None
      \<and> (\<forall>i>length (sent failed_world).
            \<exists>s. status_at plain_lib failed_world i = Some s \<and> s \<noteq> ''completed'')"
    using failed by (simp add: fixture_defs)
  note claim = C1_reply_only_after_completed[where L = plain_lib and tm = ?tm
      and assistantID = "''asst_1''" and videoID = "''v1''"]
  from claim[where fuel = 3 and w = ?w and reply = "''Hello, world.''",
      THEN conjunct1, THEN mp, OF run]
  have seen: "\<exists>i. 0 < i \<and> status_at plain_lib ?w i = Some ''completed''"
    by (auto simp: fresh_world_def)
  from claim[where fuel = 1 and runID' = "''run_1''" and w' = ?wf
      and observed = "''failed''", THEN conjunct2, THEN conjunct1, THEN mp, OF again]
  have step: "poll 2 plain_lib ?tm ''run_1'' ''v1'' ?wf
       = poll 1 plain_lib ?tm ''run_1'' ''v1'' (snd (GetRunStatus plain_lib ?tm ''run_1'' ?wf))"
    by (simp add: numeral_2_eq_2)
  from claim[where fuel = 1000 and w = failed_world
      and payload = "''assistant_id=asst_1;''" and resp = ?resp and runID' = "''run_1''"
      and runStatus = "''queued''", THEN conjunct2, THEN conjunct2, THEN mp, OF pending]
  have never: "fst (RunAssistant 1000 plain_lib ?tm ''asst_1'' ''v1'' failed_world) = None" .
  from run seen again step never show ?thesis by blast
qed

subsection \<open>C3: how many creation calls a session makes\<close>

text \<open>
  C3 says that one initialize-session followed by any number of ask-question calls
  issues at most one thread-creation call. It does not when the creation fails: the
  provider creates the assistant and refuses everything after it, each of the two
  questions misses the thread key and sends its own thread-creation request.
\<close>

theorem C3_counterexample:
  "thread_creations
     (session 3 plain_lib v1_request ''asst_1'' [''What is this?'', ''And then?''] refusing_world) = 2
   \<and> assistant_creations
     (session 3 plain_lib v1_request ''asst_1'' [''What is this?'', ''And then?''] refusing_world) = 1"
  by (simp add: session_def thread_creations_def assistant_creations_def is_thread_creation_def
      is_assistant_creation_def threads_url_def assistants_url_def post_headers_def
      run_eqs fixture_defs)

text \<open>
  C3 as amended. A session (one creation of the assistant, then the questions) issues
  at most one context-creation call. It issues at most one thread-creation call
  provided that the first question resolves its thread (its lookup hits, or its
  creation and its write succeed) and no store fault reads as the miss \<open>redis: nil\<close>;
  the expiry of keys is outside the model. For one call of
  \<open>GetOrCreateThreadManager\<close>: when the lookup of the thread key hits, the stored
  ThreadID is returned and the world is what it was but for the lookup in the command
  log and the entry in the map, so no request is sent; a request is sent only when the
  lookup reports the miss; and when the call succeeds after a miss, one thread-creation
  request was sent and the new ID is stored under the thread key with an expiry of
  86400 seconds.
\<close>

theorem C3_creations_per_session:
  "assistant_creations (session fuel L initReq assistantID questions w)
     \<le> Suc (assistant_creations w)
   \<and> ((\<forall>n. store_fault w n \<noteq> Some ''redis: nil'')
      \<and> fst (GetOrCreateThreadManager L (VideoID initReq) assistantID
                (snd (CreateAssistantWithMetadata L initReq w))) = Inr tm
      \<longrightarrow> thread_creations (session fuel L initReq assistantID questions w)
            \<le> Suc (thread_creations w))
   \<and> (fst (redis_Get (''thread_id:'' @ videoID) w') = Inr t
      \<longrightarrow> GetOrCreateThreadManager L videoID assistantID w' =
           (Inr \<lparr>ThreadID = t\<rparr>,
            w'\<lparr>store_log := store_log w' @ [GET (''thread_id:'' @ videoID)],
               threadManagers := (threadManagers w')(assistantID \<mapsto> \<lparr>ThreadID = t\<rparr>)\<rparr>))
   \<and> (sent (snd (GetOrCreateThreadManager L videoID assistantID w')) \<noteq> sent w'
      \<longrightarrow> fst (redis_Get (''thread_id:'' @ videoID) w') = Inl ''redis: nil'')
   \<and> (fst (GetOrCreateThreadManager L videoID assistantID w') = Inr tm'
      \<and> fst (redis_Get (''thread_id:'' @ videoID) w') = Inl ''redis: nil''
      \<longrightarrow> store (snd (GetOrCreateThreadManager L videoID assistantID w')) (''thread_id:'' @ videoID)
            = Some (Str (ThreadID tm'), Some 86400)
          \<and> thread_creations (snd (GetOrCreateThreadManager L videoID assistantID w'))
            = Suc (thread_creations w'))"
proof (intro conjI impI)
  let ?w1 = "snd (CreateAssistantWithMetadata L initReq w)"
  show "assistant_creations (session fuel L initReq assistantID questions w)
     \<le> Suc (assistant_creations w)"
    by (simp add: session_def ask_all_assistant_creations CreateAssistant_creations)
  show "thread_creations (session fuel L initReq assistantID questions w) \<le> Suc (thread_creations w)"
    if "(\<forall>n. store_fault w n \<noteq> Some ''redis: nil'')
      \<and> fst (GetOrCreateThreadManager L (VideoID initReq) assistantID ?w1) = Inr tm"
  proof -
    from that have "\<forall>n. store_fault ?w1 n \<noteq> Some ''redis: nil''" by simp
    with that have "thread_creations (snd (ask_all fuel L (VideoID initReq) assistantID questions ?w1))
        \<le> Suc (thread_creations ?w1)"
      by (intro ask_all_resolved) blast+
    then show ?thesis
      by (simp add: session_def CreateAssistant_creations)
  qed
  show "GetOrCreateThreadManager L videoID assistantID w' =
           (Inr \<lparr>ThreadID = t\<rparr>,
            w'\<lparr>store_log := store_log w' @ [GET (''thread_id:'' @ videoID)],
               threadManagers := (threadManagers w')(assistantID \<mapsto> \<lparr>ThreadID = t\<rparr>)\<rparr>)"
    if "fst (redis_Get (''thread_id:'' @ videoID) w') = Inr t"
    using that by (rule GetOrCreate_hit)
  show "fst (redis_Get (''thread_id:'' @ videoID) w') = Inl ''redis: nil''"
    if "sent (snd (GetOrCreateThreadManager L videoID assistantID w')) \<noteq> sent w'"
    using that GetOrCreate_no_miss by blast
  show "store (snd (GetOrCreateThreadManager L videoID assistantID w')) (''thread_id:'' @ videoID)
            = Some (Str (ThreadID tm'), Some 86400)"
    and "thread_creations (snd (GetOrCreateThreadManager L videoID assistantID w'))
            = Suc (thread_creations w')"
    if "fst (GetOrCreateThreadManager L videoID assistantID w') = Inr tm'
      \<and> fst (redis_Get (''thread_id:'' @ videoID) w') = Inl ''redis: nil''"
    using that GetOrCreate_miss_created by blast+
qed

text \<open>
  The witness: the session of two questions that all succeed, a lookup that hits, and
  a lookup that misses on a fresh store.
\<close>

theorem C3_witness:
  "assistant_creations
     (session 3 plain_lib v1_request ''asst_1'' [''What is this?'', ''And then?''] session_world) \<le> 1
   \<and> thread_creations
     (session 3 plain_lib v1_request ''asst_1'' [''What is this?'', ''And then?''] session_world) \<le> 1
   \<and> GetOrCreateThreadManager plain_lib ''v1'' ''asst_1''
        (hello_world\<lparr>store := [''thread_id:v1'' \<mapsto> (Str ''thread_9'', Some 86400)]\<rparr>)
      = (Inr \<lparr>ThreadID = ''thread_9''\<rparr>,
         hello_world\<lparr>store := [''thread_id:v1'' \<mapsto> (Str ''thread_9'', Some 86400)],
                      store_log := [GET ''thread_id:v1''],
                      threadManagers := [''asst_1'' \<mapsto> \<lparr>ThreadID = ''thread_9''\<rparr>]\<rparr>)
   \<and> store (snd (GetOrCreateThreadManager plain_lib ''v1'' ''asst_1'' hello_world)) ''thread_id:v1''
      = Some (Str ''thread_1'', Some 86400)
   \<and> thread_creations (snd (GetOrCreateThreadManager plain_lib ''v1'' ''asst_1'' hello_world)) = 1"
proof -
  let ?hit = "hello_world\<lparr>store := [''thread_id:v1'' \<mapsto> (Str ''thread_9'', Some 86400)]\<rparr>"
  note claim = C3_creations_per_session[where L = plain_lib and assistantID = "''asst_1''"]
  have quiet: "(\<forall>n. store_fault session_world n \<noteq> Some ''redis: nil'')
      \<and> fst (GetOrCreateThreadManager plain_lib (VideoID v1_request) ''asst_1''
                (snd (CreateAssistantWithMetadata plain_lib v1_request session_world)))
          = Inr \<lparr>ThreadID = ''thread_1''\<rparr>"
    by (simp add: run_eqs fixture_defs)
  have hit: "fst (redis_Get (''thread_id:'' @ ''v1'') ?hit) = Inr ''thread_9''"
    by (simp add: run_eqs fixture_defs)
  have miss: "fst (GetOrCreateThreadManager plain_lib ''v1'' ''asst_1'' hello_world)
          = Inr \<lparr>ThreadID = ''thread_1''\<rparr>
      \<and> fst (redis_Get (''thread_id:'' @ ''v1'') hello_world) = Inl ''redis: nil''"
    by (simp add: run_eqs fixture_defs)
  have zero: "assistant_creations session_world = 0" "thread_creations session_world = 0"
    "thread_creations hello_world = 0"
    by (simp_all add: assistant_creations_def thread_creations_def fixture_defs)
  note s = claim[where fuel = 3 and initReq = v1_request
      and questions = "[''What is this?'', ''And then?'']" and w = session_world]
  have a: "assistant_creations
     (session 3 plain_lib v1_request ''asst_1'' [''What is this?'', ''And then?''] session_world) \<le> 1"
    using s[THEN conjunct1] zero by simp
  have b: "thread_creations
     (session 3 plain_lib v1_request ''asst_1'' [''What is this?'', ''And then?''] session_world) \<le> 1"
    using s[where tm = "\<lparr>ThreadID = ''thread_1''\<rparr>", THEN conjunct2, THEN conjunct1, THEN mp, OF quiet]
      zero by simp
  have c: "GetOrCreateThreadManager plain_lib ''v1'' ''asst_1'' ?hit
      = (Inr \<lparr>ThreadID = ''thread_9''\<rparr>,
         hello_world\<lparr>store := [''thread_id:v1'' \<mapsto> (Str ''thread_9'', Some 86400)],
                      store_log := [GET ''thread_id:v1''],
                      threadManagers := [''asst_1'' \<mapsto> \<lparr>ThreadID = ''thread_9''\<rparr>]\<rparr>)"
    using claim[where videoID = "''v1''" and w' = ?hit and t = "''thread_9''",
        THEN conjunct2, THEN conjunct2, THEN conjunct1, THEN mp, OF hit]
    by (simp add: fixture_defs)
  have d: "store (snd (GetOrCreateThreadManager plain_lib ''v1'' ''asst_1'' hello_world)) ''thread_id:v1''
      = Some (Str ''thread_1'', Some 86400)
   \<and> thread_creations (snd (GetOrCreateThreadManager plain_lib ''v1'' ''asst_1'' hello_world)) = 1"
    using claim[where videoID = "''v1''" and w' = hello_world and tm' = "\<lparr>ThreadID = ''thread_1''\<rparr>",
        THEN conjunct2, THEN conjunct2, THEN conjunct2, THEN conjunct2, THEN mp, OF miss]
      zero by simp
  from a b c d show ?thesis by blast
qed

subsection \<open>C4: the keys of the store\<close>

text \<open>
  C4 names the keys \<open>context:<VideoID>\<close> and \<open>thread:<VideoID>\<close>. The code writes
  neither: after a session for the video \<open>v1\<close> both are absent, and the identifiers
  are under \<open>assistant_id:v1\<close> and \<open>thread_id:v1\<close>.
\<close>

theorem C4_counterexample:
  "store (session 3 plain_lib v1_request ''asst_1'' [''What is this?''] session_world) ''context:v1''
     = None
   \<and> store (session 3 plain_lib v1_request ''asst_1'' [''What is this?''] session_world) ''thread:v1''
     = None
   \<and> store (session 3 plain_lib v1_request ''asst_1'' [''What is this?''] session_world)
        ''assistant_id:v1''
     = Some (Str ''asst_1'', Some 86400)
   \<and> store (session 3 plain_lib v1_request ''asst_1'' [''What is this?''] session_world)
        ''thread_id:v1''
     = Some (Str ''thread_1'', Some 86400)"
proof -
  let ?init = "CreateAssistantWithMetadata plain_lib v1_request session_world"
  have sent1: "length (sent (snd ?init)) = 1"
    and store1: "store (snd ?init) = [''assistant_id:v1'' \<mapsto> (Str ''asst_1'', Some 86400)]"
    and log1: "length (store_log (snd ?init)) = 1"
    by (simp_all add: run_eqs fixture_defs)
  have asked: "store (snd (AskAssistantQuestion 3 plain_lib ''v1'' ''asst_1'' ''What is this?'' w1))
      = [''assistant_id:v1'' \<mapsto> (Str ''asst_1'', Some 86400),
         ''thread_id:v1'' \<mapsto> (Str ''thread_1'', Some 86400),
         ''interactions:v1'' \<mapsto> (Lst [''What is this?'', ''Assistant: Hello, world.''], None)]"
    if "provider w1 = provider session_world" and "store_fault w1 = store_fault session_world"
      and "length (sent w1) = 1" and "length (store_log w1) = 1"
      and "store w1 = [''assistant_id:v1'' \<mapsto> (Str ''asst_1'', Some 86400)]"
    for w1
    using that
    by (simp add: run_eqs fixture_defs numeral_3_eq_3 del: assistant_message.simps)
  have "store (snd (AskAssistantQuestion 3 plain_lib ''v1'' ''asst_1'' ''What is this?'' (snd ?init)))
      = [''assistant_id:v1'' \<mapsto> (Str ''asst_1'', Some 86400),
         ''thread_id:v1'' \<mapsto> (Str ''thread_1'', Some 86400),
         ''interactions:v1'' \<mapsto> (Lst [''What is this?'', ''Assistant: Hello, world.''], None)]"
    by (rule asked) (simp_all add: sent1 log1 store1)
  then have "store (session 3 plain_lib v1_request ''asst_1'' [''What is this?''] session_world)
      = [''assistant_id:v1'' \<mapsto> (Str ''asst_1'', Some 86400),
         ''thread_id:v1'' \<mapsto> (Str ''thread_1'', Some 86400),
         ''interactions:v1'' \<mapsto> (Lst [''What is this?'', ''Assistant: Hello, world.''], None)]"
    by (simp add: session_def ask_all_snd v1_request_def split: option.split)
  then show ?thesis by simp
qed

text \<open>
  C4 as amended. The context mapping is stored under \<open>assistant_id:<VideoID>\<close> with an
  expiry of 86400 seconds, the thread mapping under \<open>thread_id:<VideoID>\<close> with the same
  expiry (and only when the lookup did not return an identifier), and the interaction
  history under \<open>interactions:<VideoID>\<close> as a list: a successful post appends the
  content, a successful run appends the prefixed reply, and the expiry of the key is
  left as it was, which is none for a key that did not exist. Over a whole session every
  Interaction Log is only appended to, and no key other than these three is written.
\<close>

theorem C4_keys_written:
  "(fst (CreateAssistantWithMetadata L initReq w) = Inr createID \<longrightarrow>
      store (snd (CreateAssistantWithMetadata L initReq w))
        = (store w)(''assistant_id:'' @ VideoID initReq \<mapsto> (Str createID, Some 86400)))
   \<and> (fst (GetOrCreateThreadManager L videoID assistantID w) = Inr tm \<longrightarrow>
      store (snd (GetOrCreateThreadManager L videoID assistantID w))
        = (case fst (redis_Get (''thread_id:'' @ videoID) w) of
             Inr t \<Rightarrow> store w
           | Inl e \<Rightarrow> (store w)(''thread_id:'' @ videoID \<mapsto> (Str (ThreadID tm), Some 86400))))
   \<and> (fst (AddMessageToThread L tm' role content videoID w) = None \<longrightarrow>
      store (snd (AddMessageToThread L tm' role content videoID w))
        = (store w)(''interactions:'' @ videoID \<mapsto>
             (Lst (InteractionLog w videoID @ [content]), expiry w (''interactions:'' @ videoID))))
   \<and> (fst (RunAssistant fuel L tm' assistantID videoID w) = Some (Inr reply) \<longrightarrow>
      store (snd (RunAssistant fuel L tm' assistantID videoID w))
        = (store w)(''interactions:'' @ videoID \<mapsto>
             (Lst (InteractionLog w videoID @ [''Assistant: '' @ reply]),
              expiry w (''interactions:'' @ videoID))))
   \<and> (store w (''interactions:'' @ videoID) = None \<longrightarrow>
        expiry w (''interactions:'' @ videoID) = None)
   \<and> only_appended w (session fuel L initReq assistantID questions w)
   \<and> (k \<noteq> ''assistant_id:'' @ VideoID initReq \<and> k \<noteq> ''thread_id:'' @ VideoID initReq
      \<and> k \<noteq> ''interactions:'' @ VideoID initReq \<longrightarrow>
        store (session fuel L initReq assistantID questions w) k = store w k)"
proof (intro conjI impI)
  show "store (snd (CreateAssistantWithMetadata L initReq w))
        = (store w)(''assistant_id:'' @ VideoID initReq \<mapsto> (Str createID, Some 86400))"
    if "fst (CreateAssistantWithMetadata L initReq w) = Inr createID"
    using that by (simp add: CreateAssistant_store Hour_def)
  show "store (snd (GetOrCreateThreadManager L videoID assistantID w))
        = (case fst (redis_Get (''thread_id:'' @ videoID) w) of
             Inr t \<Rightarrow> store w
           | Inl e \<Rightarrow> (store w)(''thread_id:'' @ videoID \<mapsto> (Str (ThreadID tm), Some 86400)))"
    if "fst (GetOrCreateThreadManager L videoID assistantID w) = Inr tm"
    using GetOrCreate_Inr_store[OF that] by (simp add: Hour_def split: sum.split)
  show "store (snd (AddMessageToThread L tm' role content videoID w))
        = (store w)(''interactions:'' @ videoID \<mapsto>
             (Lst (InteractionLog w videoID @ [content]), expiry w (''interactions:'' @ videoID)))"
    if "fst (AddMessageToThread L tm' role content videoID w) = None"
    using that by (rule AddMessage_ok)
  show "store (snd (RunAssistant fuel L tm' assistantID videoID w))
        = (store w)(''interactions:'' @ videoID \<mapsto>
             (Lst (InteractionLog w videoID @ [''Assistant: '' @ reply]),
              expiry w (''interactions:'' @ videoID)))"
    if "fst (RunAssistant fuel L tm' assistantID videoID w) = Some (Inr reply)"
    using that by (rule RunAssistant_ok)
  show "expiry w (''interactions:'' @ videoID) = None"
    if "store w (''interactions:'' @ videoID) = None"
    using that by (simp add: expiry_def)
  show "only_appended w (session fuel L initReq assistantID questions w)"
    by (rule session_only_appended)
  show "store (session fuel L initReq assistantID questions w) k = store w k"
    if "k \<noteq> ''assistant_id:'' @ VideoID initReq \<and> k \<noteq> ''thread_id:'' @ VideoID initReq
      \<and> k \<noteq> ''interactions:'' @ VideoID initReq"
    using that by (simp add: session_store_rest)
qed

text \<open>
  The witness: each of the four writes on a fresh store, and a key of another
  namespace after a session.
\<close>

theorem C4_witness:
  "store (snd (CreateAssistantWithMetadata plain_lib v1_request session_world))
     = [''assistant_id:v1'' \<mapsto> (Str ''asst_1'', Some 86400)]
   \<and> store (snd (GetOrCreateThreadManager plain_lib ''v1'' ''asst_1'' hello_world))
     = [''thread_id:v1'' \<mapsto> (Str ''thread_1'', Some 86400)]
   \<and> store (snd (AddMessageToThread plain_lib \<lparr>ThreadID = ''thread_1''\<rparr> ''user'' ''What is this?''
                   ''v1'' (fresh_world (\<lambda>n. ok []))))
     = [''interactions:v1'' \<mapsto> (Lst [''What is this?''], None)]
   \<and> store (snd (RunAssistant 3 plain_lib \<lparr>ThreadID = ''thread_1''\<rparr> ''asst_1'' ''v1''
                   (fresh_world (scripted (drop 2 one_question) (SendFailed ''connection refused'')))))
     = [''interactions:v1'' \<mapsto> (Lst [''Assistant: Hello, world.''], None)]
   \<and> store (session 3 plain_lib v1_request ''asst_1'' [''What is this?''] session_world) ''other:v1''
     = None"
proof -
  let ?tm = "\<lparr>ThreadID = ''thread_1''\<rparr>"
  let ?wm = "fresh_world (\<lambda>n. ok [])"
  let ?wr = "fresh_world (scripted (drop 2 one_question) (SendFailed ''connection refused''))"
  note claim = C4_keys_written[where L = plain_lib and assistantID = "''asst_1''"]
  have a: "fst (CreateAssistantWithMetadata plain_lib v1_request session_world) = Inr ''asst_1''"
    by (simp add: run_eqs fixture_defs)
  have b: "fst (GetOrCreateThreadManager plain_lib ''v1'' ''asst_1'' hello_world) = Inr ?tm"
    by (simp add: run_eqs fixture_defs)
  have c: "fst (AddMessageToThread plain_lib ?tm ''user'' ''What is this?'' ''v1'' ?wm) = None"
    by (simp add: run_eqs fixture_defs)
  have d: "fst (RunAssistant 3 plain_lib ?tm ''asst_1'' ''v1'' ?wr) = Some (Inr ''Hello, world.'')"
    by (simp add: run_eqs fixture_defs numeral_3_eq_3 del: assistant_message.simps)
  have e: "''other:v1'' \<noteq> ''assistant_id:'' @ VideoID v1_request
      \<and> ''other:v1'' \<noteq> ''thread_id:'' @ VideoID v1_request
      \<and> ''other:v1'' \<noteq> ''interactions:'' @ VideoID v1_request"
    by simp
  have a': "store (snd (CreateAssistantWithMetadata plain_lib v1_request session_world))
     = [''assistant_id:v1'' \<mapsto> (Str ''asst_1'', Some 86400)]"
    using claim[where initReq = v1_request and w = session_world and createID = "''asst_1''",
        THEN conjunct1, THEN mp, OF a]
    by (simp add: fixture_defs)
  have b': "store (snd (GetOrCreateThreadManager plain_lib ''v1'' ''asst_1'' hello_world))
     = [''thread_id:v1'' \<mapsto> (Str ''thread_1'', Some 86400)]"
    using claim[where videoID = "''v1''" and w = hello_world and tm = ?tm,
        THEN conjunct2, THEN conjunct1, THEN mp, OF b]
    by (simp add: run_eqs fixture_defs)
  have c': "store (snd (AddMessageToThread plain_lib ?tm ''user'' ''What is this?'' ''v1'' ?wm))
     = [''interactions:v1'' \<mapsto> (Lst [''What is this?''], None)]"
    using claim[where videoID = "''v1''" and w = ?wm and tm' = ?tm and role = "''user''"
          and content = "''What is this?''",
        THEN conjunct2, THEN conjunct2, THEN conjunct1, THEN mp, OF c]
    by (simp add: run_eqs fixture_defs)
  have d': "store (snd (RunAssistant 3 plain_lib ?tm ''asst_1'' ''v1'' ?wr))
     = [''interactions:v1'' \<mapsto> (Lst [''Assistant: Hello, world.''], None)]"
    using claim[where videoID = "''v1''" and w = ?wr and tm' = ?tm and fuel = 3
          and reply = "''Hello, world.''",
        THEN conjunct2, THEN conjunct2, THEN conjunct2, THEN conjunct1, THEN mp, OF d]
    by (simp add: run_eqs fixture_defs)
  have e': "store (session 3 plain_lib v1_request ''asst_1'' [''What is this?''] session_world)
      ''other:v1'' = None"
    using claim[where initReq = v1_request and w = session_world and fuel = 3
          and questions = "[''What is this?'']" and k = "''other:v1''",
        THEN conjunct2, THEN conjunct2, THEN conjunct2, THEN conjunct2, THEN conjunct2,
        THEN conjunct2, THEN mp, OF e]
    by (simp add: fixture_defs)
  from a' b' c' d' e' show ?thesis by blast
qed

end
